theory Spec2Isabelle
  imports Main "HOL-Library.Word"
begin

section \<open>AgentKit: request-time verification and access policy\<close>

text \<open>
  A shallow embedding of the TypeScript sources of the AgentKit extension:
  the chain codecs (\<open>solana.ts\<close>, \<open>evm.ts\<close>), the header parser (\<open>parse.ts\<close>),
  the message validator (\<open>validate.ts\<close>), the signature verifier (\<open>verify.ts\<close>),
  the AgentBook client (\<open>agent-book.ts\<close>), the reference storage (\<open>storage.ts\<close>)
  and the hooks (\<open>hooks.ts\<close>).

  Conventions.
  \<^item> A JavaScript string is a \<open>string\<close>; the characters are bytes, so the model
    speaks of ASCII text.
  \<^item> \<open>undefined\<close> and \<open>null\<close> are \<open>None\<close>; a thrown exception (a rejected promise
    of an \<open>async\<close> function) is \<open>Inl e\<close>, a returned value is \<open>Inr v\<close>.
  \<^item> The functions of the JavaScript runtime and of third-party packages
    (\<open>URL\<close>, \<open>Date\<close>, \<open>JSON.parse\<close>, \<open>siwe\<close>, \<open>viem\<close>, \<open>tweetnacl\<close>,
    \<open>@scure/base\<close>, \<open>@x402/core\<close>, the messages of \<open>zod\<close>) are fields of an
    environment record \<open>js_env\<close>: every theorem that is stated for an arbitrary
    environment holds whatever these functions compute.
  \<^item> \<open>await\<close> is sequential composition: one hook invocation runs from start to
    end on the state it is given.
\<close>

subsection \<open>Errors and string helpers\<close>

text \<open>A thrown value: an \<open>Error\<close> (or one of its subclasses) with its message, or a
  value that is not an instance of \<open>Error\<close>.\<close>

datatype js_error = Error string | TypeError string | SyntaxError string | RangeError string | NonError

text \<open>\<open>error instanceof Error ? error.message : dflt\<close>\<close>

fun message_or :: "js_error \<Rightarrow> string \<Rightarrow> string" where
  "message_or (Error m) dflt = m"
| "message_or (TypeError m) dflt = m"
| "message_or (SyntaxError m) dflt = m"
| "message_or (RangeError m) dflt = m"
| "message_or NonError dflt = dflt"

text \<open>\<open>s.startsWith(pre)\<close>\<close>

definition startsWith :: "string \<Rightarrow> string \<Rightarrow> bool" where
  "startsWith s pre = (take (length pre) s = pre)"

text \<open>\<open>s.split(sep)\<close> for a one-character separator: never the empty list.\<close>

fun split :: "char \<Rightarrow> string \<Rightarrow> string list" where
  "split sep [] = [[]]"
| "split sep (c # cs) =
     (if c = sep then [] # split sep cs
      else (case split sep cs of [] \<Rightarrow> [[c]] | w # ws \<Rightarrow> (c # w) # ws))"

text \<open>\<open>parts.join(sep)\<close>\<close>

fun join :: "string \<Rightarrow> string list \<Rightarrow> string" where
  "join sep [] = []"
| "join sep [x] = x"
| "join sep (x # y # ys) = x @ sep @ join sep (y # ys)"

text \<open>The value of an optional string in a condition: \<open>undefined\<close> and \<open>''\<close> are falsy.\<close>

fun truthy :: "string option \<Rightarrow> bool" where
  "truthy None = False"
| "truthy (Some s) = (s \<noteq> [])"

text \<open>An optional string inside a template literal: \<open>`${undefined}`\<close> is \<open>undefined\<close>.\<close>

fun template :: "string option \<Rightarrow> string" where
  "template None = ''undefined''"
| "template (Some s) = s"

fun index_of :: "char \<Rightarrow> string \<Rightarrow> nat option" where
  "index_of c [] = None"
| "index_of c (x # xs) = (if x = c then Some 0 else map_option Suc (index_of c xs))"

text \<open>\<open>s.toLowerCase()\<close> on ASCII text.\<close>

definition lower_char :: "char \<Rightarrow> char" where
  "lower_char c =
     (case index_of c ''ABCDEFGHIJKLMNOPQRSTUVWXYZ'' of
        None \<Rightarrow> c
      | Some i \<Rightarrow> ''abcdefghijklmnopqrstuvwxyz'' ! i)"

definition toLowerCase :: "string \<Rightarrow> string" where
  "toLowerCase s = map lower_char s"

subsection \<open>Integers as text: \<open>BigInt(s)\<close>, \<open>String(n)\<close>, \<open>toHex(n)\<close>\<close>

definition digit_char :: "nat \<Rightarrow> char" where
  "digit_char d = ''0123456789abcdef'' ! d"

function digits_of :: "nat \<Rightarrow> nat \<Rightarrow> string" where
  "digits_of base n =
     (if base < 2 \<or> n < base then [digit_char n]
      else digits_of base (n div base) @ [digit_char (n mod base)])"
  by pat_completeness auto
termination
  by (relation "measure (\<lambda>(base, n). n)") auto

declare digits_of.simps [simp del]

text \<open>\<open>String(n)\<close> of a bigint: decimal, with a minus sign below zero.\<close>

definition String_of_bigint :: "int \<Rightarrow> string" where
  "String_of_bigint n =
     (if n < 0 then CHR ''-'' # digits_of 10 (nat (- n)) else digits_of 10 (nat n))"

text \<open>viem's \<open>toHex\<close> of a non-negative bigint: \<open>`0x${value.toString(16)}`\<close>.\<close>

definition toHex :: "nat \<Rightarrow> string" where
  "toHex n = ''0x'' @ digits_of 16 n"

definition digit_val :: "nat \<Rightarrow> char \<Rightarrow> nat option" where
  "digit_val base c =
     (case index_of (lower_char c) ''0123456789abcdef'' of
        None \<Rightarrow> None
      | Some i \<Rightarrow> if i < base then Some i else None)"

text \<open>The value of a non-empty run of digits; \<open>None\<close> when a character is not a digit
  of the base.\<close>

fun digits_value :: "nat \<Rightarrow> nat \<Rightarrow> string \<Rightarrow> nat option" where
  "digits_value base acc [] = Some acc"
| "digits_value base acc (c # cs) =
     (case digit_val base c of
        None \<Rightarrow> None
      | Some d \<Rightarrow> digits_value base (acc * base + d) cs)"

definition is_space :: "char \<Rightarrow> bool" where
  "is_space c = (c \<in> set [CHR 0x09, CHR 0x0A, CHR 0x0B, CHR 0x0C, CHR 0x0D, CHR 0x20])"

definition trim :: "string \<Rightarrow> string" where
  "trim s = rev (dropWhile is_space (rev (dropWhile is_space s)))"

definition unsigned_digits :: "nat \<Rightarrow> string \<Rightarrow> int option" where
  "unsigned_digits base ds =
     (if ds = [] then None else map_option int (digits_value base 0 ds))"

text \<open>
  \<open>BigInt(s)\<close> for a string argument (ECMAScript \<open>StringToBigInt\<close>): white space
  around the literal is dropped, the empty literal is \<open>0n\<close>, a decimal literal may
  carry one sign, and the prefixes \<open>0x\<close>, \<open>0o\<close>, \<open>0b\<close> introduce unsigned
  hexadecimal, octal and binary literals. \<open>None\<close> is the thrown \<open>SyntaxError\<close>.
\<close>

definition BigInt :: "string \<Rightarrow> int option" where
  "BigInt s =
     (let t = trim s in
      if t = [] then Some 0
      else if startsWith (toLowerCase t) ''0x'' then unsigned_digits 16 (drop 2 t)
      else if startsWith (toLowerCase t) ''0o'' then unsigned_digits 8 (drop 2 t)
      else if startsWith (toLowerCase t) ''0b'' then unsigned_digits 2 (drop 2 t)
      else if hd t = CHR ''-'' then map_option uminus (unsigned_digits 10 (tl t))
      else if hd t = CHR ''+'' then unsigned_digits 10 (tl t)
      else unsigned_digits 10 t)"

text \<open>Division of bigints truncates towards zero.\<close>

definition bigint_div :: "int \<Rightarrow> int \<Rightarrow> int" where
  "bigint_div a b = sgn a * sgn b * (\<bar>a\<bar> div \<bar>b\<bar>)"

subsection \<open>The challenge payload (\<open>types.ts\<close>)\<close>

datatype SignatureType = eip191 | ed25519

datatype SignatureScheme = scheme_eip191 | scheme_eip1271 | scheme_eip6492 | scheme_siws

text \<open>\<open>AgentkitPayload\<close>: what \<open>AgentkitPayloadSchema\<close> infers.\<close>

record AgentkitPayload =
  p_domain :: string
  p_address :: string
  p_statement :: "string option"
  p_uri :: string
  p_version :: string
  p_chainId :: string
  p_type :: SignatureType
  p_nonce :: string
  p_issuedAt :: string
  p_expirationTime :: "string option"
  p_notBefore :: "string option"
  p_requestId :: "string option"
  p_resources :: "string list option"
  p_signatureScheme :: "SignatureScheme option"
  p_signature :: string

text \<open>\<open>CompleteAgentkitInfo\<close>: the fields a codec formats.\<close>

record CompleteAgentkitInfo =
  i_domain :: string
  i_uri :: string
  i_statement :: "string option"
  i_version :: string
  i_chainId :: string
  i_type :: SignatureType
  i_nonce :: string
  i_issuedAt :: string
  i_expirationTime :: "string option"
  i_notBefore :: "string option"
  i_requestId :: "string option"
  i_resources :: "string list option"

subsection \<open>The Solana codec (\<open>solana.ts\<close>)\<close>

text \<open>\<open>const [, reference] = chainId.split(':')\<close>: the second part, \<open>undefined\<close>
  when the identifier has no colon.\<close>

definition extractSolanaChainReference :: "string \<Rightarrow> string option" where
  "extractSolanaChainReference chainId =
     (case split CHR '':'' chainId of
        _ # reference # _ \<Rightarrow> Some reference
      | _ \<Rightarrow> None)"

text \<open>The array \<open>lines\<close> of \<open>formatSIWSMessage\<close> after its last \<open>push\<close>; every
  \<open>let\<close> is one statement of the source.\<close>

definition formatSIWSMessage_lines :: "CompleteAgentkitInfo \<Rightarrow> string \<Rightarrow> string list" where
  "formatSIWSMessage_lines info address =
     (let lines0 = [i_domain info @ '' wants you to sign in with your Solana account:'', address, ''''];
          lines1 = (if truthy (i_statement info)
                    then lines0 @ [the (i_statement info), '''']
                    else lines0);
          lines2 = lines1 @
            [''URI: '' @ i_uri info,
             ''Version: '' @ i_version info,
             ''Chain ID: '' @ template (extractSolanaChainReference (i_chainId info)),
             ''Nonce: '' @ i_nonce info,
             ''Issued At: '' @ i_issuedAt info];
          lines3 = (if truthy (i_expirationTime info)
                    then lines2 @ [''Expiration Time: '' @ the (i_expirationTime info)]
                    else lines2);
          lines4 = (if truthy (i_notBefore info)
                    then lines3 @ [''Not Before: '' @ the (i_notBefore info)]
                    else lines3);
          lines5 = (if truthy (i_requestId info)
                    then lines4 @ [''Request ID: '' @ the (i_requestId info)]
                    else lines4)
      in (case i_resources info of
            None \<Rightarrow> lines5
          | Some resources \<Rightarrow>
              if length resources > 0
              then (lines5 @ [''Resources:'']) @ map (\<lambda>resource. ''- '' @ resource) resources
              else lines5))"

text \<open>\<open>lines.join('\n')\<close>\<close>

definition formatSIWSMessage :: "CompleteAgentkitInfo \<Rightarrow> string \<Rightarrow> string" where
  "formatSIWSMessage info address = join [CHR 0x0A] (formatSIWSMessage_lines info address)"

subsection \<open>The JavaScript environment\<close>

text \<open>What \<open>new URL(s)\<close> exposes to the sources; \<open>None\<close> is the thrown \<open>TypeError\<close>.\<close>

record url =
  hostname :: string
  origin :: string
  pathname :: string

text \<open>The arguments of \<open>new SiweMessage({...})\<close>.\<close>

record SiweMessage_params =
  sm_domain :: string
  sm_address :: string
  sm_statement :: "string option"
  sm_uri :: string
  sm_version :: string
  sm_chainId :: nat
  sm_nonce :: string
  sm_issuedAt :: string
  sm_expirationTime :: "string option"
  sm_notBefore :: "string option"
  sm_requestId :: "string option"
  sm_resources :: "string list option"

text \<open>\<open>EVMMessageVerifier\<close>: the arguments are \<open>address\<close>, \<open>message\<close>, \<open>signature\<close>.\<close>

type_synonym EVMMessageVerifier = "string \<Rightarrow> string \<Rightarrow> string \<Rightarrow> js_error + bool"

text \<open>
  What \<open>getContractAddress\<close> hands to \<open>readContract\<close> as the contract's
  \<open>address\<close>: an address given as text, or a member that the table of deployments
  inherits from \<open>Object.prototype\<close>, named by its key (a function, or for
  \<open>__proto__\<close> the prototype itself; never a string).
\<close>

datatype deployment = Address string | Inherited string

text \<open>A viem \<open>PublicClient\<close>, as far as the AgentBook client uses it:
  \<open>readContract\<close> of \<open>lookupHuman(address) returns (uint256)\<close>, given the contract
  address and the agent's address.\<close>

type_synonym PublicClient = "deployment \<Rightarrow> string \<Rightarrow> js_error + 256 word"

text \<open>A value that \<open>JSON.parse\<close> returns. An object lists each key once. No schema
  of the sources accepts a number, so its value is kept as an integer only.\<close>

datatype json =
    JNull
  | JBool bool
  | JNumber int
  | JString string
  | JArray "json list"
  | JObject "(string \<times> json) list"

record js_env =
  URL_new :: "string \<Rightarrow> url option"
  Date_getTime :: "string \<Rightarrow> int option"
  now_age :: int
  now_expiration :: int
  now_notBefore :: int
  now_pending :: int
  Base64EncodedRegex_test :: "string \<Rightarrow> bool"
  safeBase64Decode :: "string \<Rightarrow> js_error + string"
  JSON_parse :: "string \<Rightarrow> js_error + json"
  zod_issues :: "json \<Rightarrow> string"
  SiweMessage_prepareMessage :: "SiweMessage_params \<Rightarrow> js_error + string"
  viem_verifyMessage :: EVMMessageVerifier
  base58_decode :: "string \<Rightarrow> js_error + 8 word list"
  nacl_sign_detached_verify :: "string \<Rightarrow> 8 word list \<Rightarrow> 8 word list \<Rightarrow> bool"
  createPublicClient :: "nat \<Rightarrow> string option \<Rightarrow> js_error + PublicClient"

text \<open>
  The fields:
  \<^item> \<open>URL_new\<close>: \<open>new URL(s)\<close>; \<open>Date_getTime\<close>: \<open>new Date(s).getTime()\<close>, \<open>None\<close>
    for \<open>NaN\<close>;
  \<^item> \<open>now_age\<close>, \<open>now_expiration\<close>, \<open>now_notBefore\<close>: the clock as read by
    \<open>Date.now()\<close> and the two \<open>new Date()\<close> of \<open>validateAgentkitMessage\<close>, in
    milliseconds; \<open>now_pending\<close>: \<open>Date.now()\<close> in the discount branch of the
    request hook;
  \<^item> \<open>Base64EncodedRegex_test\<close>, \<open>safeBase64Decode\<close>: \<open>@x402/core/utils\<close>;
  \<^item> \<open>zod_issues\<close>: the text zod reports for a value its schema refuses;
  \<^item> \<open>SiweMessage_prepareMessage\<close>: \<open>new SiweMessage(params).prepareMessage()\<close>;
  \<^item> \<open>viem_verifyMessage\<close>: viem's \<open>verifyMessage\<close>;
  \<^item> \<open>base58_decode\<close>: \<open>base58.decode\<close> of \<open>@scure/base\<close>;
  \<^item> \<open>nacl_sign_detached_verify\<close>: \<open>nacl.sign.detached.verify\<close> on the UTF-8
    bytes of the message, a signature of 64 bytes and a key of 32;
  \<^item> \<open>createPublicClient\<close>: viem's \<open>extractChain\<close>, \<open>http\<close> and
    \<open>createPublicClient\<close> for a numeric chain id and an optional RPC URL.
\<close>

subsection \<open>The header parser (\<open>parse.ts\<close>, \<open>types.ts\<close>)\<close>

definition AGENTKIT :: string where
  "AGENTKIT = ''agentkit''"

text \<open>\<open>z.string()\<close> and \<open>z.string().optional()\<close> on the property \<open>k\<close> of an object. The
  outer \<open>None\<close> is an issue.\<close>

definition z_string :: "(string \<times> json) list \<Rightarrow> string \<Rightarrow> string option" where
  "z_string obj k = (case map_of obj k of Some (JString s) \<Rightarrow> Some s | _ \<Rightarrow> None)"

definition z_string_optional :: "(string \<times> json) list \<Rightarrow> string \<Rightarrow> string option option" where
  "z_string_optional obj k =
     (case map_of obj k of
        None \<Rightarrow> Some None
      | Some (JString s) \<Rightarrow> Some (Some s)
      | _ \<Rightarrow> None)"

fun z_string_array :: "json list \<Rightarrow> string list option" where
  "z_string_array [] = Some []"
| "z_string_array (JString s # vs) = map_option ((#) s) (z_string_array vs)"
| "z_string_array (_ # vs) = None"

definition z_string_array_optional :: "(string \<times> json) list \<Rightarrow> string \<Rightarrow> string list option option" where
  "z_string_array_optional obj k =
     (case map_of obj k of
        None \<Rightarrow> Some None
      | Some (JArray vs) \<Rightarrow> map_option Some (z_string_array vs)
      | _ \<Rightarrow> None)"

text \<open>\<open>z.enum(['eip191', 'ed25519'])\<close>\<close>

definition z_SignatureType :: "(string \<times> json) list \<Rightarrow> string \<Rightarrow> SignatureType option" where
  "z_SignatureType obj k =
     (case map_of obj k of
        Some (JString s) \<Rightarrow>
          if s = ''eip191'' then Some eip191
          else if s = ''ed25519'' then Some ed25519
          else None
      | _ \<Rightarrow> None)"

text \<open>\<open>z.enum(['eip191', 'eip1271', 'eip6492', 'siws']).optional()\<close>\<close>

definition z_SignatureScheme_optional ::
  "(string \<times> json) list \<Rightarrow> string \<Rightarrow> SignatureScheme option option" where
  "z_SignatureScheme_optional obj k =
     (case map_of obj k of
        None \<Rightarrow> Some None
      | Some (JString s) \<Rightarrow>
          if s = ''eip191'' then Some (Some scheme_eip191)
          else if s = ''eip1271'' then Some (Some scheme_eip1271)
          else if s = ''eip6492'' then Some (Some scheme_eip6492)
          else if s = ''siws'' then Some (Some scheme_siws)
          else None
      | _ \<Rightarrow> None)"

text \<open>\<open>AgentkitPayloadSchema.safeParse(raw)\<close>: \<open>Some data\<close> on success. Properties
  the schema does not name are dropped.\<close>

definition AgentkitPayloadSchema :: "json \<Rightarrow> AgentkitPayload option" where
  "AgentkitPayloadSchema raw =
     (case raw of
        JObject obj \<Rightarrow>
          Option.bind (z_string obj ''domain'') (\<lambda>domain.
          Option.bind (z_string obj ''address'') (\<lambda>address.
          Option.bind (z_string_optional obj ''statement'') (\<lambda>statement.
          Option.bind (z_string obj ''uri'') (\<lambda>uri.
          Option.bind (z_string obj ''version'') (\<lambda>version.
          Option.bind (z_string obj ''chainId'') (\<lambda>chainId.
          Option.bind (z_SignatureType obj ''type'') (\<lambda>type.
          Option.bind (z_string obj ''nonce'') (\<lambda>nonce.
          Option.bind (z_string obj ''issuedAt'') (\<lambda>issuedAt.
          Option.bind (z_string_optional obj ''expirationTime'') (\<lambda>expirationTime.
          Option.bind (z_string_optional obj ''notBefore'') (\<lambda>notBefore.
          Option.bind (z_string_optional obj ''requestId'') (\<lambda>requestId.
          Option.bind (z_string_array_optional obj ''resources'') (\<lambda>resources.
          Option.bind (z_SignatureScheme_optional obj ''signatureScheme'') (\<lambda>signatureScheme.
          Option.bind (z_string obj ''signature'') (\<lambda>signature.
            Some \<lparr>p_domain = domain, p_address = address, p_statement = statement,
                  p_uri = uri, p_version = version, p_chainId = chainId, p_type = type,
                  p_nonce = nonce, p_issuedAt = issuedAt,
                  p_expirationTime = expirationTime, p_notBefore = notBefore,
                  p_requestId = requestId, p_resources = resources,
                  p_signatureScheme = signatureScheme,
                  p_signature = signature\<rparr>)))))))))))))))
      | _ \<Rightarrow> None)"

definition parseAgentkitHeader :: "js_env \<Rightarrow> string \<Rightarrow> js_error + AgentkitPayload" where
  "parseAgentkitHeader env header =
     (if \<not> Base64EncodedRegex_test env header
      then Inl (Error ''Invalid agentkit header: not valid base64'')
      else
        (case safeBase64Decode env header of
           Inl e \<Rightarrow> Inl e
         | Inr jsonStr \<Rightarrow>
             (case JSON_parse env jsonStr of
                Inl (SyntaxError m) \<Rightarrow> Inl (Error ''Invalid agentkit header: not valid JSON'')
              | Inl e \<Rightarrow> Inl e
              | Inr rawPayload \<Rightarrow>
                  (case AgentkitPayloadSchema rawPayload of
                     None \<Rightarrow> Inl (Error (''Invalid agentkit header: '' @ zod_issues env rawPayload))
                   | Some data \<Rightarrow> Inr data))))"

subsection \<open>The message validator (\<open>validate.ts\<close>)\<close>

record AgentkitValidationResult =
  v_valid :: bool
  v_error :: "string option"

record AgentkitValidationOptions =
  maxAge :: "int option"
  checkNonce :: "(string \<Rightarrow> js_error + bool) option"

definition DEFAULT_MAX_AGE_MS :: int where
  "DEFAULT_MAX_AGE_MS = 5 * 60 * 1000"

definition quote :: string where
  "quote = [CHR 0x22]"

definition invalid :: "string \<Rightarrow> js_error + AgentkitValidationResult" where
  "invalid msg = Inr \<lparr>v_valid = False, v_error = Some msg\<rparr>"

text \<open>\<open>`${Math.round(age / 1000)}`\<close> for an integer \<open>age\<close>: \<open>Math.round\<close> rounds a
  half upwards.\<close>

definition round_seconds :: "int \<Rightarrow> string" where
  "round_seconds age = String_of_bigint ((age + 500) div 1000)"

text \<open>\<open>`${maxAge / 1000}`\<close> for an integer \<open>maxAge\<close>: at most three decimals, no
  trailing zero.\<close>

definition fraction3 :: "nat \<Rightarrow> string" where
  "fraction3 r =
     (if r mod 100 = 0 then [digit_char (r div 100)]
      else if r mod 10 = 0 then [digit_char (r div 100), digit_char (r div 10 mod 10)]
      else [digit_char (r div 100), digit_char (r div 10 mod 10), digit_char (r mod 10)])"

definition seconds :: "int \<Rightarrow> string" where
  "seconds ms =
     (let a = nat \<bar>ms\<bar>;
          whole = digits_of 10 (a div 1000);
          text = (if a mod 1000 = 0 then whole else whole @ ''.'' @ fraction3 (a mod 1000))
      in if ms < 0 then CHR ''-'' # text else text)"

text \<open>The last check of \<open>validateAgentkitMessage\<close>: \<open>options.checkNonce\<close>.\<close>

definition validate_nonce ::
  "AgentkitPayload \<Rightarrow> AgentkitValidationOptions \<Rightarrow> js_error + AgentkitValidationResult" where
  "validate_nonce message options =
     (case checkNonce options of
        None \<Rightarrow> Inr \<lparr>v_valid = True, v_error = None\<rparr>
      | Some check \<Rightarrow>
          (case check (p_nonce message) of
             Inl e \<Rightarrow> Inl e
           | Inr nonceValid \<Rightarrow>
               if \<not> nonceValid then invalid ''Nonce validation failed (possible replay attack)''
               else Inr \<lparr>v_valid = True, v_error = None\<rparr>))"

text \<open>From \<open>if (message.notBefore)\<close> on.\<close>

definition validate_notBefore ::
  "js_env \<Rightarrow> AgentkitPayload \<Rightarrow> AgentkitValidationOptions \<Rightarrow> js_error + AgentkitValidationResult" where
  "validate_notBefore env message options =
     (if truthy (p_notBefore message) then
        (case Date_getTime env (the (p_notBefore message)) of
           None \<Rightarrow> invalid ''Invalid notBefore timestamp''
         | Some notBefore \<Rightarrow>
             if now_notBefore env < notBefore
             then invalid ''Message not yet valid (notBefore is in the future)''
             else validate_nonce message options)
      else validate_nonce message options)"

text \<open>From \<open>if (message.expirationTime)\<close> on.\<close>

definition validate_expirationTime ::
  "js_env \<Rightarrow> AgentkitPayload \<Rightarrow> AgentkitValidationOptions \<Rightarrow> js_error + AgentkitValidationResult" where
  "validate_expirationTime env message options =
     (if truthy (p_expirationTime message) then
        (case Date_getTime env (the (p_expirationTime message)) of
           None \<Rightarrow> invalid ''Invalid expirationTime timestamp''
         | Some expiration \<Rightarrow>
             if expiration < now_expiration env
             then invalid ''Message expired''
             else validate_notBefore env message options)
      else validate_notBefore env message options)"

definition validateAgentkitMessage ::
  "js_env \<Rightarrow> AgentkitPayload \<Rightarrow> string \<Rightarrow> AgentkitValidationOptions
     \<Rightarrow> js_error + AgentkitValidationResult" where
  "validateAgentkitMessage env message expectedResourceUri options =
     (case URL_new env expectedResourceUri of
        None \<Rightarrow> Inl (TypeError ''Invalid URL'')
      | Some expectedUrl \<Rightarrow>
          (let max_age = (case maxAge options of None \<Rightarrow> DEFAULT_MAX_AGE_MS | Some m \<Rightarrow> m) in
           if p_domain message \<noteq> hostname expectedUrl then
             invalid (''Domain mismatch: expected '' @ quote @ hostname expectedUrl @ quote
                      @ '', got '' @ quote @ p_domain message @ quote)
           else
             (case URL_new env (p_uri message) of
                None \<Rightarrow> invalid (''Invalid URI: '' @ quote @ p_uri message @ quote)
              | Some messageUrl \<Rightarrow>
                  (let messageOrigin = origin messageUrl in
                   if messageOrigin \<noteq> origin expectedUrl then
                     invalid (''URI mismatch: expected origin '' @ quote @ origin expectedUrl @ quote
                              @ '', got '' @ quote @ messageOrigin @ quote)
                   else
                     (case Date_getTime env (p_issuedAt message) of
                        None \<Rightarrow> invalid ''Invalid issuedAt timestamp''
                      | Some issuedAt \<Rightarrow>
                          (let age = now_age env - issuedAt in
                           if age > max_age then
                             invalid (''Message too old: '' @ round_seconds age @ ''s exceeds ''
                                      @ seconds max_age @ ''s limit'')
                           else if age < 0 then invalid ''issuedAt is in the future''
                           else validate_expirationTime env message options))))))"

subsection \<open>The EVM codec (\<open>evm.ts\<close>)\<close>

definition is_digit :: "char \<Rightarrow> bool" where
  "is_digit c = (c \<in> set ''0123456789'')"

text \<open>\<open>/^eip155:(\d+)$/.exec(chainId)\<close>, then \<open>parseInt(match[1], 10)\<close>.\<close>

definition eip155_number :: "string \<Rightarrow> nat option" where
  "eip155_number chainId =
     (let ds = drop 7 chainId in
      if startsWith chainId ''eip155:'' \<and> ds \<noteq> [] \<and> list_all is_digit ds
      then digits_value 10 0 ds
      else None)"

definition extractEVMChainId :: "string \<Rightarrow> js_error + nat" where
  "extractEVMChainId chainId =
     (case eip155_number chainId of
        None \<Rightarrow> Inl (Error (''Invalid EVM chainId format: '' @ chainId @ ''. Expected eip155:<number>''))
      | Some n \<Rightarrow> Inr n)"

definition formatSIWEMessage :: "js_env \<Rightarrow> CompleteAgentkitInfo \<Rightarrow> string \<Rightarrow> js_error + string" where
  "formatSIWEMessage env info address =
     (case extractEVMChainId (i_chainId info) of
        Inl e \<Rightarrow> Inl e
      | Inr numericChainId \<Rightarrow>
          SiweMessage_prepareMessage env
            \<lparr>sm_domain = i_domain info, sm_address = address, sm_statement = i_statement info,
             sm_uri = i_uri info, sm_version = i_version info, sm_chainId = numericChainId,
             sm_nonce = i_nonce info, sm_issuedAt = i_issuedAt info,
             sm_expirationTime = i_expirationTime info, sm_notBefore = i_notBefore info,
             sm_requestId = i_requestId info, sm_resources = i_resources info\<rparr>)"

definition verifyEVMSignature ::
  "js_env \<Rightarrow> string \<Rightarrow> string \<Rightarrow> string \<Rightarrow> EVMMessageVerifier option \<Rightarrow> js_error + bool" where
  "verifyEVMSignature env message address signature verifier =
     (case verifier of
        Some verify \<Rightarrow> verify address message signature
      | None \<Rightarrow> viem_verifyMessage env address message signature)"

subsection \<open>The signature verifier (\<open>verify.ts\<close>)\<close>

record AgentkitVerifyResult =
  r_valid :: bool
  r_address :: "string option"
  r_error :: "string option"

record AgentkitVerifyOptions =
  evmVerifier :: "EVMMessageVerifier option"

text \<open>The object literal both \<open>verifyEVMPayload\<close> and \<open>verifySolanaPayload\<close> build.\<close>

definition payload_info :: "AgentkitPayload \<Rightarrow> CompleteAgentkitInfo" where
  "payload_info payload =
     \<lparr>i_domain = p_domain payload, i_uri = p_uri payload, i_statement = p_statement payload,
      i_version = p_version payload, i_chainId = p_chainId payload, i_type = p_type payload,
      i_nonce = p_nonce payload, i_issuedAt = p_issuedAt payload,
      i_expirationTime = p_expirationTime payload, i_notBefore = p_notBefore payload,
      i_requestId = p_requestId payload, i_resources = p_resources payload\<rparr>"

text \<open>\<open>formatSIWEMessage\<close> runs before the \<open>try\<close>: what it throws rejects the promise.\<close>

definition verifyEVMPayload ::
  "js_env \<Rightarrow> AgentkitPayload \<Rightarrow> EVMMessageVerifier option \<Rightarrow> js_error + AgentkitVerifyResult" where
  "verifyEVMPayload env payload verifier =
     (case formatSIWEMessage env (payload_info payload) (p_address payload) of
        Inl e \<Rightarrow> Inl e
      | Inr message \<Rightarrow>
          (case verifyEVMSignature env message (p_address payload) (p_signature payload) verifier of
             Inl e \<Rightarrow>
               Inr \<lparr>r_valid = False, r_address = None,
                    r_error = Some (message_or e ''Signature verification failed'')\<rparr>
           | Inr valid \<Rightarrow>
               if \<not> valid
               then Inr \<lparr>r_valid = False, r_address = None,
                         r_error = Some ''Signature verification failed''\<rparr>
               else Inr \<lparr>r_valid = True, r_address = Some (p_address payload), r_error = None\<rparr>))"

text \<open>\<open>signature\<close> is decoded before \<open>publicKey\<close>, both inside one \<open>try\<close>.\<close>

definition verifySolanaPayload :: "js_env \<Rightarrow> AgentkitPayload \<Rightarrow> AgentkitVerifyResult" where
  "verifySolanaPayload env payload =
     (let message = formatSIWSMessage (payload_info payload) (p_address payload) in
      case base58_decode env (p_signature payload) of
        Inl e \<Rightarrow>
          \<lparr>r_valid = False, r_address = None,
           r_error = Some (''Invalid Base58 encoding: '' @ message_or e ''decode failed'')\<rparr>
      | Inr signature \<Rightarrow>
          (case base58_decode env (p_address payload) of
             Inl e \<Rightarrow>
               \<lparr>r_valid = False, r_address = None,
                r_error = Some (''Invalid Base58 encoding: '' @ message_or e ''decode failed'')\<rparr>
           | Inr publicKey \<Rightarrow>
               if length signature \<noteq> 64 then
                 \<lparr>r_valid = False, r_address = None,
                  r_error = Some (''Invalid signature length: expected 64 bytes, got ''
                                  @ digits_of 10 (length signature))\<rparr>
               else if length publicKey \<noteq> 32 then
                 \<lparr>r_valid = False, r_address = None,
                  r_error = Some (''Invalid public key length: expected 32 bytes, got ''
                                  @ digits_of 10 (length publicKey))\<rparr>
               else if \<not> nacl_sign_detached_verify env message signature publicKey then
                 \<lparr>r_valid = False, r_address = None,
                  r_error = Some ''Solana signature verification failed''\<rparr>
               else \<lparr>r_valid = True, r_address = Some (p_address payload), r_error = None\<rparr>))"

text \<open>
  \<open>verifyEVMPayload\<close> is \<open>async\<close> and returned without \<open>await\<close>, so the \<open>catch\<close> of
  \<open>verifyAgentkitSignature\<close> does not see its rejection. \<open>verifySolanaPayload\<close>
  throws nothing.
\<close>

definition verifyAgentkitSignature ::
  "js_env \<Rightarrow> AgentkitPayload \<Rightarrow> AgentkitVerifyOptions option \<Rightarrow> js_error + AgentkitVerifyResult" where
  "verifyAgentkitSignature env payload options =
     (if startsWith (p_chainId payload) ''eip155:'' then
        verifyEVMPayload env payload (case options of None \<Rightarrow> None | Some opts \<Rightarrow> evmVerifier opts)
      else if startsWith (p_chainId payload) ''solana:'' then
        Inr (verifySolanaPayload env payload)
      else
        Inr \<lparr>r_valid = False, r_address = None,
             r_error = Some (''Unsupported chain namespace: '' @ p_chainId payload
                             @ ''. Supported: eip155:* (EVM), solana:* (Solana)'')\<rparr>)"

subsection \<open>The usage store (\<open>storage.ts\<close>)\<close>

text \<open>
  A storage object. \<open>usage\<close> and \<open>nonces\<close> are the two private fields of
  \<open>InMemoryAgentKitStorage\<close>, and its four methods follow. The interface
  \<open>AgentKitStorage\<close> makes \<open>hasUsedNonce\<close> and \<open>recordNonce\<close> optional, each on its
  own: \<open>provides_hasUsedNonce\<close> and \<open>provides_recordNonce\<close> say which of them the
  object has. Counters are natural numbers.
\<close>

record AgentKitStorage =
  usage :: "string \<rightharpoonup> nat"
  nonces :: "string set"
  provides_hasUsedNonce :: bool
  provides_recordNonce :: bool

text \<open>\<open>`${endpoint}:${humanId}`\<close>\<close>

definition usage_key :: "string \<Rightarrow> string \<Rightarrow> string" where
  "usage_key endpoint humanId = endpoint @ '':'' @ humanId"

definition getUsageCount :: "AgentKitStorage \<Rightarrow> string \<Rightarrow> string \<Rightarrow> nat" where
  "getUsageCount s endpoint humanId =
     (case usage s (usage_key endpoint humanId) of None \<Rightarrow> 0 | Some n \<Rightarrow> n)"

definition incrementUsage :: "AgentKitStorage \<Rightarrow> string \<Rightarrow> string \<Rightarrow> AgentKitStorage" where
  "incrementUsage s endpoint humanId =
     (let key = usage_key endpoint humanId in
      s\<lparr>usage := (usage s)(key \<mapsto> (case usage s key of None \<Rightarrow> 0 | Some n \<Rightarrow> n) + 1)\<rparr>)"

definition hasUsedNonce :: "AgentKitStorage \<Rightarrow> string \<Rightarrow> bool" where
  "hasUsedNonce s nonce = (nonce \<in> nonces s)"

definition recordNonce :: "AgentKitStorage \<Rightarrow> string \<Rightarrow> AgentKitStorage" where
  "recordNonce s nonce = s\<lparr>nonces := insert nonce (nonces s)\<rparr>"

text \<open>\<open>new InMemoryAgentKitStorage()\<close>\<close>

definition InMemoryAgentKitStorage :: AgentKitStorage where
  "InMemoryAgentKitStorage =
     \<lparr>usage = Map.empty, nonces = {}, provides_hasUsedNonce = True, provides_recordNonce = True\<rparr>"

subsection \<open>The AgentBook client (\<open>agent-book.ts\<close>)\<close>

record AgentBookOptions =
  client :: "PublicClient option"
  contractAddress :: "string option"
  rpcUrl :: "string option"

text \<open>
  The table of known deployments is the object literal \<open>{}\<close>. It has no entry of its
  own, but \<open>KNOWN_DEPLOYMENTS[chainId]\<close> also finds what every object inherits from
  \<open>Object.prototype\<close>: the members named below, each of them truthy.
\<close>

definition Object_prototype :: "string list" where
  "Object_prototype =
     [''constructor'', ''__defineGetter__'', ''__defineSetter__'', ''hasOwnProperty'',
      ''__lookupGetter__'', ''__lookupSetter__'', ''isPrototypeOf'', ''propertyIsEnumerable'',
      ''toString'', ''valueOf'', ''__proto__'', ''toLocaleString'']"

definition KNOWN_DEPLOYMENTS :: "string \<rightharpoonup> deployment" where
  "KNOWN_DEPLOYMENTS chainId =
     (if chainId \<in> set Object_prototype then Some (Inherited chainId) else None)"

text \<open>\<open>!address\<close> is true of the empty string only.\<close>

fun deployment_truthy :: "deployment \<Rightarrow> bool" where
  "deployment_truthy (Address a) = (a \<noteq> [])"
| "deployment_truthy (Inherited name) = True"

definition extractNumericChainId :: "string \<Rightarrow> js_error + nat" where
  "extractNumericChainId caip2 =
     (case eip155_number caip2 of
        None \<Rightarrow> Inl (Error (''Unsupported chain format: '' @ caip2))
      | Some n \<Rightarrow> Inr n)"

text \<open>\<open>getClient\<close> reads and fills \<open>clientCache\<close>: it returns the cache as well.\<close>

definition getClient ::
  "js_env \<Rightarrow> AgentBookOptions \<Rightarrow> (string \<rightharpoonup> PublicClient) \<Rightarrow> string
     \<Rightarrow> (js_error + PublicClient) \<times> (string \<rightharpoonup> PublicClient)" where
  "getClient env options clientCache chainId =
     (case client options of
        Some c \<Rightarrow> (Inr c, clientCache)
      | None \<Rightarrow>
          (case clientCache chainId of
             Some cached \<Rightarrow> (Inr cached, clientCache)
           | None \<Rightarrow>
               (case extractNumericChainId chainId of
                  Inl e \<Rightarrow> (Inl e, clientCache)
                | Inr numericId \<Rightarrow>
                    (case createPublicClient env numericId (rpcUrl options) of
                       Inl e \<Rightarrow> (Inl e, clientCache)
                     | Inr created \<Rightarrow> (Inr created, clientCache(chainId \<mapsto> created))))))"

definition getContractAddress :: "AgentBookOptions \<Rightarrow> string \<Rightarrow> js_error + deployment" where
  "getContractAddress options chainId =
     (if truthy (contractAddress options) then Inr (Address (the (contractAddress options)))
      else
        (case KNOWN_DEPLOYMENTS chainId of
           Some address \<Rightarrow>
             if deployment_truthy address then Inr address
             else Inl (Error (''No AgentBook deployment known for network '' @ chainId @ ''. ''
                              @ ''Pass a contractAddress to createAgentBookVerifier().''))
         | None \<Rightarrow>
             Inl (Error (''No AgentBook deployment known for network '' @ chainId @ ''. ''
                         @ ''Pass a contractAddress to createAgentBookVerifier().''))))"

text \<open>\<open>getContractAddress\<close> and \<open>getClient\<close> are called before the \<open>try\<close>; only
  \<open>readContract\<close> and \<open>toHex\<close> are inside it.\<close>

definition lookupHuman ::
  "js_env \<Rightarrow> AgentBookOptions \<Rightarrow> (string \<rightharpoonup> PublicClient) \<Rightarrow> string \<Rightarrow> string
     \<Rightarrow> (js_error + string option) \<times> (string \<rightharpoonup> PublicClient)" where
  "lookupHuman env options clientCache address chainId =
     (case getContractAddress options chainId of
        Inl e \<Rightarrow> (Inl e, clientCache)
      | Inr contract \<Rightarrow>
          (case getClient env options clientCache chainId of
             (Inl e, cache) \<Rightarrow> (Inl e, cache)
           | (Inr readContract, cache) \<Rightarrow>
               (case readContract contract address of
                  Inl e \<Rightarrow> (Inr None, cache)
                | Inr humanId \<Rightarrow>
                    if humanId = 0 then (Inr None, cache)
                    else (Inr (Some (toHex (unat humanId))), cache))))"

subsection \<open>The hooks (\<open>hooks.ts\<close>)\<close>

text \<open>\<open>AgentkitMode\<close>: \<open>free\<close>, \<open>free-trial\<close> with its optional \<open>uses\<close>, \<open>discount\<close> with
  \<open>percent\<close> and its optional \<open>uses\<close>. \<open>percent\<close> is an integer: the constructor
  refuses any other number.\<close>

datatype AgentkitMode = Free | FreeTrial "int option" | Discount int "int option"

fun mode_type :: "AgentkitMode \<Rightarrow> string" where
  "mode_type Free = ''free''"
| "mode_type (FreeTrial uses) = ''free-trial''"
| "mode_type (Discount percent uses) = ''discount''"

text \<open>The events: \<open>resource\<close>, then \<open>address\<close> and \<open>humanId\<close>, or the optional
  \<open>error\<close>.\<close>

datatype AgentkitHookEvent =
    agent_verified string string string
  | agent_not_verified string string
  | validation_failed string "string option"
  | discount_applied string string string
  | discount_exhausted string string string

text \<open>What a hook does to its collaborators, in the order it does it: the header
  names it asks the adapter for, the storage methods it calls itself, the AgentBook
  lookup, and the events it hands to \<open>onEvent\<close>.\<close>

datatype call =
    CallGetHeader string
  | CallRecordNonce string
  | CallLookupHuman string string
  | CallGetUsageCount string string
  | CallIncrementUsage string string
  | Emit AgentkitHookEvent

text \<open>The \<open>context\<close> of the request hook: the adapter's two methods and \<open>path\<close>.\<close>

record request_context =
  getHeader :: "string \<Rightarrow> string option"
  getUrl :: string
  path :: string

record pending_discount =
  pd_humanId :: string
  pd_address :: string
  pd_createdAt :: int

text \<open>What the two hooks share and change: the storage object, when one was
  passed, and the map \<open>pendingDiscounts\<close>.\<close>

record hook_state =
  storage :: "AgentKitStorage option"
  pendingDiscounts :: "string \<rightharpoonup> pending_discount"

text \<open>What the hooks close over and never change. \<open>agentBook\<close> is
  \<open>agentBook.lookupHuman\<close>, of an address and a chain identifier.\<close>

record hook_config =
  agentBook :: "string \<Rightarrow> string \<Rightarrow> js_error + string option"
  mode :: AgentkitMode
  verifyOptions :: "AgentkitVerifyOptions option"

definition PENDING_TTL_MS :: int where
  "PENDING_TTL_MS = 5 * 60 * 1000"

text \<open>\<open>void\<close> or \<open>{ grantAccess: true }\<close>\<close>

datatype request_outcome = NoDecision | GrantAccess

text \<open>Where the first part of the \<open>try\<close> block ends: in a \<open>return\<close>, or with a
  verified payload, its address and the human identifier.\<close>

datatype identified = Returned | Identified AgentkitPayload string string

text \<open>\<open>storage?.hasUsedNonce ? async nonce => !(await storage.hasUsedNonce(nonce)) : undefined\<close>\<close>

definition hook_checkNonce :: "hook_state \<Rightarrow> (string \<Rightarrow> js_error + bool) option" where
  "hook_checkNonce st =
     (case storage st of
        None \<Rightarrow> None
      | Some s \<Rightarrow>
          if provides_hasUsedNonce s
          then Some (\<lambda>nonce. Inr (\<not> hasUsedNonce s nonce))
          else None)"

text \<open>The \<open>try\<close> block of \<open>requestHook\<close> up to the dispatch on the mode: the result
  (or what was thrown), the state, and the calls made.\<close>

definition requestHook_identify ::
  "js_env \<Rightarrow> hook_config \<Rightarrow> hook_state \<Rightarrow> request_context \<Rightarrow> string
     \<Rightarrow> (js_error + identified) \<times> hook_state \<times> call list" where
  "requestHook_identify env cfg st ctx header =
     (case parseAgentkitHeader env header of
        Inl e \<Rightarrow> (Inl e, st, [])
      | Inr payload \<Rightarrow>
          (let resourceUri = getUrl ctx;
               check = hook_checkNonce st
           in
           case validateAgentkitMessage env payload resourceUri \<lparr>maxAge = None, checkNonce = check\<rparr> of
             Inl e \<Rightarrow> (Inl e, st, [])
           | Inr validation \<Rightarrow>
               if \<not> v_valid validation then
                 (Inr Returned, st, [Emit (validation_failed (path ctx) (v_error validation))])
               else
                 (case verifyAgentkitSignature env payload (verifyOptions cfg) of
                    Inl e \<Rightarrow> (Inl e, st, [])
                  | Inr verification \<Rightarrow>
                      if \<not> r_valid verification \<or> \<not> truthy (r_address verification) then
                        (Inr Returned, st, [Emit (validation_failed (path ctx) (r_error verification))])
                      else
                        (let address = the (r_address verification);
                             (st1, calls1) =
                               (case storage st of
                                  None \<Rightarrow> (st, [])
                                | Some s \<Rightarrow>
                                    if provides_recordNonce s
                                    then (st\<lparr>storage := Some (recordNonce s (p_nonce payload))\<rparr>,
                                          [CallRecordNonce (p_nonce payload)])
                                    else (st, []));
                             calls2 = calls1 @ [CallLookupHuman address (p_chainId payload)]
                         in
                         case agentBook cfg address (p_chainId payload) of
                           Inl e \<Rightarrow> (Inl e, st1, calls2)
                         | Inr humanId \<Rightarrow>
                             if \<not> truthy humanId then
                               (Inr Returned, st1, calls2 @ [Emit (agent_not_verified (path ctx) address)])
                             else (Inr (Identified payload address (the humanId)), st1, calls2)))))"

text \<open>The dispatch on \<open>mode.type\<close>. \<open>storage!\<close> on a missing storage throws a
  \<open>TypeError\<close>.\<close>

definition requestHook_mode ::
  "js_env \<Rightarrow> hook_config \<Rightarrow> hook_state \<Rightarrow> request_context \<Rightarrow> string \<Rightarrow> string
     \<Rightarrow> (js_error + request_outcome) \<times> hook_state \<times> call list" where
  "requestHook_mode env cfg st ctx address humanId =
     (case mode cfg of
        Free \<Rightarrow> (Inr GrantAccess, st, [Emit (agent_verified (path ctx) address humanId)])
      | FreeTrial mode_uses \<Rightarrow>
          (let uses = (case mode_uses of None \<Rightarrow> 1 | Some u \<Rightarrow> u) in
           case storage st of
             None \<Rightarrow> (Inl (TypeError ''Cannot read properties of undefined''), st, [])
           | Some s \<Rightarrow>
               (let count = getUsageCount s (path ctx) humanId in
                if int count < uses then
                  (Inr GrantAccess,
                   st\<lparr>storage := Some (incrementUsage s (path ctx) humanId)\<rparr>,
                   [CallGetUsageCount (path ctx) humanId,
                    CallIncrementUsage (path ctx) humanId,
                    Emit (agent_verified (path ctx) address humanId)])
                else (Inr NoDecision, st, [CallGetUsageCount (path ctx) humanId])))
      | Discount percent mode_uses \<Rightarrow>
          (let now = now_pending env;
               swept = (\<lambda>key. case pendingDiscounts st key of
                                 None \<Rightarrow> None
                               | Some entry \<Rightarrow>
                                   if now - pd_createdAt entry > PENDING_TTL_MS then None
                                   else Some entry)
           in
           (Inr NoDecision,
            st\<lparr>pendingDiscounts :=
                 swept(path ctx @ '':'' @ address \<mapsto>
                   \<lparr>pd_humanId = humanId, pd_address = address, pd_createdAt = now\<rparr>)\<rparr>,
            [])))"

text \<open>\<open>getHeader(AGENTKIT) || getHeader(AGENTKIT.toLowerCase())\<close>: the second call
  is made when the first returns nothing or the empty string.\<close>

definition read_header :: "request_context \<Rightarrow> string option \<times> call list" where
  "read_header ctx =
     (if truthy (getHeader ctx AGENTKIT)
      then (getHeader ctx AGENTKIT, [CallGetHeader AGENTKIT])
      else (getHeader ctx (toLowerCase AGENTKIT),
            [CallGetHeader AGENTKIT, CallGetHeader (toLowerCase AGENTKIT)]))"

definition requestHook ::
  "js_env \<Rightarrow> hook_config \<Rightarrow> hook_state \<Rightarrow> request_context
     \<Rightarrow> request_outcome \<times> hook_state \<times> call list" where
  "requestHook env cfg st ctx =
     (case read_header ctx of
        (header, calls0) \<Rightarrow>
          if \<not> truthy header then (NoDecision, st, calls0)
          else
            (case requestHook_identify env cfg st ctx (the header) of
               (Inl err, st1, calls1) \<Rightarrow>
                 (NoDecision, st1,
                  calls0 @ calls1 @
                  [Emit (validation_failed (path ctx) (Some (message_or err ''Unknown error'')))])
             | (Inr Returned, st1, calls1) \<Rightarrow> (NoDecision, st1, calls0 @ calls1)
             | (Inr (Identified payload address humanId), st1, calls1) \<Rightarrow>
                 (case requestHook_mode env cfg st1 ctx address humanId of
                    (Inl err, st2, calls2) \<Rightarrow>
                      (NoDecision, st2,
                       calls0 @ calls1 @ calls2 @
                       [Emit (validation_failed (path ctx) (Some (message_or err ''Unknown error'')))])
                  | (Inr outcome, st2, calls2) \<Rightarrow> (outcome, st2, calls0 @ calls1 @ calls2))))"

text \<open>
  The payment payload of the facilitator, \<open>paymentPayload.payload\<close>: the EIP-3009
  shape carries \<open>authorization\<close> with \<open>from\<close> and \<open>value\<close>, the Permit2 shape
  \<open>permit2Authorization\<close> with \<open>from\<close> and \<open>permitted.amount\<close>. The fields carry
  strings, as the casts of the source say; each may be missing.
\<close>

record eip3009_authorization =
  a_from :: "string option"
  a_value :: "string option"

record permit2_permitted =
  pm_amount :: "string option"

record permit2_authorization =
  p2_from :: "string option"
  p2_permitted :: "permit2_permitted option"

record payment_payload =
  authorization :: "eip3009_authorization option"
  permit2Authorization :: "permit2_authorization option"

definition extractPayer :: "payment_payload \<Rightarrow> string option" where
  "extractPayer payload =
     (case authorization payload of
        Some auth \<Rightarrow> a_from auth
      | None \<Rightarrow>
          (case permit2Authorization payload of
             Some auth \<Rightarrow> p2_from auth
           | None \<Rightarrow> None))"

definition UNDERPAYMENT_REASONS :: "string list" where
  "UNDERPAYMENT_REASONS =
     [''invalid_exact_evm_payload_authorization_value'',
      ''permit2_insufficient_amount'',
      ''insufficient_funds'']"

text \<open>\<open>error.message.split(':')[0]\<close> is one of the reasons.\<close>

definition isUnderpaymentError :: "string \<Rightarrow> bool" where
  "isUnderpaymentError message =
     (case split CHR '':'' message of
        [] \<Rightarrow> False
      | reason # _ \<Rightarrow> reason \<in> set UNDERPAYMENT_REASONS)"

text \<open>Whatever \<open>BigInt\<close> or a property access throws is caught: the result is
  \<open>null\<close>.\<close>

definition extractPaidAmount :: "payment_payload \<Rightarrow> int option" where
  "extractPaidAmount payload =
     (case authorization payload of
        Some auth \<Rightarrow> (case a_value auth of None \<Rightarrow> None | Some v \<Rightarrow> BigInt v)
      | None \<Rightarrow>
          (case permit2Authorization payload of
             Some auth \<Rightarrow>
               (case p2_permitted auth of
                  None \<Rightarrow> None
                | Some permitted \<Rightarrow>
                    (case pm_amount permitted of None \<Rightarrow> None | Some v \<Rightarrow> BigInt v))
           | None \<Rightarrow> None))"

text \<open>\<open>(requiredAmount * BigInt(100 - mode.percent)) / 100n\<close>\<close>

definition discountedAmount :: "int \<Rightarrow> int \<Rightarrow> int" where
  "discountedAmount requiredAmount percent = bigint_div (requiredAmount * (100 - percent)) 100"

text \<open>The \<open>context\<close> of the verify-failure hook: \<open>paymentPayload.resource.url\<close>,
  \<open>paymentPayload.payload\<close>, \<open>requirements.amount\<close> and \<open>error.message\<close>.\<close>

record verify_failure_context =
  resource_url :: string
  payload :: payment_payload
  requirements_amount :: string
  error_message :: string

text \<open>\<open>void\<close> or \<open>{ recovered: true, result: { isValid, payer } }\<close>\<close>

datatype verify_failure_outcome = NoRecovery | Recovered bool "string option"

text \<open>
  \<open>verifyFailureHook\<close> for the mode \<open>discount\<close> with \<open>percent\<close> and the optional
  \<open>uses\<close>. It returns its result (or what it throws), the state, \<open>requirements.amount\<close>
  as the hook leaves it, and the calls made.
\<close>

definition verifyFailureHook ::
  "js_env \<Rightarrow> int \<Rightarrow> int option \<Rightarrow> hook_state \<Rightarrow> verify_failure_context
     \<Rightarrow> (js_error + verify_failure_outcome) \<times> hook_state \<times> string \<times> call list" where
  "verifyFailureHook env percent mode_uses st ctx =
     (case URL_new env (resource_url ctx) of
        None \<Rightarrow> (Inl (TypeError ''Invalid URL''), st, requirements_amount ctx, [])
      | Some resourceUrl \<Rightarrow>
          (let resourcePath = pathname resourceUrl;
               payer = extractPayer (payload ctx);
               discountKey = (if truthy payer then Some (resourcePath @ '':'' @ the payer) else None);
               pending = (case discountKey of None \<Rightarrow> None | Some key \<Rightarrow> pendingDiscounts st key);
               st1 = (case discountKey of
                        None \<Rightarrow> st
                      | Some key \<Rightarrow> st\<lparr>pendingDiscounts := (pendingDiscounts st)(key := None)\<rparr>)
           in
           case pending of
             None \<Rightarrow> (Inr NoRecovery, st1, requirements_amount ctx, [])
           | Some entry \<Rightarrow>
               if \<not> isUnderpaymentError (error_message ctx) then
                 (Inr NoRecovery, st1, requirements_amount ctx, [])
               else
                 (let humanId = pd_humanId entry; address = pd_address entry in
                  case storage st1 of
                    None \<Rightarrow>
                      (Inl (TypeError ''Cannot read properties of undefined''), st1,
                       requirements_amount ctx, [])
                  | Some s \<Rightarrow>
                      (let count = getUsageCount s resourcePath humanId;
                           calls1 = [CallGetUsageCount resourcePath humanId]
                       in
                       if (case mode_uses of None \<Rightarrow> False | Some uses \<Rightarrow> int count \<ge> uses) then
                         (Inr NoRecovery, st1, requirements_amount ctx,
                          calls1 @ [Emit (discount_exhausted resourcePath address humanId)])
                       else
                         (case BigInt (requirements_amount ctx) of
                            None \<Rightarrow>
                              (Inl (SyntaxError ''Cannot convert to a BigInt''), st1,
                               requirements_amount ctx, calls1)
                          | Some requiredAmount \<Rightarrow>
                              (let discounted = discountedAmount requiredAmount percent in
                               case extractPaidAmount (payload ctx) of
                                 None \<Rightarrow> (Inr NoRecovery, st1, requirements_amount ctx, calls1)
                               | Some paidAmount \<Rightarrow>
                                   if paidAmount < discounted then
                                     (Inr NoRecovery, st1, requirements_amount ctx, calls1)
                                   else if paidAmount \<ge> requiredAmount then
                                     (Inr NoRecovery, st1, requirements_amount ctx, calls1)
                                   else
                                     (Inr (Recovered True (Some address)),
                                      st1\<lparr>storage := Some (incrementUsage s resourcePath humanId)\<rparr>,
                                      String_of_bigint paidAmount,
                                      calls1 @
                                      [CallIncrementUsage resourcePath humanId,
                                       Emit (discount_applied resourcePath address humanId)])))))))"

record CreateAgentkitHooksOptions =
  o_agentBook :: "string \<Rightarrow> string \<Rightarrow> js_error + string option"
  o_mode :: "AgentkitMode option"
  o_storage :: "AgentKitStorage option"
  o_verifyOptions :: "AgentkitVerifyOptions option"

text \<open>What \<open>createAgentkitHooks\<close> returns: the two hooks, and the state they start
  from (the storage object passed in, and an empty \<open>pendingDiscounts\<close>).\<close>

record agentkit_hooks =
  h_requestHook ::
    "js_env \<Rightarrow> hook_state \<Rightarrow> request_context \<Rightarrow> request_outcome \<times> hook_state \<times> call list"
  h_verifyFailureHook ::
    "(js_env \<Rightarrow> hook_state \<Rightarrow> verify_failure_context
        \<Rightarrow> (js_error + verify_failure_outcome) \<times> hook_state \<times> string \<times> call list) option"
  h_state :: hook_state

definition createAgentkitHooks :: "CreateAgentkitHooksOptions \<Rightarrow> js_error + agentkit_hooks" where
  "createAgentkitHooks options =
     (let m = (case o_mode options of None \<Rightarrow> Free | Some given \<Rightarrow> given);
          cfg = \<lparr>agentBook = o_agentBook options, mode = m, verifyOptions = o_verifyOptions options\<rparr>
      in
      if (case m of Free \<Rightarrow> False | _ \<Rightarrow> True) \<and> o_storage options = None then
        Inl (Error (''AgentKit mode '' @ quote @ mode_type m @ quote @ '' requires a storage instance''))
      else if (case m of Discount percent uses \<Rightarrow> percent \<le> 0 \<or> percent > 100 | _ \<Rightarrow> False) then
        Inl (Error (''Discount percent must be an integer between 1 and 100, got ''
                    @ (case m of Discount percent uses \<Rightarrow> String_of_bigint percent | _ \<Rightarrow> [])))
      else
        Inr \<lparr>h_requestHook = (\<lambda>env. requestHook env cfg),
             h_verifyFailureHook =
               (case m of
                  Discount percent uses \<Rightarrow> Some (\<lambda>env. verifyFailureHook env percent uses)
                | _ \<Rightarrow> None),
             h_state = \<lparr>storage = o_storage options, pendingDiscounts = Map.empty\<rparr>\<rparr>)"

text \<open>Requests served one after the other, each in the environment of its moment:
  the outcomes, the last state, and all calls in order.\<close>

fun run_requests ::
  "hook_config \<Rightarrow> hook_state \<Rightarrow> (js_env \<times> request_context) list
     \<Rightarrow> request_outcome list \<times> hook_state \<times> call list" where
  "run_requests cfg st [] = ([], st, [])"
| "run_requests cfg st ((env, ctx) # rest) =
     (case requestHook env cfg st ctx of
        (outcome, st1, calls1) \<Rightarrow>
          (case run_requests cfg st1 rest of
             (outcomes, st2, calls2) \<Rightarrow> (outcome # outcomes, st2, calls1 @ calls2)))"

text \<open>
  The calls a server makes to the two hooks over time, each in the environment of
  its moment, and the state they leave. \<open>verifyFailureHook\<close> exists in the mode
  \<open>discount\<close> only.
\<close>

datatype hook_call =
    RequestHook js_env request_context
  | VerifyFailureHook js_env verify_failure_context

fun run_hooks :: "hook_config \<Rightarrow> hook_state \<Rightarrow> hook_call list \<Rightarrow> hook_state" where
  "run_hooks cfg st [] = st"
| "run_hooks cfg st (RequestHook env ctx # rest) =
     run_hooks cfg (fst (snd (requestHook env cfg st ctx))) rest"
| "run_hooks cfg st (VerifyFailureHook env ctx # rest) =
     (case mode cfg of
        Discount percent uses \<Rightarrow>
          run_hooks cfg (fst (snd (verifyFailureHook env percent uses st ctx))) rest
      | _ \<Rightarrow> run_hooks cfg st rest)"

text \<open>The counter of \<open>(endpoint, humanId)\<close> as the hooks' storage holds it.\<close>

definition count_of :: "hook_state \<Rightarrow> string \<Rightarrow> string \<Rightarrow> nat" where
  "count_of st endpoint humanId =
     (case storage st of None \<Rightarrow> 0 | Some s \<Rightarrow> getUsageCount s endpoint humanId)"

text \<open>A free grant for \<open>humanId\<close> on \<open>endpoint\<close>: the event \<open>agent_verified\<close>, whatever
  the wallet address.\<close>

fun is_grant :: "string \<Rightarrow> string \<Rightarrow> call \<Rightarrow> bool" where
  "is_grant endpoint humanId (Emit (agent_verified resource address h)) =
     (resource = endpoint \<and> h = humanId)"
| "is_grant endpoint humanId _ = False"

definition grants :: "string \<Rightarrow> string \<Rightarrow> call list \<Rightarrow> nat" where
  "grants endpoint humanId calls = length (filter (is_grant endpoint humanId) calls)"

subsection \<open>An environment and requests for the examples\<close>

text \<open>
  The examples run in one concrete environment. On the values used below its
  functions answer as the real ones do (the headers are the base64 text of the JSON
  objects, the epoch is that of the timestamp, a base58 text of \<open>1\<close>s decodes to as
  many zero bytes); they refuse other input. The two signatures are taken as valid
  for their addresses, and the example AgentBook registers both addresses for the
  human \<open>0x1234\<close>.
\<close>

definition example_URL :: "string \<Rightarrow> url option" where
  "example_URL s =
     (let rest = drop 8 s; host = takeWhile (\<lambda>c. c \<noteq> CHR ''/'') rest;
          p = dropWhile (\<lambda>c. c \<noteq> CHR ''/'') rest
      in if startsWith s ''https://'' \<and> host \<noteq> []
         then Some \<lparr>hostname = host, origin = ''https://'' @ host,
                    pathname = (if p = [] then ''/'' else p)\<rparr>
         else None)"

definition example_Date :: "string \<Rightarrow> int option" where
  "example_Date s = (if s = ''2026-01-01T00:00:00.000Z'' then Some 1767225600000 else None)"

definition example_header_A :: string where
  "example_header_A =
     ''eyJkb21haW4iOiJhcGkueCIsImFkZHJlc3MiOiIweDVCMzhEYTZhNzAxYzU2ODU0NWRDZmNCMDNGY0I4NzVmNTZiZWRkQzQiLCJ1cmkiOiJodHRwczovL2FwaS54L2RhdGEiLCJ2ZXJzaW9uIjoiMSIsImNoYWluSWQiOiJlaXAxNTU6ODQ1MyIsInR5cGUiOiJlaXAxOTEiLCJub25jZSI6ImExYjJjM2Q0ZTVmNjA3MTgiLCJpc3N1ZWRBdCI6IjIwMjYtMDEtMDFUMDA6MDA6MDAuMDAwWiIsInNpZ25hdHVyZSI6IjB4MWExYTFhMWExYTFhMWExYTFhMWExYTFhMWExYTFhMWExYTFhMWExYTFhMWExYTFhMWExYTFhMWExYTFhMWExYTFhMWExYTFhMWExYTFhMWExYTFhMWExYTFhMWExYTFhMWExYTFhMWExYTFhMWExYTFhMWExYTFhMWExYTFhMWExYSJ9''"

definition example_json_A :: string where
  "example_json_A =
     ''{\"domain\":\"api.x\",\"address\":\"0x5B38Da6a701c568545dCfcB03FcB875f56beddC4\",\"uri\":\"https://api.x/data\",\"version\":\"1\",\"chainId\":\"eip155:8453\",\"type\":\"eip191\",\"nonce\":\"a1b2c3d4e5f60718\",\"issuedAt\":\"2026-01-01T00:00:00.000Z\",\"signature\":\"0x1a1a1a1a1a1a1a1a1a1a1a1a1a1a1a1a1a1a1a1a1a1a1a1a1a1a1a1a1a1a1a1a1a1a1a1a1a1a1a1a1a1a1a1a1a1a1a1a1a1a1a1a1a1a1a1a1a1a1a1a1a1a1a1a1a\"}''"

definition example_object_A :: json where
  "example_object_A =
     JObject
       [(''domain'', JString ''api.x''),
        (''address'', JString ''0x5B38Da6a701c568545dCfcB03FcB875f56beddC4''),
        (''uri'', JString ''https://api.x/data''),
        (''version'', JString ''1''),
        (''chainId'', JString ''eip155:8453''),
        (''type'', JString ''eip191''),
        (''nonce'', JString ''a1b2c3d4e5f60718''),
        (''issuedAt'', JString ''2026-01-01T00:00:00.000Z''),
        (''signature'', JString ''0x1a1a1a1a1a1a1a1a1a1a1a1a1a1a1a1a1a1a1a1a1a1a1a1a1a1a1a1a1a1a1a1a1a1a1a1a1a1a1a1a1a1a1a1a1a1a1a1a1a1a1a1a1a1a1a1a1a1a1a1a1a1a1a1a1a'')]"

definition example_payload_A :: AgentkitPayload where
  "example_payload_A =
     \<lparr>p_domain = ''api.x'', p_address = ''0x5B38Da6a701c568545dCfcB03FcB875f56beddC4'', p_statement = None,
      p_uri = ''https://api.x/data'', p_version = ''1'', p_chainId = ''eip155:8453'',
      p_type = eip191, p_nonce = ''a1b2c3d4e5f60718'', p_issuedAt = ''2026-01-01T00:00:00.000Z'',
      p_expirationTime = None, p_notBefore = None, p_requestId = None, p_resources = None,
      p_signatureScheme = None,
      p_signature = ''0x1a1a1a1a1a1a1a1a1a1a1a1a1a1a1a1a1a1a1a1a1a1a1a1a1a1a1a1a1a1a1a1a1a1a1a1a1a1a1a1a1a1a1a1a1a1a1a1a1a1a1a1a1a1a1a1a1a1a1a1a1a1a1a1a1a''\<rparr>"

definition example_header_B :: string where
  "example_header_B =
     ''eyJkb21haW4iOiJhcGkueCIsImFkZHJlc3MiOiIweEFiODQ4M0Y2NGQ5QzZkMUVjRjliODQ5QWU2NzdkRDMzMTU4MzVjYjIiLCJ1cmkiOiJodHRwczovL2FwaS54L2RhdGEiLCJ2ZXJzaW9uIjoiMSIsImNoYWluSWQiOiJlaXAxNTU6ODQ1MyIsInR5cGUiOiJlaXAxOTEiLCJub25jZSI6IjBmMWUyZDNjNGI1YTY5NzgiLCJpc3N1ZWRBdCI6IjIwMjYtMDEtMDFUMDA6MDA6MDAuMDAwWiIsInNpZ25hdHVyZSI6IjB4MmIyYjJiMmIyYjJiMmIyYjJiMmIyYjJiMmIyYjJiMmIyYjJiMmIyYjJiMmIyYjJiMmIyYjJiMmIyYjJiMmIyYjJiMmIyYjJiMmIyYjJiMmIyYjJiMmIyYjJiMmIyYjJiMmIyYjJiMmIyYjJiMmIyYjJiMmIyYjJiMmIyYjJiMmIyYiJ9''"

definition example_json_B :: string where
  "example_json_B =
     ''{\"domain\":\"api.x\",\"address\":\"0xAb8483F64d9C6d1EcF9b849Ae677dD3315835cb2\",\"uri\":\"https://api.x/data\",\"version\":\"1\",\"chainId\":\"eip155:8453\",\"type\":\"eip191\",\"nonce\":\"0f1e2d3c4b5a6978\",\"issuedAt\":\"2026-01-01T00:00:00.000Z\",\"signature\":\"0x2b2b2b2b2b2b2b2b2b2b2b2b2b2b2b2b2b2b2b2b2b2b2b2b2b2b2b2b2b2b2b2b2b2b2b2b2b2b2b2b2b2b2b2b2b2b2b2b2b2b2b2b2b2b2b2b2b2b2b2b2b2b2b2b2b\"}''"

definition example_object_B :: json where
  "example_object_B =
     JObject
       [(''domain'', JString ''api.x''),
        (''address'', JString ''0xAb8483F64d9C6d1EcF9b849Ae677dD3315835cb2''),
        (''uri'', JString ''https://api.x/data''),
        (''version'', JString ''1''),
        (''chainId'', JString ''eip155:8453''),
        (''type'', JString ''eip191''),
        (''nonce'', JString ''0f1e2d3c4b5a6978''),
        (''issuedAt'', JString ''2026-01-01T00:00:00.000Z''),
        (''signature'', JString ''0x2b2b2b2b2b2b2b2b2b2b2b2b2b2b2b2b2b2b2b2b2b2b2b2b2b2b2b2b2b2b2b2b2b2b2b2b2b2b2b2b2b2b2b2b2b2b2b2b2b2b2b2b2b2b2b2b2b2b2b2b2b2b2b2b2b'')]"

definition example_payload_B :: AgentkitPayload where
  "example_payload_B =
     \<lparr>p_domain = ''api.x'', p_address = ''0xAb8483F64d9C6d1EcF9b849Ae677dD3315835cb2'', p_statement = None,
      p_uri = ''https://api.x/data'', p_version = ''1'', p_chainId = ''eip155:8453'',
      p_type = eip191, p_nonce = ''0f1e2d3c4b5a6978'', p_issuedAt = ''2026-01-01T00:00:00.000Z'',
      p_expirationTime = None, p_notBefore = None, p_requestId = None, p_resources = None,
      p_signatureScheme = None,
      p_signature = ''0x2b2b2b2b2b2b2b2b2b2b2b2b2b2b2b2b2b2b2b2b2b2b2b2b2b2b2b2b2b2b2b2b2b2b2b2b2b2b2b2b2b2b2b2b2b2b2b2b2b2b2b2b2b2b2b2b2b2b2b2b2b2b2b2b2b''\<rparr>"

definition example_header_M :: string where
  "example_header_M =
     ''eyJkb21haW4iOiJhcGkueCIsImFkZHJlc3MiOiIweDVCMzhEYTZhNzAxYzU2ODU0NWRDZmNCMDNGY0I4NzVmNTZiZWRkQzQiLCJ1cmkiOiJodHRwczovL2FwaS54L2RhdGEiLCJ2ZXJzaW9uIjoiMSIsImNoYWluSWQiOiJlaXAxNTU6ODQ1MyIsInR5cGUiOiJlZDI1NTE5Iiwibm9uY2UiOiIxMTIyMzM0NDU1NjY3Nzg4IiwiaXNzdWVkQXQiOiIyMDI2LTAxLTAxVDAwOjAwOjAwLjAwMFoiLCJzaWduYXR1cmUiOiIweDFhMWExYTFhMWExYTFhMWExYTFhMWExYTFhMWExYTFhMWExYTFhMWExYTFhMWExYTFhMWExYTFhMWExYTFhMWExYTFhMWExYTFhMWExYTFhMWExYTFhMWExYTFhMWExYTFhMWExYTFhMWExYTFhMWExYTFhMWExYTFhMWExYTFhMWEifQ==''"

definition example_json_M :: string where
  "example_json_M =
     ''{\"domain\":\"api.x\",\"address\":\"0x5B38Da6a701c568545dCfcB03FcB875f56beddC4\",\"uri\":\"https://api.x/data\",\"version\":\"1\",\"chainId\":\"eip155:8453\",\"type\":\"ed25519\",\"nonce\":\"1122334455667788\",\"issuedAt\":\"2026-01-01T00:00:00.000Z\",\"signature\":\"0x1a1a1a1a1a1a1a1a1a1a1a1a1a1a1a1a1a1a1a1a1a1a1a1a1a1a1a1a1a1a1a1a1a1a1a1a1a1a1a1a1a1a1a1a1a1a1a1a1a1a1a1a1a1a1a1a1a1a1a1a1a1a1a1a1a\"}''"

definition example_object_M :: json where
  "example_object_M =
     JObject
       [(''domain'', JString ''api.x''),
        (''address'', JString ''0x5B38Da6a701c568545dCfcB03FcB875f56beddC4''),
        (''uri'', JString ''https://api.x/data''),
        (''version'', JString ''1''),
        (''chainId'', JString ''eip155:8453''),
        (''type'', JString ''ed25519''),
        (''nonce'', JString ''1122334455667788''),
        (''issuedAt'', JString ''2026-01-01T00:00:00.000Z''),
        (''signature'', JString ''0x1a1a1a1a1a1a1a1a1a1a1a1a1a1a1a1a1a1a1a1a1a1a1a1a1a1a1a1a1a1a1a1a1a1a1a1a1a1a1a1a1a1a1a1a1a1a1a1a1a1a1a1a1a1a1a1a1a1a1a1a1a1a1a1a1a'')]"

definition example_payload_M :: AgentkitPayload where
  "example_payload_M =
     \<lparr>p_domain = ''api.x'', p_address = ''0x5B38Da6a701c568545dCfcB03FcB875f56beddC4'', p_statement = None,
      p_uri = ''https://api.x/data'', p_version = ''1'', p_chainId = ''eip155:8453'',
      p_type = ed25519, p_nonce = ''1122334455667788'', p_issuedAt = ''2026-01-01T00:00:00.000Z'',
      p_expirationTime = None, p_notBefore = None, p_requestId = None, p_resources = None,
      p_signatureScheme = None,
      p_signature = ''0x1a1a1a1a1a1a1a1a1a1a1a1a1a1a1a1a1a1a1a1a1a1a1a1a1a1a1a1a1a1a1a1a1a1a1a1a1a1a1a1a1a1a1a1a1a1a1a1a1a1a1a1a1a1a1a1a1a1a1a1a1a1a1a1a1a''\<rparr>"

definition example_base64 :: "string \<Rightarrow> js_error + string" where
  "example_base64 s =
     (if s = example_header_A then Inr example_json_A
      else if s = example_header_B then Inr example_json_B
      else if s = example_header_M then Inr example_json_M
      else Inl (Error ''Invalid character''))"

definition example_JSON :: "string \<Rightarrow> js_error + json" where
  "example_JSON s =
     (if s = example_json_A then Inr example_object_A
      else if s = example_json_B then Inr example_object_B
      else if s = example_json_M then Inr example_object_M
      else Inl (SyntaxError ''Unexpected token''))"

definition example_siwe :: "SiweMessage_params \<Rightarrow> js_error + string" where
  "example_siwe params =
     Inr (join [CHR 0x0A]
       [sm_domain params @ '' wants you to sign in with your Ethereum account:'',
        sm_address params, '''',
        ''URI: '' @ sm_uri params,
        ''Version: '' @ sm_version params,
        ''Chain ID: '' @ digits_of 10 (sm_chainId params),
        ''Nonce: '' @ sm_nonce params,
        ''Issued At: '' @ sm_issuedAt params])"

definition example_verifyMessage :: EVMMessageVerifier where
  "example_verifyMessage address message signature =
     Inr ((address, signature) \<in> set
       [(p_address example_payload_A, p_signature example_payload_A),
        (p_address example_payload_B, p_signature example_payload_B)])"

definition example_base58 :: "string \<Rightarrow> js_error + 8 word list" where
  "example_base58 s =
     (if list_all (\<lambda>c. c = CHR ''1'') s then Inr (replicate (length s) 0)
      else Inl (Error ''Unknown letter''))"

definition example_contract :: string where
  "example_contract = ''0x00000000000000000000000000000000000A6E47''"

definition example_client :: PublicClient where
  "example_client contract agent =
     (if contract \<noteq> Address example_contract then Inl (Error ''execution reverted'')
      else if agent = p_address example_payload_A \<or> agent = p_address example_payload_B
      then Inr 0x1234
      else Inr 0)"

definition example_env :: js_env where
  "example_env =
     \<lparr>URL_new = example_URL,
      Date_getTime = example_Date,
      now_age = 1767225660000,
      now_expiration = 1767225660000,
      now_notBefore = 1767225660000,
      now_pending = 1767225660000,
      Base64EncodedRegex_test =
        (\<lambda>s. s = example_header_A \<or> s = example_header_B \<or> s = example_header_M),
      safeBase64Decode = example_base64,
      JSON_parse = example_JSON,
      zod_issues = (\<lambda>raw. ''Invalid input''),
      SiweMessage_prepareMessage = example_siwe,
      viem_verifyMessage = example_verifyMessage,
      base58_decode = example_base58,
      nacl_sign_detached_verify = (\<lambda>message signature publicKey. False),
      createPublicClient = (\<lambda>numericId url. Inr example_client)\<rparr>"

definition example_book_options :: AgentBookOptions where
  "example_book_options =
     \<lparr>client = Some example_client, contractAddress = Some example_contract, rpcUrl = None\<rparr>"

text \<open>A verifier created without any option: no client, no contract address.\<close>

definition default_book_options :: AgentBookOptions where
  "default_book_options = \<lparr>client = None, contractAddress = None, rpcUrl = None\<rparr>"

definition example_agentBook :: "string \<Rightarrow> string \<Rightarrow> js_error + string option" where
  "example_agentBook address chainId =
     fst (lookupHuman example_env example_book_options Map.empty address chainId)"

definition example_config :: "AgentkitMode \<Rightarrow> hook_config" where
  "example_config m = \<lparr>agentBook = example_agentBook, mode = m, verifyOptions = None\<rparr>"

text \<open>An adapter that finds a header under the exact name it is asked for, and one
  that compares names without regard to case.\<close>

definition exact_adapter :: "(string \<times> string) list \<Rightarrow> string \<Rightarrow> string option" where
  "exact_adapter headers name = map_of headers name"

definition caseless_adapter :: "(string \<times> string) list \<Rightarrow> string \<Rightarrow> string option" where
  "caseless_adapter headers name =
     map_of (map (\<lambda>(k, v). (toLowerCase k, v)) headers) (toLowerCase name)"

text \<open>\<open>GET https://api.x/data\<close> on the route \<open>/data\<close>, with the given headers.\<close>

definition example_request ::
  "((string \<times> string) list \<Rightarrow> string \<Rightarrow> string option) \<Rightarrow> (string \<times> string) list
     \<Rightarrow> request_context" where
  "example_request adapter headers =
     \<lparr>getHeader = adapter headers, getUrl = ''https://api.x/data'', path = ''/data''\<rparr>"

definition example_state :: hook_state where
  "example_state = \<lparr>storage = Some InMemoryAgentKitStorage, pendingDiscounts = Map.empty\<rparr>"

text \<open>A Solana payload whose address is the base58 text of 32 zero bytes and whose
  signature is the base58 text of 4 zero bytes; and one whose signature decodes to
  64 bytes but whose address decodes to 4.\<close>

definition example_payload_S :: AgentkitPayload where
  "example_payload_S =
     \<lparr>p_domain = ''api.x'', p_address = ''11111111111111111111111111111111'', p_statement = None,
      p_uri = ''https://api.x/data'', p_version = ''1'',
      p_chainId = ''solana:5eykt4UsFv8P8NJdTREpY1vzqKqZKvdp'',
      p_type = ed25519, p_nonce = ''a1b2c3d4e5f60718'', p_issuedAt = ''2026-01-01T00:00:00.000Z'',
      p_expirationTime = None, p_notBefore = None, p_requestId = None,
      p_resources = Some [''https://api.x/data''],
      p_signatureScheme = None,
      p_signature = ''1111''\<rparr>"



text \<open>Discount mode: the request of wallet A has left a pending record for
  \<open>/data\<close>; the facilitator then reports an underpayment of an EIP-3009 payment of
  500 against a requirement of 1000.\<close>

definition example_pending_state :: hook_state where
  "example_pending_state =
     \<lparr>storage = Some InMemoryAgentKitStorage,
      pendingDiscounts =
        [''/data:'' @ p_address example_payload_A \<mapsto>
           \<lparr>pd_humanId = ''0x1234'', pd_address = p_address example_payload_A,
            pd_createdAt = 1767225660000\<rparr>]\<rparr>"

definition example_failure :: verify_failure_context where
  "example_failure =
     \<lparr>resource_url = ''https://api.x/data'',
      payload =
        \<lparr>authorization = Some \<lparr>a_from = Some (p_address example_payload_A), a_value = Some ''500''\<rparr>,
         permit2Authorization = None\<rparr>,
      requirements_amount = ''1000'',
      error_message = ''invalid_exact_evm_payload_authorization_value: expected 1000''\<rparr>"

definition example_discount_options :: CreateAgentkitHooksOptions where
  "example_discount_options =
     \<lparr>o_agentBook = example_agentBook, o_mode = Some (Discount 50 (Some 10)),
      o_storage = Some InMemoryAgentKitStorage, o_verifyOptions = None\<rparr>"

text \<open>A storage object that records nonces but cannot be asked about them.\<close>

definition recording_only_storage :: AgentKitStorage where
  "recording_only_storage = InMemoryAgentKitStorage\<lparr>provides_hasUsedNonce := False\<rparr>"

text \<open>The requests of wallet A and of wallet B, each with its signed payload in the
  header \<open>agentkit\<close>.\<close>

definition example_request_A :: request_context where
  "example_request_A = example_request exact_adapter [(''agentkit'', example_header_A)]"

definition example_request_B :: request_context where
  "example_request_B = example_request exact_adapter [(''agentkit'', example_header_B)]"

subsection \<open>Notions for stating the properties of the hooks\<close>

text \<open>The address the hook takes from a successful verification, \<open>None\<close> when the
  verification throws or is not valid.\<close>

definition verified_address :: "js_env \<Rightarrow> hook_config \<Rightarrow> AgentkitPayload \<Rightarrow> string option" where
  "verified_address env cfg p =
     (case verifyAgentkitSignature env p (verifyOptions cfg) of
        Inl e \<Rightarrow> None
      | Inr r \<Rightarrow> if r_valid r \<and> truthy (r_address r) then r_address r else None)"

text \<open>
  The request carries a header that parses to \<open>p\<close>, and \<open>p\<close> passes the validation and
  the verification as the request hook runs them in the state \<open>st\<close>.
\<close>

definition verified_payload ::
  "js_env \<Rightarrow> hook_config \<Rightarrow> hook_state \<Rightarrow> request_context \<Rightarrow> AgentkitPayload \<Rightarrow> bool" where
  "verified_payload env cfg st ctx p =
     (truthy (getHeader ctx AGENTKIT)
      \<and> parseAgentkitHeader env (the (getHeader ctx AGENTKIT)) = Inr p
      \<and> (case validateAgentkitMessage env p (getUrl ctx)
                 \<lparr>maxAge = None, checkNonce = hook_checkNonce st\<rparr> of
            Inl e \<Rightarrow> False
          | Inr v \<Rightarrow> v_valid v)
      \<and> verified_address env cfg p \<noteq> None)"

text \<open>The human identifier the AgentBook returns for the verified address of \<open>p\<close>,
  \<open>None\<close> when the lookup throws or answers null.\<close>

definition registered_human :: "js_env \<Rightarrow> hook_config \<Rightarrow> AgentkitPayload \<Rightarrow> string option" where
  "registered_human env cfg p =
     (case verified_address env cfg p of
        None \<Rightarrow> None
      | Some address \<Rightarrow>
          (case agentBook cfg address (p_chainId p) of
             Inl e \<Rightarrow> None
           | Inr humanId \<Rightarrow> if truthy humanId then humanId else None))"

text \<open>The state once the hook has recorded a nonce, if the storage can record.\<close>

definition after_recordNonce :: "hook_state \<Rightarrow> string \<Rightarrow> hook_state" where
  "after_recordNonce st nonce =
     (case storage st of
        None \<Rightarrow> st
      | Some s \<Rightarrow>
          if provides_recordNonce s then st\<lparr>storage := Some (recordNonce s nonce)\<rparr> else st)"

fun is_CallRecordNonce :: "call \<Rightarrow> bool" where
  "is_CallRecordNonce (CallRecordNonce nonce) = True"
| "is_CallRecordNonce _ = False"

fun is_CallLookupHuman :: "call \<Rightarrow> bool" where
  "is_CallLookupHuman (CallLookupHuman address chainId) = True"
| "is_CallLookupHuman _ = False"

fun is_usage_call :: "call \<Rightarrow> bool" where
  "is_usage_call (CallGetUsageCount endpoint humanId) = True"
| "is_usage_call (CallIncrementUsage endpoint humanId) = True"
| "is_usage_call _ = False"

text \<open>
  When the verify-failure hook is to recover, in the words of the specification: a
  pending record \<open>entry\<close> exists for the resource path and the payer, the
  facilitator's error is an underpayment, the usage cap is not reached, and the
  paid amount is at least \<open>floor(R * (100 - percent) / 100)\<close> and below \<open>R\<close>. Here
  \<open>div\<close> is the floor of the exact quotient.
\<close>

definition recoverable ::
  "int \<Rightarrow> int option \<Rightarrow> string \<Rightarrow> hook_state \<Rightarrow> verify_failure_context \<Rightarrow> int \<Rightarrow> int
     \<Rightarrow> pending_discount \<Rightarrow> bool" where
  "recoverable percent uses resourcePath st ctx R paid entry =
     (truthy (extractPayer (payload ctx))
      \<and> pendingDiscounts st (resourcePath @ '':'' @ the (extractPayer (payload ctx))) = Some entry
      \<and> isUnderpaymentError (error_message ctx)
      \<and> (case uses of
            None \<Rightarrow> True
          | Some n \<Rightarrow> int (count_of st resourcePath (pd_humanId entry)) < n)
      \<and> R * (100 - percent) div 100 \<le> paid \<and> paid < R)"

text \<open>The failure of the example with a payment of 400 instead of 500.\<close>

definition example_failure_400 :: verify_failure_context where
  "example_failure_400 =
     example_failure
       \<lparr>payload :=
          \<lparr>authorization =
             Some \<lparr>a_from = Some (p_address example_payload_A), a_value = Some ''400''\<rparr>,
           permit2Authorization = None\<rparr>\<rparr>"

section \<open>Facts about the examples\<close>

lemma example_headers_differ:
  "example_header_B \<noteq> example_header_A"
  "example_header_M \<noteq> example_header_A"
  "example_header_M \<noteq> example_header_B"
  by (simp_all add: example_header_A_def example_header_B_def example_header_M_def)

lemma example_jsons_differ:
  "example_json_B \<noteq> example_json_A"
  "example_json_M \<noteq> example_json_A"
  "example_json_M \<noteq> example_json_B"
  by (simp_all add: example_json_A_def example_json_B_def example_json_M_def)

lemmas schema_defs =
  AgentkitPayloadSchema_def z_string_def z_string_optional_def z_string_array_optional_def
  z_SignatureType_def z_SignatureScheme_optional_def

lemma example_schema_A: "AgentkitPayloadSchema example_object_A = Some example_payload_A"
  by (simp add: schema_defs example_object_A_def example_payload_A_def)

lemma example_schema_B: "AgentkitPayloadSchema example_object_B = Some example_payload_B"
  by (simp add: schema_defs example_object_B_def example_payload_B_def)

lemma example_schema_M: "AgentkitPayloadSchema example_object_M = Some example_payload_M"
  by (simp add: schema_defs example_object_M_def example_payload_M_def)

lemma example_parse_A: "parseAgentkitHeader example_env example_header_A = Inr example_payload_A"
  by (simp add: parseAgentkitHeader_def example_env_def example_base64_def example_JSON_def
      example_schema_A)

lemma example_parse_B: "parseAgentkitHeader example_env example_header_B = Inr example_payload_B"
  by (simp add: parseAgentkitHeader_def example_env_def example_base64_def example_JSON_def
      example_schema_B example_headers_differ example_jsons_differ)

lemma example_parse_M: "parseAgentkitHeader example_env example_header_M = Inr example_payload_M"
  by (simp add: parseAgentkitHeader_def example_env_def example_base64_def example_JSON_def
      example_schema_M example_headers_differ example_jsons_differ)

lemma example_URL_data:
  "example_URL ''https://api.x/data'' =
     Some \<lparr>hostname = ''api.x'', origin = ''https://api.x'', pathname = ''/data''\<rparr>"
  by (simp add: example_URL_def startsWith_def Let_def)

lemma example_URL_invalid: "example_URL ''not a url'' = None"
  by (simp add: example_URL_def startsWith_def Let_def)

lemmas validate_defs =
  validateAgentkitMessage_def validate_expirationTime_def validate_notBefore_def
  validate_nonce_def DEFAULT_MAX_AGE_MS_def example_Date_def Let_def

lemma example_validate_A:
  "validateAgentkitMessage example_env example_payload_A ''https://api.x/data''
     \<lparr>maxAge = None, checkNonce = None\<rparr> = Inr \<lparr>v_valid = True, v_error = None\<rparr>"
  by (simp add: validate_defs example_env_def example_URL_data example_payload_A_def)

lemma example_validate_M:
  "validateAgentkitMessage example_env example_payload_M ''https://api.x/data''
     \<lparr>maxAge = None, checkNonce = None\<rparr> = Inr \<lparr>v_valid = True, v_error = None\<rparr>"
  by (simp add: validate_defs example_env_def example_URL_data example_payload_M_def)

lemmas verify_evm_defs =
  verifyAgentkitSignature_def verifyEVMPayload_def formatSIWEMessage_def extractEVMChainId_def
  eip155_number_def is_digit_def digit_val_def lower_char_def verifyEVMSignature_def
  startsWith_def example_siwe_def example_verifyMessage_def payload_info_def digits_of.simps
  digit_char_def Let_def

lemma example_verify_A:
  "verifyAgentkitSignature example_env example_payload_A None =
     Inr \<lparr>r_valid = True, r_address = Some (p_address example_payload_A), r_error = None\<rparr>"
  by (simp add: verify_evm_defs example_env_def example_payload_A_def)

lemma example_verify_B:
  "verifyAgentkitSignature example_env example_payload_B None =
     Inr \<lparr>r_valid = True, r_address = Some (p_address example_payload_B), r_error = None\<rparr>"
  by (simp add: verify_evm_defs example_env_def example_payload_A_def example_payload_B_def)

lemma example_verify_M:
  "verifyAgentkitSignature example_env example_payload_M None =
     Inr \<lparr>r_valid = True, r_address = Some (p_address example_payload_M), r_error = None\<rparr>"
  by (simp add: verify_evm_defs example_env_def example_payload_A_def example_payload_M_def)

lemmas book_defs =
  lookupHuman_def getContractAddress_def getClient_def example_book_options_def
  example_client_def example_contract_def toHex_def digit_char_def digits_of.simps Let_def

lemma example_agentBook_A:
  "example_agentBook (p_address example_payload_A) chainId = Inr (Some ''0x1234'')"
  by (simp add: example_agentBook_def book_defs)

lemma example_agentBook_B:
  "example_agentBook (p_address example_payload_B) chainId = Inr (Some ''0x1234'')"
  by (simp add: example_agentBook_def book_defs)

section \<open>The Solana message\<close>

text \<open>
  Claim C8, as amended. For every info record and address, \<open>formatSIWSMessage\<close>
  joins with newlines, in this order: the header line
  \<open><domain> wants you to sign in with your Solana account:\<close>, the address, a blank
  line, the statement followed by a blank line when a non-empty statement is given,
  the lines \<open>URI\<close>, \<open>Version\<close>, \<open>Chain ID\<close> (the second colon-separated part of
  \<open>chainId\<close>), \<open>Nonce\<close>, \<open>Issued At\<close>, then \<open>Expiration Time\<close>, \<open>Not Before\<close> and
  \<open>Request ID\<close> for those that are given and non-empty, and a \<open>Resources:\<close> list when
  the resources are given and not empty.
\<close>

theorem formatSIWSMessage_layout:
  "formatSIWSMessage info address =
     join [CHR 0x0A]
       ([i_domain info @ '' wants you to sign in with your Solana account:'', address, '''']
        @ (if truthy (i_statement info) then [the (i_statement info), ''''] else [])
        @ [''URI: '' @ i_uri info,
           ''Version: '' @ i_version info,
           ''Chain ID: '' @ template (extractSolanaChainReference (i_chainId info)),
           ''Nonce: '' @ i_nonce info,
           ''Issued At: '' @ i_issuedAt info]
        @ (if truthy (i_expirationTime info)
           then [''Expiration Time: '' @ the (i_expirationTime info)] else [])
        @ (if truthy (i_notBefore info) then [''Not Before: '' @ the (i_notBefore info)] else [])
        @ (if truthy (i_requestId info) then [''Request ID: '' @ the (i_requestId info)] else [])
        @ (case i_resources info of
             None \<Rightarrow> []
           | Some resources \<Rightarrow>
               if resources = [] then []
               else ''Resources:'' # map (\<lambda>resource. ''- '' @ resource) resources))"
  unfolding formatSIWSMessage_def formatSIWSMessage_lines_def Let_def
  by (simp split: option.split)

text \<open>
  Claim C8 as stated fails: the line after the header is the address, and the blank
  line comes third. For the example payload the lines do not start with the header, a
  blank line and the address.
\<close>

theorem formatSIWSMessage_blank_line_counterexample:
  "\<not> (\<exists>rest.
        formatSIWSMessage_lines (payload_info example_payload_S) (p_address example_payload_S)
          = (i_domain (payload_info example_payload_S)
               @ '' wants you to sign in with your Solana account:'')
            # '''' # p_address example_payload_S # rest)"
  by (simp add: formatSIWSMessage_lines_def payload_info_def example_payload_S_def)

lemma formatSIWSMessage_example:
  "formatSIWSMessage_lines (payload_info example_payload_S) (p_address example_payload_S) =
     [''api.x wants you to sign in with your Solana account:'',
      ''11111111111111111111111111111111'',
      '''',
      ''URI: https://api.x/data'',
      ''Version: 1'',
      ''Chain ID: 5eykt4UsFv8P8NJdTREpY1vzqKqZKvdp'',
      ''Nonce: a1b2c3d4e5f60718'',
      ''Issued At: 2026-01-01T00:00:00.000Z'',
      ''Resources:'',
      ''- https://api.x/data'']"
  by (simp add: formatSIWSMessage_lines_def payload_info_def example_payload_S_def
      extractSolanaChainReference_def)

section \<open>The type field and the chain namespace\<close>

lemma payload_info_type: "payload_info (p\<lparr>p_type := t\<rparr>) = (payload_info p)\<lparr>i_type := t\<rparr>"
  by (simp add: payload_info_def)

lemma formatSIWSMessage_type:
  "formatSIWSMessage (info\<lparr>i_type := t\<rparr>) address = formatSIWSMessage info address"
  by (simp add: formatSIWSMessage_def formatSIWSMessage_lines_def Let_def cong: if_cong)

lemma formatSIWEMessage_type:
  "formatSIWEMessage env (info\<lparr>i_type := t\<rparr>) address = formatSIWEMessage env info address"
  by (simp add: formatSIWEMessage_def split: sum.split)

lemma validate_nonce_type: "validate_nonce (p\<lparr>p_type := t\<rparr>) options = validate_nonce p options"
  by (simp add: validate_nonce_def split: option.split sum.split)

lemma validate_notBefore_type:
  "validate_notBefore env (p\<lparr>p_type := t\<rparr>) options = validate_notBefore env p options"
  by (simp add: validate_notBefore_def validate_nonce_type split: option.split cong: if_cong)

lemma validate_expirationTime_type:
  "validate_expirationTime env (p\<lparr>p_type := t\<rparr>) options = validate_expirationTime env p options"
  by (simp add: validate_expirationTime_def validate_notBefore_type split: option.split cong: if_cong)

lemma validateAgentkitMessage_type:
  "validateAgentkitMessage env (p\<lparr>p_type := t\<rparr>) uri options
     = validateAgentkitMessage env p uri options"
  by (simp add: validateAgentkitMessage_def validate_expirationTime_type Let_def
      split: option.split cong: if_cong)

lemma verifyEVMPayload_type:
  "verifyEVMPayload env (p\<lparr>p_type := t\<rparr>) v = verifyEVMPayload env p v"
  by (simp add: verifyEVMPayload_def payload_info_type formatSIWEMessage_type
      split: sum.split cong: if_cong)

lemma verifySolanaPayload_type:
  "verifySolanaPayload env (p\<lparr>p_type := t\<rparr>) = verifySolanaPayload env p"
  by (simp add: verifySolanaPayload_def payload_info_type formatSIWSMessage_type Let_def
      split: sum.split cong: if_cong)

lemma verifyAgentkitSignature_type:
  "verifyAgentkitSignature env (p\<lparr>p_type := t\<rparr>) vo = verifyAgentkitSignature env p vo"
  by (simp add: verifyAgentkitSignature_def verifyEVMPayload_type verifySolanaPayload_type)

text \<open>
  Claim C7, as amended. The pipeline never compares \<open>type\<close> with the namespace of
  \<open>chainId\<close>: for every payload, \<open>validateAgentkitMessage\<close> and
  \<open>verifyAgentkitSignature\<close> return the same result whatever the \<open>type\<close> field is, so a
  payload whose type does not match its namespace is accepted exactly when the same
  payload with the matching type is. The codec is chosen by the prefix of \<open>chainId\<close>
  alone.
\<close>

theorem pipeline_ignores_type:
  "validateAgentkitMessage env (p\<lparr>p_type := t\<rparr>) uri options
     = validateAgentkitMessage env p uri options
   \<and> verifyAgentkitSignature env (p\<lparr>p_type := t\<rparr>) vo = verifyAgentkitSignature env p vo"
  by (simp add: validateAgentkitMessage_type verifyAgentkitSignature_type)

text \<open>
  Claim C7 as stated fails: the header \<open>example_header_M\<close> parses to a payload of type
  \<open>ed25519\<close> on the chain \<open>eip155:8453\<close>, and validation and verification both accept
  it.
\<close>

theorem type_mismatch_accepted_counterexample:
  "parseAgentkitHeader example_env example_header_M = Inr example_payload_M
   \<and> p_type example_payload_M = ed25519
   \<and> startsWith (p_chainId example_payload_M) ''eip155:''
   \<and> validateAgentkitMessage example_env example_payload_M ''https://api.x/data''
        \<lparr>maxAge = None, checkNonce = None\<rparr> = Inr \<lparr>v_valid = True, v_error = None\<rparr>
   \<and> verifyAgentkitSignature example_env example_payload_M None =
        Inr \<lparr>r_valid = True, r_address = Some (p_address example_payload_M), r_error = None\<rparr>"
  using example_parse_M example_validate_M example_verify_M
  by (simp add: example_payload_M_def startsWith_def)

section \<open>Routing by chain namespace\<close>









section \<open>What the validator returns and what it throws\<close>

lemma validate_nonce_returns:
  "(\<forall>check e. checkNonce options = Some check \<longrightarrow> check (p_nonce message) \<noteq> Inl e) \<Longrightarrow>
   \<exists>r. validate_nonce message options = Inr r \<and> (v_valid r \<longleftrightarrow> v_error r = None)"
  by (auto simp: validate_nonce_def invalid_def split: option.splits sum.splits)

lemma validate_notBefore_returns:
  "(\<forall>check e. checkNonce options = Some check \<longrightarrow> check (p_nonce message) \<noteq> Inl e) \<Longrightarrow>
   \<exists>r. validate_notBefore env message options = Inr r \<and> (v_valid r \<longleftrightarrow> v_error r = None)"
  using validate_nonce_returns [of options message]
  by (auto simp: validate_notBefore_def invalid_def split: option.splits)

lemma validate_expirationTime_returns:
  "(\<forall>check e. checkNonce options = Some check \<longrightarrow> check (p_nonce message) \<noteq> Inl e) \<Longrightarrow>
   \<exists>r. validate_expirationTime env message options = Inr r \<and> (v_valid r \<longleftrightarrow> v_error r = None)"
  using validate_notBefore_returns [of options message env]
  by (auto simp: validate_expirationTime_def invalid_def split: option.splits)

text \<open>
  Claim C6, as amended. For every payload, every expected resource URI that
  \<open>new URL\<close> accepts, and every options value whose \<open>checkNonce\<close> does not throw
  on the payload's nonce, \<open>validateAgentkitMessage\<close> returns a structured result,
  which carries an error exactly when it is not valid.
\<close>

theorem validateAgentkitMessage_returns:
  assumes "URL_new env expectedResourceUri \<noteq> None"
    and "\<forall>check e. checkNonce options = Some check \<longrightarrow> check (p_nonce message) \<noteq> Inl e"
  shows "\<exists>r. validateAgentkitMessage env message expectedResourceUri options = Inr r
             \<and> (v_valid r \<longleftrightarrow> v_error r = None)"
  using assms(1) validate_expirationTime_returns [OF assms(2), of env]
  by (auto simp: validateAgentkitMessage_def invalid_def Let_def split: option.splits)

theorem validateAgentkitMessage_returns_witness:
  "URL_new example_env ''https://api.x/data'' \<noteq> None
   \<and> checkNonce \<lparr>maxAge = None, checkNonce = None\<rparr> = None
   \<and> (\<exists>r. validateAgentkitMessage example_env example_payload_A ''https://api.x/data''
              \<lparr>maxAge = None, checkNonce = None\<rparr> = Inr r
            \<and> (v_valid r \<longleftrightarrow> v_error r = None))"
proof -
  have u: "URL_new example_env ''https://api.x/data'' \<noteq> None"
    by (simp add: example_env_def example_URL_data)
  have c: "\<forall>check e. checkNonce \<lparr>maxAge = None, checkNonce = None\<rparr> = Some check
             \<longrightarrow> check (p_nonce example_payload_A) \<noteq> Inl e"
    by simp
  from validateAgentkitMessage_returns [OF u c] u show ?thesis
    by simp
qed

text \<open>
  Claim C6 as stated fails: \<open>new URL(expectedResourceUri)\<close> is the first statement
  of the function and stands outside any \<open>try\<close>, so an expected URI that is not a
  URL makes the function throw a \<open>TypeError\<close>.
\<close>

theorem validateAgentkitMessage_throws_counterexample:
  "validateAgentkitMessage example_env example_payload_A ''not a url''
     \<lparr>maxAge = None, checkNonce = None\<rparr> = Inl (TypeError ''Invalid URL'')"
  by (simp add: validateAgentkitMessage_def example_env_def example_URL_invalid)

section \<open>The AgentBook lookup\<close>

lemma digit_val_digit_char:
  assumes "d < base" "base \<le> 16"
  shows "digit_val base (digit_char d) = Some d"
proof -
  from assms have "d < 16"
    by simp
  then have "d \<in> {0, 1, 2, 3, 4, 5, 6, 7, 8, 9, 10, 11, 12, 13, 14, 15}"
    by simp arith
  then have "index_of (lower_char (digit_char d)) ''0123456789abcdef'' = Some d"
    by (elim insertE emptyE) (simp_all add: digit_char_def lower_char_def)
  with assms show ?thesis
    by (simp add: digit_val_def)
qed

lemma digit_char_lowercase:
  assumes "d < 16"
  shows "digit_char d \<in> set ''0123456789abcdef''"
proof -
  from assms have "d < 16"
    by simp
  then have "d \<in> {0, 1, 2, 3, 4, 5, 6, 7, 8, 9, 10, 11, 12, 13, 14, 15}"
    by simp arith
  then show ?thesis
    by (elim insertE emptyE) (simp_all add: digit_char_def)
qed

lemma digits_value_append:
  "digits_value base acc (xs @ ys) =
     (case digits_value base acc xs of None \<Rightarrow> None | Some a \<Rightarrow> digits_value base a ys)"
  by (induction xs arbitrary: acc) (auto split: option.splits)

lemma digits_of_nonempty: "digits_of base n \<noteq> []"
  by (subst digits_of.simps) simp

lemma digits_of_lowercase: "set (digits_of 16 n) \<subseteq> set ''0123456789abcdef''"
proof (induction n rule: less_induct)
  case (less n)
  show ?case
  proof (cases "n < 16")
    case True
    then show ?thesis
      using digit_char_lowercase [of n] by (subst digits_of.simps) simp
  next
    case False
    then have "n div 16 < n" by simp
    from less.IH [OF this] digit_char_lowercase [of "n mod 16"] False show ?thesis
      by (subst digits_of.simps) simp
  qed
qed

lemma digits_value_digits_of:
  "digits_value 16 0 (digits_of 16 n) = Some n"
proof (induction n rule: less_induct)
  case (less n)
  show ?case
  proof (cases "n < 16")
    case True
    then show ?thesis
      using digit_val_digit_char [of n 16] by (subst digits_of.simps) simp
  next
    case False
    then have "n div 16 < n" by simp
    from less.IH [OF this] digit_val_digit_char [of "n mod 16" 16] False show ?thesis
      by (subst digits_of.simps) (simp add: digits_value_append)
  qed
qed

lemma Object_prototype_not_eip155:
  "chainId \<in> set Object_prototype \<Longrightarrow> eip155_number chainId = None"
  by (auto simp: Object_prototype_def eip155_number_def startsWith_def)

lemma getContractAddress_unconfigured:
  "\<not> truthy (contractAddress options) \<Longrightarrow> chainId \<notin> set Object_prototype \<Longrightarrow>
   getContractAddress options chainId =
     Inl (Error (''No AgentBook deployment known for network '' @ chainId @ ''. ''
                 @ ''Pass a contractAddress to createAgentBookVerifier().''))"
  by (simp add: getContractAddress_def KNOWN_DEPLOYMENTS_def)

lemma getContractAddress_resolved:
  "truthy (contractAddress options) \<or> chainId \<in> set Object_prototype \<Longrightarrow>
   getContractAddress options chainId =
     Inr (if truthy (contractAddress options) then Address (the (contractAddress options))
          else Inherited chainId)"
  by (auto simp: getContractAddress_def KNOWN_DEPLOYMENTS_def)

text \<open>
  Claim C4, as amended. When a contract address is resolved and a client is
  available, \<open>lookupHuman\<close> never throws: it returns null when \<open>readContract\<close> fails
  (an RPC error, a revert), maps a zero return to null, and on a nonzero return
  yields \<open>0x\<close> followed by the identifier's lowercase hexadecimal digits. A contract
  address is resolved from a non-empty \<open>contractAddress\<close> option, or else, the table
  of deployments being an empty object literal, for a \<open>chainId\<close> that names a member
  inherited from \<open>Object.prototype\<close>, which is then passed on as the address. When
  neither is the case \<open>lookupHuman\<close> throws the configuration error, and when no
  client can be made for the chain it throws what \<open>getClient\<close> throws: for an
  inherited name, with no client given or cached, \<open>Unsupported chain format\<close>.
\<close>

theorem lookupHuman_results:
  "(\<not> truthy (contractAddress options) \<and> chainId \<notin> set Object_prototype \<longrightarrow>
      fst (lookupHuman env options cache address chainId) =
        Inl (Error (''No AgentBook deployment known for network '' @ chainId @ ''. ''
                    @ ''Pass a contractAddress to createAgentBookVerifier().'')))
   \<and> (\<not> truthy (contractAddress options) \<and> chainId \<in> set Object_prototype
        \<and> client options = None \<and> cache chainId = None \<longrightarrow>
      fst (lookupHuman env options cache address chainId) =
        Inl (Error (''Unsupported chain format: '' @ chainId)))
   \<and> (\<forall>e cache'.
        (truthy (contractAddress options) \<or> chainId \<in> set Object_prototype) \<and>
        getClient env options cache chainId = (Inl e, cache') \<longrightarrow>
        fst (lookupHuman env options cache address chainId) = Inl e)
   \<and> (\<forall>contract readContract cache'.
        (truthy (contractAddress options) \<or> chainId \<in> set Object_prototype) \<and>
        contract = (if truthy (contractAddress options)
                    then Address (the (contractAddress options)) else Inherited chainId) \<and>
        getClient env options cache chainId = (Inr readContract, cache') \<longrightarrow>
        (\<forall>e. readContract contract address = Inl e \<longrightarrow>
             fst (lookupHuman env options cache address chainId) = Inr None)
        \<and> (readContract contract address = Inr 0 \<longrightarrow>
             fst (lookupHuman env options cache address chainId) = Inr None)
        \<and> (\<forall>humanId.
             readContract contract address = Inr humanId \<and> humanId \<noteq> 0 \<longrightarrow>
             (\<exists>ds. fst (lookupHuman env options cache address chainId) = Inr (Some (''0x'' @ ds))
                   \<and> ds \<noteq> [] \<and> set ds \<subseteq> set ''0123456789abcdef''
                   \<and> digits_value 16 0 ds = Some (unat humanId))))"
proof -
  let ?resolved = "truthy (contractAddress options) \<or> chainId \<in> set Object_prototype"
  let ?contract = "if truthy (contractAddress options)
                   then Address (the (contractAddress options)) else Inherited chainId"
  have c1: "\<not> truthy (contractAddress options) \<and> chainId \<notin> set Object_prototype \<longrightarrow>
      fst (lookupHuman env options cache address chainId) =
        Inl (Error (''No AgentBook deployment known for network '' @ chainId @ ''. ''
                    @ ''Pass a contractAddress to createAgentBookVerifier().''))"
    by (simp add: lookupHuman_def getContractAddress_unconfigured)
  have resolved: "getContractAddress options chainId = Inr ?contract" if ?resolved
    using that by (rule getContractAddress_resolved)
  have c2: "\<not> truthy (contractAddress options) \<and> chainId \<in> set Object_prototype
        \<and> client options = None \<and> cache chainId = None \<longrightarrow>
      fst (lookupHuman env options cache address chainId) =
        Inl (Error (''Unsupported chain format: '' @ chainId))"
  proof (intro impI, elim conjE)
    assume a: "\<not> truthy (contractAddress options)" "chainId \<in> set Object_prototype"
      "client options = None" "cache chainId = None"
    from a(2) have r: "getContractAddress options chainId = Inr ?contract"
      by (simp add: resolved)
    from a(3,4) Object_prototype_not_eip155 [OF a(2)]
    have "getClient env options cache chainId
            = (Inl (Error (''Unsupported chain format: '' @ chainId)), cache)"
      by (simp add: getClient_def extractNumericChainId_def)
    with r show "fst (lookupHuman env options cache address chainId) =
        Inl (Error (''Unsupported chain format: '' @ chainId))"
      by (simp add: lookupHuman_def)
  qed
  have c3: "\<forall>e cache'.
        ?resolved \<and> getClient env options cache chainId = (Inl e, cache') \<longrightarrow>
        fst (lookupHuman env options cache address chainId) = Inl e"
    by (auto simp: lookupHuman_def resolved)
  have c4: "\<forall>contract readContract cache'.
        ?resolved \<and> contract = ?contract \<and>
        getClient env options cache chainId = (Inr readContract, cache') \<longrightarrow>
        (\<forall>e. readContract contract address = Inl e \<longrightarrow>
             fst (lookupHuman env options cache address chainId) = Inr None)
        \<and> (readContract contract address = Inr 0 \<longrightarrow>
             fst (lookupHuman env options cache address chainId) = Inr None)
        \<and> (\<forall>humanId.
             readContract contract address = Inr humanId \<and> humanId \<noteq> 0 \<longrightarrow>
             (\<exists>ds. fst (lookupHuman env options cache address chainId) = Inr (Some (''0x'' @ ds))
                   \<and> ds \<noteq> [] \<and> set ds \<subseteq> set ''0123456789abcdef''
                   \<and> digits_value 16 0 ds = Some (unat humanId)))"
  proof (intro allI impI, elim conjE)
    fix contract readContract cache'
    assume a: ?resolved "contract = ?contract"
      "getClient env options cache chainId = (Inr readContract, cache')"
    from resolved [OF a(1)] a(2) have r: "getContractAddress options chainId = Inr contract"
      by simp
    have l: "fst (lookupHuman env options cache address chainId) =
        (case readContract contract address of
           Inl e \<Rightarrow> Inr None
         | Inr humanId \<Rightarrow> if humanId = 0 then Inr None else Inr (Some (toHex (unat humanId))))"
      by (simp add: lookupHuman_def r a(3) split: sum.split)
    have hex: "\<exists>ds. toHex n = ''0x'' @ ds \<and> ds \<noteq> [] \<and> set ds \<subseteq> set ''0123456789abcdef''
                 \<and> digits_value 16 0 ds = Some n" for n
      using digits_of_nonempty [of 16 n] digits_of_lowercase [of n] digits_value_digits_of [of n]
      by (simp add: toHex_def)
    show "(\<forall>e. readContract contract address = Inl e \<longrightarrow>
             fst (lookupHuman env options cache address chainId) = Inr None)
        \<and> (readContract contract address = Inr 0 \<longrightarrow>
             fst (lookupHuman env options cache address chainId) = Inr None)
        \<and> (\<forall>humanId.
             readContract contract address = Inr humanId \<and> humanId \<noteq> 0 \<longrightarrow>
             (\<exists>ds. fst (lookupHuman env options cache address chainId) = Inr (Some (''0x'' @ ds))
                   \<and> ds \<noteq> [] \<and> set ds \<subseteq> set ''0123456789abcdef''
                   \<and> digits_value 16 0 ds = Some (unat humanId)))"
    proof (intro conjI allI impI)
      fix e assume "readContract contract address = Inl e"
      with l show "fst (lookupHuman env options cache address chainId) = Inr None"
        by simp
    next
      assume "readContract contract address = Inr 0"
      with l show "fst (lookupHuman env options cache address chainId) = Inr None"
        by simp
    next
      fix humanId assume "readContract contract address = Inr humanId \<and> humanId \<noteq> 0"
      with l have "fst (lookupHuman env options cache address chainId)
                     = Inr (Some (toHex (unat humanId)))"
        by simp
      with hex [of "unat humanId"]
      show "\<exists>ds. fst (lookupHuman env options cache address chainId) = Inr (Some (''0x'' @ ds))
                   \<and> ds \<noteq> [] \<and> set ds \<subseteq> set ''0123456789abcdef''
                   \<and> digits_value 16 0 ds = Some (unat humanId)"
        by auto
    qed
  qed
  show ?thesis
    by (intro conjI) (fact c1, fact c2, fact c3, fact c4)
qed

theorem lookupHuman_results_witness:
  "truthy (contractAddress example_book_options)
   \<and> getClient example_env example_book_options Map.empty ''eip155:8453''
       = (Inr example_client, Map.empty)
   \<and> example_client (Address example_contract) (p_address example_payload_A) = Inr 0x1234
   \<and> fst (lookupHuman example_env example_book_options Map.empty
            (p_address example_payload_A) ''eip155:8453'') = Inr (Some ''0x1234'')
   \<and> example_client (Address example_contract) ''0x0000000000000000000000000000000000000001''
       = Inr 0
   \<and> fst (lookupHuman example_env example_book_options Map.empty
            ''0x0000000000000000000000000000000000000001'' ''eip155:8453'') = Inr None
   \<and> truthy (contractAddress (example_book_options\<lparr>contractAddress := Some ''0x01''\<rparr>))
   \<and> example_client (Address ''0x01'') (p_address example_payload_A)
       = Inl (Error ''execution reverted'')
   \<and> fst (lookupHuman example_env (example_book_options\<lparr>contractAddress := Some ''0x01''\<rparr>)
            Map.empty (p_address example_payload_A) ''eip155:8453'') = Inr None
   \<and> \<not> truthy (contractAddress default_book_options)
   \<and> ''eip155:8453'' \<notin> set Object_prototype
   \<and> (\<exists>e. fst (lookupHuman example_env default_book_options Map.empty
                 (p_address example_payload_A) ''eip155:8453'') = Inl e)
   \<and> ''constructor'' \<in> set Object_prototype
   \<and> fst (lookupHuman example_env default_book_options Map.empty
            (p_address example_payload_A) ''constructor'')
       = Inl (Error ''Unsupported chain format: constructor'')
   \<and> getClient example_env (default_book_options\<lparr>client := Some example_client\<rparr>) Map.empty
         ''constructor'' = (Inr example_client, Map.empty)
   \<and> example_client (Inherited ''constructor'') (p_address example_payload_A)
       = Inl (Error ''execution reverted'')
   \<and> fst (lookupHuman example_env (default_book_options\<lparr>client := Some example_client\<rparr>)
            Map.empty (p_address example_payload_A) ''constructor'') = Inr None"
proof -
  let ?A = "p_address example_payload_A"
  let ?U = "''0x0000000000000000000000000000000000000001''"
  let ?R = "example_book_options\<lparr>contractAddress := Some ''0x01''\<rparr>"
  let ?C = "default_book_options\<lparr>client := Some example_client\<rparr>"
  have t: "truthy (contractAddress example_book_options)"
    by (simp add: example_book_options_def example_contract_def)
  have the_c: "the (contractAddress example_book_options) = example_contract"
    by (simp add: example_book_options_def)
  have g: "getClient example_env example_book_options Map.empty ''eip155:8453''
             = (Inr example_client, Map.empty)"
    by (simp add: getClient_def example_book_options_def)
  have rA: "example_client (Address example_contract) ?A = Inr 0x1234"
    by (simp add: example_client_def)
  have rU: "example_client (Address example_contract) ?U = Inr 0"
    by (simp add: example_client_def example_payload_A_def example_payload_B_def)
  have tR: "truthy (contractAddress ?R)"
    by simp
  have gR: "getClient example_env ?R Map.empty ''eip155:8453'' = (Inr example_client, Map.empty)"
    by (simp add: getClient_def example_book_options_def)
  have rR: "example_client (Address ''0x01'') ?A = Inl (Error ''execution reverted'')"
    by (simp add: example_client_def example_contract_def)
  have d: "\<not> truthy (contractAddress default_book_options)"
    and dc: "client default_book_options = None"
    by (simp_all add: default_book_options_def)
  have dC: "\<not> truthy (contractAddress ?C)"
    by (simp add: default_book_options_def)
  have n: "''eip155:8453'' \<notin> set Object_prototype"
    and i: "''constructor'' \<in> set Object_prototype"
    by (simp_all add: Object_prototype_def)
  have gC: "getClient example_env ?C Map.empty ''constructor'' = (Inr example_client, Map.empty)"
    by (simp add: getClient_def)
  have rC: "example_client (Inherited ''constructor'') ?A = Inl (Error ''execution reverted'')"
    by (simp add: example_client_def)
  note at = lookupHuman_results [of example_book_options "''eip155:8453''" example_env Map.empty]
  note last = conjunct2 [THEN conjunct2, THEN conjunct2]
  have lA: "fst (lookupHuman example_env example_book_options Map.empty ?A ''eip155:8453'')
              = Inr (Some ''0x1234'')"
  proof -
    from at [of ?A, THEN last, rule_format, of "Address example_contract" example_client Map.empty,
        THEN conjunct2, THEN conjunct2, rule_format, of "0x1234"] t g rA the_c
    obtain ds where ds:
      "fst (lookupHuman example_env example_book_options Map.empty ?A ''eip155:8453'')
         = Inr (Some (''0x'' @ ds))"
      by auto
    moreover have "fst (lookupHuman example_env example_book_options Map.empty ?A ''eip155:8453'')
         = Inr (Some ''0x1234'')"
      using example_agentBook_A [of "''eip155:8453''"] by (simp add: example_agentBook_def)
    ultimately show ?thesis by simp
  qed
  have lU: "fst (lookupHuman example_env example_book_options Map.empty ?U ''eip155:8453'') = Inr None"
    using at [of ?U, THEN last, rule_format, of "Address example_contract" example_client Map.empty,
        THEN conjunct2, THEN conjunct1] t g rU the_c
    by simp
  have lR: "fst (lookupHuman example_env ?R Map.empty ?A ''eip155:8453'') = Inr None"
    using lookupHuman_results [of ?R "''eip155:8453''" example_env Map.empty ?A,
        THEN last, rule_format, of "Address ''0x01''" example_client Map.empty,
        THEN conjunct1, rule_format, of "Error ''execution reverted''"] tR gR rR
    by simp
  have lD: "\<exists>e. fst (lookupHuman example_env default_book_options Map.empty ?A ''eip155:8453'') = Inl e"
    using lookupHuman_results [of default_book_options "''eip155:8453''" example_env Map.empty ?A,
        THEN conjunct1] d n
    by simp
  have lI: "fst (lookupHuman example_env default_book_options Map.empty ?A ''constructor'')
       = Inl (Error ''Unsupported chain format: constructor'')"
    using lookupHuman_results [of default_book_options "''constructor''" example_env Map.empty ?A,
        THEN conjunct2, THEN conjunct1] d i dc
    by simp
  have lC: "fst (lookupHuman example_env ?C Map.empty ?A ''constructor'') = Inr None"
    using lookupHuman_results [of ?C "''constructor''" example_env Map.empty ?A,
        THEN last, rule_format, of "Inherited ''constructor''" example_client Map.empty,
        THEN conjunct1, rule_format, of "Error ''execution reverted''"] dC i gC rC
    by simp
  show ?thesis
    by (intro conjI) (fact t, fact g, fact rA, fact lA, fact rU, fact lU, fact tR, fact rR,
      fact lR, fact d, fact n, fact lD, fact i, fact lI, fact gC, fact rC, fact lC)
qed

text \<open>
  Claim C4 as stated fails for an unconfigured chain: \<open>getContractAddress\<close> is called
  before the \<open>try\<close>, so a verifier created without a contract address throws on a
  lookup for the chain \<open>eip155:8453\<close> (the table of known deployments has no entry).
\<close>

theorem lookupHuman_unconfigured_chain_counterexample:
  "fst (lookupHuman example_env default_book_options Map.empty
         ''0x5B38Da6a701c568545dCfcB03FcB875f56beddC4'' ''eip155:8453'') =
     Inl (Error (''No AgentBook deployment known for network eip155:8453. ''
                 @ ''Pass a contractAddress to createAgentBookVerifier().''))"
  by (simp add: lookupHuman_def getContractAddress_def KNOWN_DEPLOYMENTS_def
      Object_prototype_def default_book_options_def)

section \<open>The request hook, step by step\<close>

lemma toLowerCase_AGENTKIT: "toLowerCase AGENTKIT = AGENTKIT"
  by (simp add: toLowerCase_def AGENTKIT_def lower_char_def)

lemma read_header_eq:
  "read_header ctx =
     (getHeader ctx AGENTKIT,
      if truthy (getHeader ctx AGENTKIT) then [CallGetHeader AGENTKIT]
      else [CallGetHeader AGENTKIT, CallGetHeader AGENTKIT])"
  by (simp add: read_header_def toLowerCase_AGENTKIT)

lemma identify_verified:
  assumes "verified_payload env cfg st ctx p" and "verified_address env cfg p = Some a"
  shows "requestHook_identify env cfg st ctx (the (getHeader ctx AGENTKIT)) =
     ((case agentBook cfg a (p_chainId p) of
         Inl e \<Rightarrow> Inl e
       | Inr humanId \<Rightarrow> if truthy humanId then Inr (Identified p a (the humanId)) else Inr Returned),
      after_recordNonce st (p_nonce p),
      (case storage st of
         None \<Rightarrow> []
       | Some s \<Rightarrow> if provides_recordNonce s then [CallRecordNonce (p_nonce p)] else [])
      @ [CallLookupHuman a (p_chainId p)]
      @ (case agentBook cfg a (p_chainId p) of
           Inl e \<Rightarrow> []
         | Inr humanId \<Rightarrow> if truthy humanId then [] else [Emit (agent_not_verified (path ctx) a)]))"
  using assms
  by (auto simp: verified_payload_def verified_address_def requestHook_identify_def
      after_recordNonce_def Let_def split: sum.splits option.splits if_splits)

lemma identify_not_verified:
  assumes "\<forall>p. \<not> verified_payload env cfg st ctx p" and "truthy (getHeader ctx AGENTKIT)"
    and "requestHook_identify env cfg st ctx (the (getHeader ctx AGENTKIT)) = (res, st1, calls1)"
  shows "st1 = st \<and> (\<forall>p a h. res \<noteq> Inr (Identified p a h))
         \<and> (\<forall>c \<in> set calls1. \<exists>r e. c = Emit (validation_failed r e))"
  using assms
  by (auto simp: verified_payload_def verified_address_def requestHook_identify_def
      Let_def split: sum.splits option.splits if_splits)

lemma verified_payload_unique:
  "verified_payload env cfg st ctx p \<Longrightarrow> verified_payload env cfg st ctx q \<Longrightarrow> p = q"
  by (simp add: verified_payload_def)

lemma verified_payload_address:
  "verified_payload env cfg st ctx p \<Longrightarrow> \<exists>a. verified_address env cfg p = Some a \<and> a \<noteq> []"
  by (auto simp: verified_payload_def verified_address_def split: sum.splits if_splits)

text \<open>The hook on a request without a usable header.\<close>

lemma requestHook_no_header:
  "\<not> truthy (getHeader ctx AGENTKIT) \<Longrightarrow>
   requestHook env cfg st ctx = (NoDecision, st, [CallGetHeader AGENTKIT, CallGetHeader AGENTKIT])"
  by (simp add: requestHook_def read_header_eq)

text \<open>The hook on a request whose header does not pass: the state is as before, and
  nothing but \<open>validation_failed\<close> events follow the header read.\<close>

lemma requestHook_not_verified:
  assumes "\<forall>p. \<not> verified_payload env cfg st ctx p" and "truthy (getHeader ctx AGENTKIT)"
  shows "\<exists>events. requestHook env cfg st ctx = (NoDecision, st, CallGetHeader AGENTKIT # events)
           \<and> (\<forall>c \<in> set events. \<exists>r e. c = Emit (validation_failed r e))"
proof -
  obtain res st1 calls1 where
    i: "requestHook_identify env cfg st ctx (the (getHeader ctx AGENTKIT)) = (res, st1, calls1)"
    by (cases "requestHook_identify env cfg st ctx (the (getHeader ctx AGENTKIT))") auto
  from identify_not_verified [OF assms i]
  have st1: "st1 = st" and res: "\<forall>p a h. res \<noteq> Inr (Identified p a h)"
    and calls1: "\<forall>c \<in> set calls1. \<exists>r e. c = Emit (validation_failed r e)"
    by auto
  show ?thesis
  proof (cases res)
    case (Inl err)
    with i st1 calls1 assms(2) show ?thesis
      by (simp add: requestHook_def read_header_eq)
  next
    case (Inr ident)
    with res have "ident = Returned"
      by (cases ident) auto
    with Inr i st1 calls1 assms(2) show ?thesis
      by (simp add: requestHook_def read_header_eq)
  qed
qed

text \<open>The hook on a request whose header passes: the calls up to the lookup, and
  then what the AgentBook and the mode decide.\<close>

lemma requestHook_verified:
  assumes "verified_payload env cfg st ctx p" and "verified_address env cfg p = Some a"
  shows "requestHook env cfg st ctx =
     (let st1 = after_recordNonce st (p_nonce p);
          pre = CallGetHeader AGENTKIT
                # (case storage st of
                     None \<Rightarrow> []
                   | Some s \<Rightarrow> if provides_recordNonce s then [CallRecordNonce (p_nonce p)] else [])
                @ [CallLookupHuman a (p_chainId p)]
      in case agentBook cfg a (p_chainId p) of
           Inl err \<Rightarrow>
             (NoDecision, st1,
              pre @ [Emit (validation_failed (path ctx) (Some (message_or err ''Unknown error'')))])
         | Inr humanId \<Rightarrow>
             if \<not> truthy humanId then
               (NoDecision, st1, pre @ [Emit (agent_not_verified (path ctx) a)])
             else
               (case requestHook_mode env cfg st1 ctx a (the humanId) of
                  (Inl err, st2, calls2) \<Rightarrow>
                    (NoDecision, st2,
                     pre @ calls2 @
                     [Emit (validation_failed (path ctx) (Some (message_or err ''Unknown error'')))])
                | (Inr outcome, st2, calls2) \<Rightarrow> (outcome, st2, pre @ calls2)))"
proof -
  from assms(1) have t: "truthy (getHeader ctx AGENTKIT)"
    by (simp add: verified_payload_def)
  show ?thesis
    using t identify_verified [OF assms]
    by (simp add: requestHook_def read_header_eq Let_def split: sum.split prod.split)
qed

text \<open>What the dispatch on the mode can do.\<close>

lemma requestHook_mode_calls:
  assumes "requestHook_mode env cfg st1 ctx a h = (res, st2, calls2)"
  shows "\<forall>c \<in> set calls2. \<not> is_CallRecordNonce c \<and> \<not> is_CallLookupHuman c"
  using assms
  by (auto simp: requestHook_mode_def Let_def split: AgentkitMode.splits option.splits if_splits)

lemma requestHook_mode_nonces:
  assumes "requestHook_mode env cfg st1 ctx a h = (res, st2, calls2)"
  shows "map_option nonces (storage st2) = map_option nonces (storage st1)"
  using assms
  by (auto simp: requestHook_mode_def incrementUsage_def Let_def
      split: AgentkitMode.splits option.splits if_splits)

lemma requestHook_mode_Free:
  "mode cfg = Free \<Longrightarrow>
   requestHook_mode env cfg st1 ctx a h =
     (Inr GrantAccess, st1, [Emit (agent_verified (path ctx) a h)])"
  by (simp add: requestHook_mode_def)

lemma after_recordNonce_usage:
  "map_option usage (storage (after_recordNonce st n)) = map_option usage (storage st)"
  by (simp add: after_recordNonce_def recordNonce_def split: option.split)

lemma after_recordNonce_pending:
  "pendingDiscounts (after_recordNonce st n) = pendingDiscounts st"
  by (simp add: after_recordNonce_def split: option.split)

lemma after_recordNonce_count: "count_of (after_recordNonce st n) e h = count_of st e h"
  by (simp add: after_recordNonce_def recordNonce_def count_of_def getUsageCount_def
      split: option.split)

section \<open>The example requests\<close>

lemma example_header_nonempty: "example_header_A \<noteq> []" "example_header_B \<noteq> []"
  by (simp_all add: example_header_A_def example_header_B_def)

lemma example_address_nonempty:
  "p_address example_payload_A \<noteq> []" "p_address example_payload_B \<noteq> []"
  by (simp_all add: example_payload_A_def example_payload_B_def)

lemma example_config_fields:
  "agentBook (example_config m) = example_agentBook"
  "mode (example_config m) = m"
  "verifyOptions (example_config m) = None"
  by (simp_all add: example_config_def)

lemma example_validate_A_nonce:
  "validateAgentkitMessage example_env example_payload_A ''https://api.x/data''
     \<lparr>maxAge = None, checkNonce = check\<rparr>
   = validate_nonce example_payload_A \<lparr>maxAge = None, checkNonce = check\<rparr>"
  by (simp add: validateAgentkitMessage_def validate_expirationTime_def validate_notBefore_def
      DEFAULT_MAX_AGE_MS_def example_Date_def Let_def example_env_def example_URL_data
      example_payload_A_def)

lemma example_validate_B_nonce:
  "validateAgentkitMessage example_env example_payload_B ''https://api.x/data''
     \<lparr>maxAge = None, checkNonce = check\<rparr>
   = validate_nonce example_payload_B \<lparr>maxAge = None, checkNonce = check\<rparr>"
  by (simp add: validateAgentkitMessage_def validate_expirationTime_def validate_notBefore_def
      DEFAULT_MAX_AGE_MS_def example_Date_def Let_def example_env_def example_URL_data
      example_payload_B_def)

lemma validate_nonce_fresh:
  assumes "hook_checkNonce st = None
           \<or> (\<exists>s. storage st = Some s \<and> \<not> hasUsedNonce s (p_nonce p))"
  shows "validate_nonce p \<lparr>maxAge = None, checkNonce = hook_checkNonce st\<rparr>
           = Inr \<lparr>v_valid = True, v_error = None\<rparr>"
  using assms
  by (auto simp: validate_nonce_def hook_checkNonce_def split: option.splits if_splits)

lemma example_verified_address_A:
  "verified_address example_env (example_config m) example_payload_A
     = Some (p_address example_payload_A)"
  by (simp add: verified_address_def example_config_fields example_verify_A
      example_address_nonempty)

lemma example_verified_address_B:
  "verified_address example_env (example_config m) example_payload_B
     = Some (p_address example_payload_B)"
  by (simp add: verified_address_def example_config_fields example_verify_B
      example_address_nonempty)

lemma example_verified_A:
  assumes "getHeader ctx AGENTKIT = Some example_header_A"
    and "getUrl ctx = ''https://api.x/data''"
    and "hook_checkNonce st = None
         \<or> (\<exists>s. storage st = Some s \<and> \<not> hasUsedNonce s (p_nonce example_payload_A))"
  shows "verified_payload example_env (example_config m) st ctx example_payload_A"
  using assms(1,2) validate_nonce_fresh [OF assms(3)]
  by (simp add: verified_payload_def example_header_nonempty example_parse_A
      example_validate_A_nonce example_verified_address_A)

lemma example_verified_B:
  assumes "getHeader ctx AGENTKIT = Some example_header_B"
    and "getUrl ctx = ''https://api.x/data''"
    and "hook_checkNonce st = None
         \<or> (\<exists>s. storage st = Some s \<and> \<not> hasUsedNonce s (p_nonce example_payload_B))"
  shows "verified_payload example_env (example_config m) st ctx example_payload_B"
  using assms(1,2) validate_nonce_fresh [OF assms(3)]
  by (simp add: verified_payload_def example_header_nonempty example_parse_B
      example_validate_B_nonce example_verified_address_B)

lemma example_registered_A:
  "registered_human example_env (example_config m) example_payload_A = Some ''0x1234''"
  by (simp add: registered_human_def example_verified_address_A example_config_fields
      example_agentBook_A)

lemma example_registered_B:
  "registered_human example_env (example_config m) example_payload_B = Some ''0x1234''"
  by (simp add: registered_human_def example_verified_address_B example_config_fields
      example_agentBook_B)

lemma example_request_fields:
  "getHeader (example_request adapter headers) = adapter headers"
  "getUrl (example_request adapter headers) = ''https://api.x/data''"
  "path (example_request adapter headers) = ''/data''"
  by (simp_all add: example_request_def)

lemma exact_adapter_lower:
  "exact_adapter [(''agentkit'', v)] AGENTKIT = Some v"
  "exact_adapter [(''Agentkit'', v)] AGENTKIT = None"
  by (simp_all add: exact_adapter_def AGENTKIT_def)

section \<open>The name of the header\<close>

text \<open>The hook asks the adapter for one name only, and reads nothing else of the
  adapter's headers: two requests that answer alike for \<open>agentkit\<close> are served alike.\<close>

lemma requestHook_identify_reads:
  assumes "getUrl ctx = getUrl ctx'" and "path ctx = path ctx'"
  shows "requestHook_identify env cfg st ctx h = requestHook_identify env cfg st ctx' h"
  by (simp only: requestHook_identify_def assms)

lemma requestHook_mode_reads:
  assumes "path ctx = path ctx'"
  shows "requestHook_mode env cfg st ctx a h = requestHook_mode env cfg st ctx' a h"
  by (simp only: requestHook_mode_def assms)

lemma requestHook_reads_one_name:
  assumes "getHeader ctx AGENTKIT = getHeader ctx' AGENTKIT"
    and "getUrl ctx = getUrl ctx'" and "path ctx = path ctx'"
  shows "requestHook env cfg st ctx = requestHook env cfg st ctx'"
  by (simp only: requestHook_def read_header_eq assms
      requestHook_identify_reads [OF assms(2,3)] requestHook_mode_reads [OF assms(3)])

text \<open>
  Claim C9: the code does not do what the claim says. The second lookup,
  \<open>getHeader(AGENTKIT.toLowerCase())\<close>, asks for the same name as the first, since
  \<open>AGENTKIT\<close> is already lower case. With an adapter that finds a header under its
  exact name only, the request that sends the payload as \<open>Agentkit\<close> is treated as a
  request without a header (two lookups of \<open>agentkit\<close>, no decision, no event), while
  the same payload sent as \<open>agentkit\<close> is granted access.
\<close>

theorem requestHook_header_name_case:
  "requestHook example_env (example_config Free) example_state
     (example_request exact_adapter [(''Agentkit'', example_header_A)])
     = (NoDecision, example_state, [CallGetHeader ''agentkit'', CallGetHeader ''agentkit''])
   \<and> fst (requestHook example_env (example_config Free) example_state
            (example_request exact_adapter [(''agentkit'', example_header_A)]))
     = GrantAccess"
proof -
  let ?upper = "example_request exact_adapter [(''Agentkit'', example_header_A)]"
  let ?lower = "example_request exact_adapter [(''agentkit'', example_header_A)]"
  have "\<not> truthy (getHeader ?upper AGENTKIT)"
    by (simp add: example_request_fields exact_adapter_lower)
  from requestHook_no_header [OF this]
  have upper: "requestHook example_env (example_config Free) example_state ?upper
     = (NoDecision, example_state, [CallGetHeader ''agentkit'', CallGetHeader ''agentkit''])"
    by (simp add: AGENTKIT_def)
  have v: "verified_payload example_env (example_config Free) example_state ?lower example_payload_A"
    by (rule example_verified_A)
      (simp_all add: example_request_fields exact_adapter_lower example_state_def
        InMemoryAgentKitStorage_def hasUsedNonce_def)
  have lower: "fst (requestHook example_env (example_config Free) example_state ?lower) = GrantAccess"
    using requestHook_verified [OF v example_verified_address_A]
    by (simp add: Let_def example_config_fields example_agentBook_A requestHook_mode_Free)
  from upper lower show ?thesis
    by simp
qed

text \<open>With an adapter that compares names without regard to case, both requests are
  served alike.\<close>

lemma requestHook_caseless_adapter:
  "requestHook env cfg st (example_request caseless_adapter [(''Agentkit'', v)])
   = requestHook env cfg st (example_request caseless_adapter [(''agentkit'', v)])"
  by (rule requestHook_reads_one_name)
    (simp_all add: example_request_fields caseless_adapter_def toLowerCase_def lower_char_def
      AGENTKIT_def)

section \<open>Free mode\<close>

lemma requestHook_Free_facts:
  assumes m: "mode cfg = Free"
    and r: "requestHook env cfg st ctx = (outcome, st', calls)"
  shows "(\<forall>c \<in> set calls. \<not> is_usage_call c)
         \<and> map_option usage (storage st') = map_option usage (storage st)
         \<and> pendingDiscounts st' = pendingDiscounts st
         \<and> (\<forall>p h. verified_payload env cfg st ctx p \<and> registered_human env cfg p = Some h
                \<longrightarrow> outcome = GrantAccess)"
proof (cases "truthy (getHeader ctx AGENTKIT)")
  case False
  from requestHook_no_header [OF False] r False show ?thesis
    by (auto simp: verified_payload_def)
next
  case True
  show ?thesis
  proof (cases "\<exists>p. verified_payload env cfg st ctx p")
    case False
    then have "\<forall>p. \<not> verified_payload env cfg st ctx p"
      by simp
    from requestHook_not_verified [OF this True] r obtain events where
      e: "outcome = NoDecision" "st' = st" "calls = CallGetHeader AGENTKIT # events"
      and ev: "\<forall>c \<in> set events. \<exists>r e. c = Emit (validation_failed r e)"
      by auto
    from ev have "\<forall>c \<in> set events. \<not> is_usage_call c"
      by fastforce
    with e False show ?thesis
      by simp
  next
    case True
    then obtain p where p: "verified_payload env cfg st ctx p"
      by auto
    from verified_payload_address [OF p] obtain a where a: "verified_address env cfg p = Some a"
      by auto
    have only: "\<And>q. verified_payload env cfg st ctx q \<Longrightarrow> q = p"
      using p by (rule verified_payload_unique [rotated])
    from requestHook_verified [OF p a] r m show ?thesis
      by (auto simp: Let_def requestHook_mode_Free after_recordNonce_usage
          after_recordNonce_pending registered_human_def a
          dest!: only split: sum.splits if_splits option.splits)
  qed
qed

text \<open>
  Claim C10. When the mode is \<open>free\<close> (given, or by default), \<open>createAgentkitHooks\<close>
  succeeds whether or not a storage is passed, and it returns no verify-failure
  hook. Its request hook never calls \<open>getUsageCount\<close> or \<open>incrementUsage\<close>; every
  request leaves the usage map and the pending discounts as they were; and a
  request of a verified, registered agent is granted access.
\<close>

theorem free_mode_never_touches_usage:
  assumes "o_mode options = None \<or> o_mode options = Some Free"
  shows "\<exists>hooks.
           createAgentkitHooks options = Inr hooks
           \<and> h_verifyFailureHook hooks = None
           \<and> h_state hooks = \<lparr>storage = o_storage options, pendingDiscounts = Map.empty\<rparr>
           \<and> (\<forall>env st ctx outcome st' calls.
                 h_requestHook hooks env st ctx = (outcome, st', calls) \<longrightarrow>
                 (\<forall>c \<in> set calls. \<not> is_usage_call c)
                 \<and> map_option usage (storage st') = map_option usage (storage st)
                 \<and> pendingDiscounts st' = pendingDiscounts st
                 \<and> (\<forall>p h.
                       verified_payload env
                         \<lparr>agentBook = o_agentBook options, mode = Free,
                          verifyOptions = o_verifyOptions options\<rparr> st ctx p
                       \<and> registered_human env
                           \<lparr>agentBook = o_agentBook options, mode = Free,
                            verifyOptions = o_verifyOptions options\<rparr> p = Some h
                       \<longrightarrow> outcome = GrantAccess))"
proof -
  let ?cfg = "\<lparr>agentBook = o_agentBook options, mode = Free,
               verifyOptions = o_verifyOptions options\<rparr>"
  let ?hooks = "\<lparr>h_requestHook = (\<lambda>env. requestHook env ?cfg), h_verifyFailureHook = None,
                 h_state = \<lparr>storage = o_storage options, pendingDiscounts = Map.empty\<rparr>\<rparr>"
  from assms have c: "createAgentkitHooks options = Inr ?hooks"
    by (auto simp: createAgentkitHooks_def Let_def)
  have m: "mode ?cfg = Free"
    by simp
  have "\<forall>env st ctx outcome st' calls.
          h_requestHook ?hooks env st ctx = (outcome, st', calls) \<longrightarrow>
          (\<forall>c \<in> set calls. \<not> is_usage_call c)
          \<and> map_option usage (storage st') = map_option usage (storage st)
          \<and> pendingDiscounts st' = pendingDiscounts st
          \<and> (\<forall>p h. verified_payload env ?cfg st ctx p \<and> registered_human env ?cfg p = Some h
                 \<longrightarrow> outcome = GrantAccess)"
    using requestHook_Free_facts [OF m] by simp
  with c show ?thesis
    by simp
qed

theorem free_mode_never_touches_usage_witness:
  "(o_mode \<lparr>o_agentBook = example_agentBook, o_mode = None, o_storage = None,
             o_verifyOptions = None\<rparr> = None)
   \<and> (\<exists>hooks.
         createAgentkitHooks \<lparr>o_agentBook = example_agentBook, o_mode = None, o_storage = None,
                               o_verifyOptions = None\<rparr> = Inr hooks
         \<and> h_verifyFailureHook hooks = None
         \<and> storage (h_state hooks) = None
         \<and> verified_payload example_env (example_config Free) (h_state hooks)
             (example_request exact_adapter [(''agentkit'', example_header_A)]) example_payload_A
         \<and> registered_human example_env (example_config Free) example_payload_A = Some ''0x1234''
         \<and> fst (h_requestHook hooks example_env (h_state hooks)
                  (example_request exact_adapter [(''agentkit'', example_header_A)])) = GrantAccess
         \<and> list_all (\<lambda>c. \<not> is_usage_call c)
             (snd (snd (h_requestHook hooks example_env (h_state hooks)
                (example_request exact_adapter [(''agentkit'', example_header_A)])))))"
proof -
  let ?options = "\<lparr>o_agentBook = example_agentBook, o_mode = None, o_storage = None,
                    o_verifyOptions = None\<rparr>"
  let ?ctx = "example_request exact_adapter [(''agentkit'', example_header_A)]"
  have free: "o_mode ?options = None \<or> o_mode ?options = Some Free"
    by simp
  have cfg: "\<lparr>agentBook = o_agentBook ?options, mode = Free,
              verifyOptions = o_verifyOptions ?options\<rparr> = example_config Free"
    by (simp add: example_config_def)
  from free_mode_never_touches_usage [OF free] obtain hooks where
    c: "createAgentkitHooks ?options = Inr hooks"
    and vf: "h_verifyFailureHook hooks = None"
    and s: "h_state hooks = \<lparr>storage = o_storage ?options, pendingDiscounts = Map.empty\<rparr>"
    and all: "\<And>env st ctx outcome st' calls.
                 h_requestHook hooks env st ctx = (outcome, st', calls) \<Longrightarrow>
                 (\<forall>c \<in> set calls. \<not> is_usage_call c)
                 \<and> (\<forall>p h.
                       verified_payload env
                         \<lparr>agentBook = o_agentBook ?options, mode = Free,
                          verifyOptions = o_verifyOptions ?options\<rparr> st ctx p
                       \<and> registered_human env
                           \<lparr>agentBook = o_agentBook ?options, mode = Free,
                            verifyOptions = o_verifyOptions ?options\<rparr> p = Some h
                       \<longrightarrow> outcome = GrantAccess)"
    by blast
  have none: "storage (h_state hooks) = None"
    using s by simp
  have v: "verified_payload example_env (example_config Free) (h_state hooks) ?ctx example_payload_A"
    by (rule example_verified_A)
      (simp_all add: example_request_fields exact_adapter_lower hook_checkNonce_def none)
  have g: "registered_human example_env (example_config Free) example_payload_A = Some ''0x1234''"
    by (rule example_registered_A)
  obtain outcome st' calls where
    r: "h_requestHook hooks example_env (h_state hooks) ?ctx = (outcome, st', calls)"
    by (cases "h_requestHook hooks example_env (h_state hooks) ?ctx") auto
  from all [OF r] v g have "outcome = GrantAccess" and "\<forall>c \<in> set calls. \<not> is_usage_call c"
    unfolding cfg by blast+
  with r have
    "fst (h_requestHook hooks example_env (h_state hooks) ?ctx) = GrantAccess"
    "list_all (\<lambda>c. \<not> is_usage_call c)
       (snd (snd (h_requestHook hooks example_env (h_state hooks) ?ctx)))"
    by (simp_all add: list_all_iff)
  with c vf none v g show ?thesis
    by auto
qed

section \<open>Nonce recording\<close>

lemma validate_nonce_replayed:
  assumes "checkNonce options = Some check" and "check (p_nonce p) = Inr False"
  shows "validate_nonce p options
           = Inr \<lparr>v_valid = False,
                  v_error = Some ''Nonce validation failed (possible replay attack)''\<rparr>"
  using assms by (simp add: validate_nonce_def invalid_def)

lemma validate_notBefore_valid:
  "validate_notBefore env p options = Inr v \<Longrightarrow> v_valid v \<Longrightarrow> validate_nonce p options = Inr v"
  by (auto simp: validate_notBefore_def invalid_def split: if_splits option.splits)

lemma validate_expirationTime_valid:
  "validate_expirationTime env p options = Inr v \<Longrightarrow> v_valid v
   \<Longrightarrow> validate_nonce p options = Inr v"
  by (auto simp: validate_expirationTime_def invalid_def
      dest: validate_notBefore_valid split: if_splits option.splits)

lemma validateAgentkitMessage_valid:
  "validateAgentkitMessage env p uri options = Inr v \<Longrightarrow> v_valid v
   \<Longrightarrow> validate_nonce p options = Inr v"
  by (auto simp: validateAgentkitMessage_def invalid_def Let_def
      dest: validate_expirationTime_valid split: if_splits option.splits)

text \<open>With a storage that can be asked, a recorded nonce fails every validation of
  the hook.\<close>

lemma replayed_nonce_fails:
  assumes "storage st = Some s" and "provides_hasUsedNonce s" and "hasUsedNonce s (p_nonce p)"
    and "validateAgentkitMessage env p uri \<lparr>maxAge = m, checkNonce = hook_checkNonce st\<rparr> = Inr v"
  shows "\<not> v_valid v"
proof
  assume "v_valid v"
  from validateAgentkitMessage_valid [OF assms(4) this]
  have "validate_nonce p \<lparr>maxAge = m, checkNonce = hook_checkNonce st\<rparr> = Inr v" .
  moreover have "validate_nonce p \<lparr>maxAge = m, checkNonce = hook_checkNonce st\<rparr>
      = Inr \<lparr>v_valid = False, v_error = Some ''Nonce validation failed (possible replay attack)''\<rparr>"
    by (rule validate_nonce_replayed [where check = "\<lambda>nonce. Inr (\<not> hasUsedNonce s nonce)"])
      (simp_all add: hook_checkNonce_def assms(1-3))
  ultimately show False
    using \<open>v_valid v\<close> by auto
qed

lemma requestHook_mode_storage:
  assumes "requestHook_mode env cfg st1 ctx a h = (res, st2, calls2)"
    and "storage st1 = Some s1"
  shows "\<exists>s2. storage st2 = Some s2 \<and> nonces s2 = nonces s1"
  using assms
  by (auto simp: requestHook_mode_def incrementUsage_def Let_def
      split: AgentkitMode.splits option.splits if_splits)

text \<open>Neither hook takes a nonce out of the storage or changes what the storage
  provides, whatever else it does.\<close>

lemma requestHook_mode_keeps:
  assumes "requestHook_mode env cfg st1 ctx a h = (res, st2, calls2)"
    and "storage st1 = Some s1"
  shows "\<exists>s2. storage st2 = Some s2 \<and> nonces s2 = nonces s1
           \<and> provides_hasUsedNonce s2 = provides_hasUsedNonce s1
           \<and> provides_recordNonce s2 = provides_recordNonce s1"
  using assms
  by (auto simp: requestHook_mode_def incrementUsage_def Let_def
      split: AgentkitMode.splits option.splits if_splits)

lemma after_recordNonce_keeps:
  assumes "storage st = Some s"
  shows "\<exists>s1. storage (after_recordNonce st n) = Some s1 \<and> nonces s \<subseteq> nonces s1
           \<and> provides_hasUsedNonce s1 = provides_hasUsedNonce s
           \<and> provides_recordNonce s1 = provides_recordNonce s"
  using assms by (auto simp: after_recordNonce_def recordNonce_def)

lemma requestHook_keeps_nonces:
  assumes "requestHook env cfg st ctx = (outcome, st', calls)" and "storage st = Some s"
  shows "\<exists>s'. storage st' = Some s' \<and> nonces s \<subseteq> nonces s'
           \<and> provides_hasUsedNonce s' = provides_hasUsedNonce s
           \<and> provides_recordNonce s' = provides_recordNonce s"
proof (cases "\<exists>p. verified_payload env cfg st ctx p")
  case False
  then have none: "\<forall>p. \<not> verified_payload env cfg st ctx p"
    by simp
  have "st' = st"
  proof (cases "truthy (getHeader ctx AGENTKIT)")
    case False
    from requestHook_no_header [OF False] assms(1) show ?thesis
      by auto
  next
    case True
    from requestHook_not_verified [OF none True] assms(1) show ?thesis
      by auto
  qed
  with assms(2) show ?thesis
    by simp
next
  case True
  then obtain p where p: "verified_payload env cfg st ctx p" ..
  from verified_payload_address [OF p] obtain a where a: "verified_address env cfg p = Some a"
    by auto
  let ?st1 = "after_recordNonce st (p_nonce p)"
  from after_recordNonce_keeps [OF assms(2)] obtain s1 where
    s1: "storage ?st1 = Some s1" "nonces s \<subseteq> nonces s1"
      "provides_hasUsedNonce s1 = provides_hasUsedNonce s"
      "provides_recordNonce s1 = provides_recordNonce s"
    by blast
  note r = requestHook_verified [OF p a, unfolded Let_def, simplified assms(1)]
  show ?thesis
  proof (cases "agentBook cfg a (p_chainId p)")
    case (Inl err)
    with r have "st' = ?st1"
      by simp
    with s1 show ?thesis
      by simp
  next
    case (Inr humanId)
    show ?thesis
    proof (cases "truthy humanId")
      case False
      with r Inr have "st' = ?st1"
        by simp
      with s1 show ?thesis
        by simp
    next
      case True
      obtain res st2 calls2 where
        md: "requestHook_mode env cfg ?st1 ctx a (the humanId) = (res, st2, calls2)"
        by (cases "requestHook_mode env cfg ?st1 ctx a (the humanId)") auto
      from requestHook_mode_keeps [OF md s1(1)] obtain s2 where
        s2: "storage st2 = Some s2" "nonces s2 = nonces s1"
          "provides_hasUsedNonce s2 = provides_hasUsedNonce s1"
          "provides_recordNonce s2 = provides_recordNonce s1"
        by blast
      from r Inr True md have "st' = st2"
        by (cases res) auto
      with s1 s2 show ?thesis
        by simp
    qed
  qed
qed

lemma verifyFailureHook_keeps_nonces:
  assumes "verifyFailureHook env percent uses st ctx = (res, st', amount, calls)"
    and "storage st = Some s"
  shows "\<exists>s'. storage st' = Some s' \<and> nonces s' = nonces s
           \<and> provides_hasUsedNonce s' = provides_hasUsedNonce s
           \<and> provides_recordNonce s' = provides_recordNonce s"
  using assms
  by (auto simp: verifyFailureHook_def incrementUsage_def Let_def
      split: option.splits if_splits)

lemma run_hooks_keeps_nonces:
  assumes "storage st = Some s"
  shows "\<exists>s'. storage (run_hooks cfg st later) = Some s' \<and> nonces s \<subseteq> nonces s'
           \<and> provides_hasUsedNonce s' = provides_hasUsedNonce s
           \<and> provides_recordNonce s' = provides_recordNonce s"
  using assms
proof (induction later arbitrary: st s)
  case Nil
  then show ?case by simp
next
  case (Cons c later)
  show ?case
  proof (cases c)
    case (RequestHook env ctx)
    obtain outcome st1 calls where r: "requestHook env cfg st ctx = (outcome, st1, calls)"
      by (cases "requestHook env cfg st ctx") auto
    from requestHook_keeps_nonces [OF r Cons.prems] obtain s1 where
      s1: "storage st1 = Some s1" "nonces s \<subseteq> nonces s1"
        "provides_hasUsedNonce s1 = provides_hasUsedNonce s"
        "provides_recordNonce s1 = provides_recordNonce s"
      by blast
    from Cons.IH [OF s1(1)] s1 r RequestHook show ?thesis
      by fastforce
  next
    case (VerifyFailureHook env ctx)
    show ?thesis
    proof (cases "mode cfg")
      case (Discount percent uses)
      obtain res st1 amount calls where
        r: "verifyFailureHook env percent uses st ctx = (res, st1, amount, calls)"
        by (cases "verifyFailureHook env percent uses st ctx") auto
      from verifyFailureHook_keeps_nonces [OF r Cons.prems] obtain s1 where
        s1: "storage st1 = Some s1" "nonces s1 = nonces s"
          "provides_hasUsedNonce s1 = provides_hasUsedNonce s"
          "provides_recordNonce s1 = provides_recordNonce s"
        by blast
      from Cons.IH [OF s1(1)] s1 r VerifyFailureHook Discount show ?thesis
        by fastforce
    next
      case Free
      with Cons.IH [OF Cons.prems] VerifyFailureHook show ?thesis
        by simp
    next
      case (FreeTrial uses)
      with Cons.IH [OF Cons.prems] VerifyFailureHook show ?thesis
        by simp
    qed
  qed
qed

text \<open>A request whose payload carries a nonce that the storage holds, and can be
  asked about, gets no decision and changes nothing.\<close>

lemma requestHook_replayed:
  assumes "storage st = Some s" and "provides_hasUsedNonce s" and "hasUsedNonce s (p_nonce q)"
  shows "\<not> verified_payload env cfg st ctx q"
    and "validateAgentkitMessage env q uri \<lparr>maxAge = m, checkNonce = hook_checkNonce st\<rparr> = Inr v
         \<Longrightarrow> \<not> v_valid v"
    and "truthy (getHeader ctx AGENTKIT)
         \<Longrightarrow> parseAgentkitHeader env (the (getHeader ctx AGENTKIT)) = Inr q
         \<Longrightarrow> fst (requestHook env cfg st ctx) = NoDecision
             \<and> fst (snd (requestHook env cfg st ctx)) = st
             \<and> (\<forall>c \<in> set (snd (snd (requestHook env cfg st ctx))).
                   \<not> is_CallRecordNonce c \<and> \<not> is_CallLookupHuman c)"
proof -
  have replay: "\<not> v_valid v"
    if "validateAgentkitMessage env q uri \<lparr>maxAge = m, checkNonce = hook_checkNonce st\<rparr> = Inr v"
    for uri m v
    using replayed_nonce_fails [OF assms that] .
  then show nv: "\<not> verified_payload env cfg st ctx q"
    by (auto simp: verified_payload_def split: sum.splits)
  show "\<not> v_valid v"
    if "validateAgentkitMessage env q uri \<lparr>maxAge = m, checkNonce = hook_checkNonce st\<rparr> = Inr v"
    using replay [OF that] .
  show "fst (requestHook env cfg st ctx) = NoDecision
             \<and> fst (snd (requestHook env cfg st ctx)) = st
             \<and> (\<forall>c \<in> set (snd (snd (requestHook env cfg st ctx))).
                   \<not> is_CallRecordNonce c \<and> \<not> is_CallLookupHuman c)"
    if t: "truthy (getHeader ctx AGENTKIT)"
      and parse: "parseAgentkitHeader env (the (getHeader ctx AGENTKIT)) = Inr q"
  proof -
    have none: "\<forall>p. \<not> verified_payload env cfg st ctx p"
    proof (intro allI notI)
      fix p assume p: "verified_payload env cfg st ctx p"
      with parse have "p = q"
        by (simp add: verified_payload_def)
      with p nv show False
        by simp
    qed
    from requestHook_not_verified [OF none t] obtain events where
      r: "requestHook env cfg st ctx = (NoDecision, st, CallGetHeader AGENTKIT # events)"
      and ev: "\<forall>c \<in> set events. \<exists>r e. c = Emit (validation_failed r e)"
      by auto
    from ev have "\<forall>c \<in> set events. \<not> is_CallRecordNonce c \<and> \<not> is_CallLookupHuman c"
      by fastforce
    with r show ?thesis
      by simp
  qed
qed

text \<open>
  Claim C3, as amended. Let the storage provide \<open>recordNonce\<close>. The request hook
  calls \<open>recordNonce\<close> if and only if the header is present and parses, the message
  validates, and the signature verifies with a non-empty address; the call is then
  made with the payload's nonce, once, directly before the one call of
  \<open>lookupHuman\<close>, and the nonce is in the storage afterwards. A request that does
  not pass leaves the state as it was and never reaches \<open>lookupHuman\<close>. When the
  storage provides \<open>hasUsedNonce\<close> as well, a payload whose nonce is in the storage
  fails every validation the hook runs; and the nonce that a request has recorded
  stays recorded through all later calls of the two hooks, so that from then on
  every payload carrying it fails the hook's validation, and a request with such a
  payload gets no decision, records nothing and reaches no lookup.
\<close>

theorem recordNonce_after_verification_before_lookup:
  assumes "storage st = Some s" and "provides_recordNonce s"
    and "requestHook env cfg st ctx = (outcome, st', calls)"
  shows "((\<exists>c \<in> set calls. is_CallRecordNonce c) \<longleftrightarrow> (\<exists>p. verified_payload env cfg st ctx p))
   \<and> (\<forall>p. verified_payload env cfg st ctx p \<longrightarrow>
          (\<exists>a rest.
              calls = CallGetHeader AGENTKIT # CallRecordNonce (p_nonce p)
                        # CallLookupHuman a (p_chainId p) # rest
              \<and> (\<forall>c \<in> set rest. \<not> is_CallRecordNonce c \<and> \<not> is_CallLookupHuman c))
          \<and> (\<exists>s'. storage st' = Some s' \<and> hasUsedNonce s' (p_nonce p)))
   \<and> ((\<forall>p. \<not> verified_payload env cfg st ctx p) \<longrightarrow>
          st' = st \<and> (\<forall>c \<in> set calls. \<not> is_CallLookupHuman c))
   \<and> (provides_hasUsedNonce s \<longrightarrow>
          (\<forall>p. hasUsedNonce s (p_nonce p) \<longrightarrow>
               \<not> verified_payload env cfg st ctx p
               \<and> (\<forall>uri m v.
                     validateAgentkitMessage env p uri
                       \<lparr>maxAge = m, checkNonce = hook_checkNonce st\<rparr> = Inr v
                     \<longrightarrow> \<not> v_valid v)))
   \<and> (provides_hasUsedNonce s \<longrightarrow>
          (\<forall>p later.
             verified_payload env cfg st ctx p \<longrightarrow>
             (\<exists>s2. storage (run_hooks cfg st' later) = Some s2 \<and> hasUsedNonce s2 (p_nonce p))
             \<and> (\<forall>q env2 ctx2.
                  p_nonce q = p_nonce p \<longrightarrow>
                  \<not> verified_payload env2 cfg (run_hooks cfg st' later) ctx2 q
                  \<and> (\<forall>uri m v.
                        validateAgentkitMessage env2 q uri
                          \<lparr>maxAge = m, checkNonce = hook_checkNonce (run_hooks cfg st' later)\<rparr>
                          = Inr v
                        \<longrightarrow> \<not> v_valid v)
                  \<and> (truthy (getHeader ctx2 AGENTKIT)
                        \<and> parseAgentkitHeader env2 (the (getHeader ctx2 AGENTKIT)) = Inr q \<longrightarrow>
                      fst (requestHook env2 cfg (run_hooks cfg st' later) ctx2) = NoDecision
                      \<and> fst (snd (requestHook env2 cfg (run_hooks cfg st' later) ctx2))
                          = run_hooks cfg st' later
                      \<and> (\<forall>c \<in> set (snd (snd (requestHook env2 cfg (run_hooks cfg st' later) ctx2))).
                            \<not> is_CallRecordNonce c \<and> \<not> is_CallLookupHuman c)))))"
proof -
  have c4: "provides_hasUsedNonce s \<longrightarrow>
          (\<forall>p. hasUsedNonce s (p_nonce p) \<longrightarrow>
               \<not> verified_payload env cfg st ctx p
               \<and> (\<forall>uri m v.
                     validateAgentkitMessage env p uri
                       \<lparr>maxAge = m, checkNonce = hook_checkNonce st\<rparr> = Inr v
                     \<longrightarrow> \<not> v_valid v))"
    using requestHook_replayed(1,2) [OF assms(1)] by blast
  have not_passed: "st' = st \<and> (\<forall>c \<in> set calls. \<not> is_CallLookupHuman c \<and> \<not> is_CallRecordNonce c)"
    if none: "\<forall>p. \<not> verified_payload env cfg st ctx p"
  proof (cases "truthy (getHeader ctx AGENTKIT)")
    case False
    from requestHook_no_header [OF False] assms(3) show ?thesis
      by auto
  next
    case True
    from requestHook_not_verified [OF none True] assms(3) obtain events where
      e: "st' = st" "calls = CallGetHeader AGENTKIT # events"
      and ev: "\<forall>c \<in> set events. \<exists>r e. c = Emit (validation_failed r e)"
      by auto
    from ev have "\<forall>c \<in> set events. \<not> is_CallLookupHuman c \<and> \<not> is_CallRecordNonce c"
      by fastforce
    with e show ?thesis
      by simp
  qed
  have passed:
    "(\<exists>a rest.
        calls = CallGetHeader AGENTKIT # CallRecordNonce (p_nonce p)
                  # CallLookupHuman a (p_chainId p) # rest
        \<and> (\<forall>c \<in> set rest. \<not> is_CallRecordNonce c \<and> \<not> is_CallLookupHuman c))
     \<and> (\<exists>s'. storage st' = Some s' \<and> hasUsedNonce s' (p_nonce p))"
    if p: "verified_payload env cfg st ctx p" for p
  proof -
    from verified_payload_address [OF p] obtain a where a: "verified_address env cfg p = Some a"
      by auto
    let ?st1 = "after_recordNonce st (p_nonce p)"
    have st1: "storage ?st1 = Some (recordNonce s (p_nonce p))"
      by (simp add: after_recordNonce_def assms(1,2))
    note r = requestHook_verified [OF p a, unfolded Let_def, simplified assms(1,2,3), simplified]
    show ?thesis
    proof (cases "agentBook cfg a (p_chainId p)")
      case (Inl err)
      with r st1 assms(2) show ?thesis
        by (auto simp: hasUsedNonce_def recordNonce_def)
    next
      case (Inr humanId)
      show ?thesis
      proof (cases "truthy humanId")
        case False
        with r Inr st1 assms(2) show ?thesis
          by (auto simp: hasUsedNonce_def recordNonce_def)
      next
        case True
        obtain res st2 calls2 where
          md: "requestHook_mode env cfg ?st1 ctx a (the humanId) = (res, st2, calls2)"
          by (cases "requestHook_mode env cfg ?st1 ctx a (the humanId)") auto
        from requestHook_mode_storage [OF md st1] obtain s2 where
          s2: "storage st2 = Some s2" "nonces s2 = nonces (recordNonce s (p_nonce p))"
          by auto
        from requestHook_mode_calls [OF md]
        have c2: "\<forall>c \<in> set calls2. \<not> is_CallRecordNonce c \<and> \<not> is_CallLookupHuman c" .
        from r Inr True md s2 c2 assms(2) show ?thesis
          by (cases res) (auto simp: hasUsedNonce_def recordNonce_def)
      qed
    qed
  qed
  have c1: "(\<exists>c \<in> set calls. is_CallRecordNonce c) \<longleftrightarrow> (\<exists>p. verified_payload env cfg st ctx p)"
  proof
    assume "\<exists>c \<in> set calls. is_CallRecordNonce c"
    with not_passed show "\<exists>p. verified_payload env cfg st ctx p"
      by blast
  next
    assume "\<exists>p. verified_payload env cfg st ctx p"
    then obtain p where "verified_payload env cfg st ctx p" ..
    from passed [OF this] show "\<exists>c \<in> set calls. is_CallRecordNonce c"
      by auto
  qed
  have c2: "\<forall>p. verified_payload env cfg st ctx p \<longrightarrow>
          (\<exists>a rest.
              calls = CallGetHeader AGENTKIT # CallRecordNonce (p_nonce p)
                        # CallLookupHuman a (p_chainId p) # rest
              \<and> (\<forall>c \<in> set rest. \<not> is_CallRecordNonce c \<and> \<not> is_CallLookupHuman c))
          \<and> (\<exists>s'. storage st' = Some s' \<and> hasUsedNonce s' (p_nonce p))"
    using passed by blast
  have c3: "(\<forall>p. \<not> verified_payload env cfg st ctx p) \<longrightarrow>
          st' = st \<and> (\<forall>c \<in> set calls. \<not> is_CallLookupHuman c)"
    using not_passed by blast
  have c5: "provides_hasUsedNonce s \<longrightarrow>
          (\<forall>p later.
             verified_payload env cfg st ctx p \<longrightarrow>
             (\<exists>s2. storage (run_hooks cfg st' later) = Some s2 \<and> hasUsedNonce s2 (p_nonce p))
             \<and> (\<forall>q env2 ctx2.
                  p_nonce q = p_nonce p \<longrightarrow>
                  \<not> verified_payload env2 cfg (run_hooks cfg st' later) ctx2 q
                  \<and> (\<forall>uri m v.
                        validateAgentkitMessage env2 q uri
                          \<lparr>maxAge = m, checkNonce = hook_checkNonce (run_hooks cfg st' later)\<rparr>
                          = Inr v
                        \<longrightarrow> \<not> v_valid v)
                  \<and> (truthy (getHeader ctx2 AGENTKIT)
                        \<and> parseAgentkitHeader env2 (the (getHeader ctx2 AGENTKIT)) = Inr q \<longrightarrow>
                      fst (requestHook env2 cfg (run_hooks cfg st' later) ctx2) = NoDecision
                      \<and> fst (snd (requestHook env2 cfg (run_hooks cfg st' later) ctx2))
                          = run_hooks cfg st' later
                      \<and> (\<forall>c \<in> set (snd (snd (requestHook env2 cfg (run_hooks cfg st' later) ctx2))).
                            \<not> is_CallRecordNonce c \<and> \<not> is_CallLookupHuman c))))"
  proof (intro impI allI)
    fix p later
    assume ask: "provides_hasUsedNonce s" and p: "verified_payload env cfg st ctx p"
    let ?st2 = "run_hooks cfg st' later"
    from passed [OF p] obtain s' where s': "storage st' = Some s'" "hasUsedNonce s' (p_nonce p)"
      by auto
    from requestHook_keeps_nonces [OF assms(3) assms(1)] s'(1) ask
    have ask': "provides_hasUsedNonce s'"
      by auto
    from run_hooks_keeps_nonces [OF s'(1), of cfg later] obtain s2 where
      s2: "storage ?st2 = Some s2" "nonces s' \<subseteq> nonces s2"
        "provides_hasUsedNonce s2 = provides_hasUsedNonce s'"
      by blast
    from s2(2) s'(2) have used: "hasUsedNonce s2 (p_nonce p)"
      by (auto simp: hasUsedNonce_def)
    from s2(3) ask' have ask2: "provides_hasUsedNonce s2"
      by simp
    have later_replay: "\<not> verified_payload env2 cfg ?st2 ctx2 q
                  \<and> (\<forall>uri m v.
                        validateAgentkitMessage env2 q uri
                          \<lparr>maxAge = m, checkNonce = hook_checkNonce ?st2\<rparr> = Inr v
                        \<longrightarrow> \<not> v_valid v)
                  \<and> (truthy (getHeader ctx2 AGENTKIT)
                        \<and> parseAgentkitHeader env2 (the (getHeader ctx2 AGENTKIT)) = Inr q \<longrightarrow>
                      fst (requestHook env2 cfg ?st2 ctx2) = NoDecision
                      \<and> fst (snd (requestHook env2 cfg ?st2 ctx2)) = ?st2
                      \<and> (\<forall>c \<in> set (snd (snd (requestHook env2 cfg ?st2 ctx2))).
                            \<not> is_CallRecordNonce c \<and> \<not> is_CallLookupHuman c))"
      if q: "p_nonce q = p_nonce p" for q env2 ctx2
    proof -
      from used q have uq: "hasUsedNonce s2 (p_nonce q)"
        by simp
      note rp = requestHook_replayed [OF s2(1) ask2 uq]
      from rp(1) rp(2) rp(3) show ?thesis
        by blast
    qed
    from s2(1) used later_replay
    show "(\<exists>s2. storage ?st2 = Some s2 \<and> hasUsedNonce s2 (p_nonce p))
             \<and> (\<forall>q env2 ctx2.
                  p_nonce q = p_nonce p \<longrightarrow>
                  \<not> verified_payload env2 cfg ?st2 ctx2 q
                  \<and> (\<forall>uri m v.
                        validateAgentkitMessage env2 q uri
                          \<lparr>maxAge = m, checkNonce = hook_checkNonce ?st2\<rparr> = Inr v
                        \<longrightarrow> \<not> v_valid v)
                  \<and> (truthy (getHeader ctx2 AGENTKIT)
                        \<and> parseAgentkitHeader env2 (the (getHeader ctx2 AGENTKIT)) = Inr q \<longrightarrow>
                      fst (requestHook env2 cfg ?st2 ctx2) = NoDecision
                      \<and> fst (snd (requestHook env2 cfg ?st2 ctx2)) = ?st2
                      \<and> (\<forall>c \<in> set (snd (snd (requestHook env2 cfg ?st2 ctx2))).
                            \<not> is_CallRecordNonce c \<and> \<not> is_CallLookupHuman c)))"
      by blast
  qed
  show ?thesis
    by (intro conjI) (fact c1, fact c2, fact c3, fact c4, fact c5)
qed

lemma example_request_A_fields:
  "getHeader example_request_A AGENTKIT = Some example_header_A"
  "getUrl example_request_A = ''https://api.x/data''"
  "path example_request_A = ''/data''"
  by (simp_all add: example_request_A_def example_request_fields exact_adapter_lower)

lemma example_request_B_fields:
  "getHeader example_request_B AGENTKIT = Some example_header_B"
  "getUrl example_request_B = ''https://api.x/data''"
  "path example_request_B = ''/data''"
  by (simp_all add: example_request_B_def example_request_fields exact_adapter_lower)

text \<open>The request of wallet A in free mode, from any state in which it passes.\<close>

lemma example_requestHook_Free_A:
  assumes "verified_payload example_env (example_config Free) st example_request_A example_payload_A"
  shows "requestHook example_env (example_config Free) st example_request_A =
     (GrantAccess, after_recordNonce st (p_nonce example_payload_A),
      CallGetHeader AGENTKIT
      # (case storage st of
           None \<Rightarrow> []
         | Some s \<Rightarrow>
             if provides_recordNonce s then [CallRecordNonce (p_nonce example_payload_A)] else [])
      @ [CallLookupHuman (p_address example_payload_A) (p_chainId example_payload_A),
         Emit (agent_verified ''/data'' (p_address example_payload_A) ''0x1234'')])"
  using requestHook_verified [OF assms example_verified_address_A]
  by (simp add: Let_def example_config_fields example_agentBook_A requestHook_mode_Free
      example_request_A_fields)

text \<open>The request of wallet B in free mode, from any state in which it passes.\<close>

lemma example_requestHook_Free_B:
  assumes "verified_payload example_env (example_config Free) st example_request_B example_payload_B"
  shows "requestHook example_env (example_config Free) st example_request_B =
     (GrantAccess, after_recordNonce st (p_nonce example_payload_B),
      CallGetHeader AGENTKIT
      # (case storage st of
           None \<Rightarrow> []
         | Some s \<Rightarrow>
             if provides_recordNonce s then [CallRecordNonce (p_nonce example_payload_B)] else [])
      @ [CallLookupHuman (p_address example_payload_B) (p_chainId example_payload_B),
         Emit (agent_verified ''/data'' (p_address example_payload_B) ''0x1234'')])"
  using requestHook_verified [OF assms example_verified_address_B]
  by (simp add: Let_def example_config_fields example_agentBook_B requestHook_mode_Free
      example_request_B_fields)

theorem recordNonce_after_verification_before_lookup_witness:
  "storage example_state = Some InMemoryAgentKitStorage
   \<and> provides_recordNonce InMemoryAgentKitStorage
   \<and> provides_hasUsedNonce InMemoryAgentKitStorage
   \<and> verified_payload example_env (example_config Free) example_state example_request_A
        example_payload_A
   \<and> (\<exists>rest.
         snd (snd (requestHook example_env (example_config Free) example_state example_request_A))
           = CallGetHeader ''agentkit'' # CallRecordNonce ''a1b2c3d4e5f60718''
             # CallLookupHuman ''0x5B38Da6a701c568545dCfcB03FcB875f56beddC4'' ''eip155:8453''
             # rest)
   \<and> (\<exists>s'. storage (fst (snd (requestHook example_env (example_config Free) example_state
                                 example_request_A))) = Some s'
            \<and> provides_recordNonce s' \<and> provides_hasUsedNonce s'
            \<and> hasUsedNonce s' (p_nonce example_payload_A))
   \<and> \<not> verified_payload example_env (example_config Free)
          (fst (snd (requestHook example_env (example_config Free) example_state
                       example_request_A)))
          example_request_A example_payload_A
   \<and> fst (requestHook example_env (example_config Free)
            (fst (snd (requestHook example_env (example_config Free) example_state
                         example_request_A)))
            example_request_B) = GrantAccess
   \<and> (\<exists>s2. storage
              (run_hooks (example_config Free)
                 (fst (snd (requestHook example_env (example_config Free) example_state
                              example_request_A)))
                 [RequestHook example_env example_request_B]) = Some s2
            \<and> hasUsedNonce s2 (p_nonce example_payload_A))
   \<and> fst (requestHook example_env (example_config Free)
            (run_hooks (example_config Free)
               (fst (snd (requestHook example_env (example_config Free) example_state
                            example_request_A)))
               [RequestHook example_env example_request_B])
            example_request_A) = NoDecision
   \<and> fst (snd (requestHook example_env (example_config Free)
            (run_hooks (example_config Free)
               (fst (snd (requestHook example_env (example_config Free) example_state
                            example_request_A)))
               [RequestHook example_env example_request_B])
            example_request_A))
       = run_hooks (example_config Free)
           (fst (snd (requestHook example_env (example_config Free) example_state
                        example_request_A)))
           [RequestHook example_env example_request_B]"
proof -
  let ?cfg = "example_config Free"
  let ?r = "requestHook example_env ?cfg example_state example_request_A"
  let ?later = "[RequestHook example_env example_request_B]"
  have s: "storage example_state = Some InMemoryAgentKitStorage"
    by (simp add: example_state_def)
  have rec: "provides_recordNonce InMemoryAgentKitStorage"
    and ask: "provides_hasUsedNonce InMemoryAgentKitStorage"
    by (simp_all add: InMemoryAgentKitStorage_def)
  have v: "verified_payload example_env ?cfg example_state example_request_A example_payload_A"
    by (rule example_verified_A)
      (simp_all add: example_request_A_fields s InMemoryAgentKitStorage_def hasUsedNonce_def)
  obtain outcome st' calls where r: "?r = (outcome, st', calls)"
    by (cases ?r) auto
  note first = recordNonce_after_verification_before_lookup [OF s rec r]
  from first [THEN conjunct2, THEN conjunct1, rule_format, OF v]
  obtain a rest s' where
    calls: "calls = CallGetHeader AGENTKIT # CallRecordNonce (p_nonce example_payload_A)
                      # CallLookupHuman a (p_chainId example_payload_A) # rest"
    and s': "storage st' = Some s'" "hasUsedNonce s' (p_nonce example_payload_A)"
    by auto
  from example_requestHook_Free_A [OF v] r s rec
  have st': "st' = after_recordNonce example_state (p_nonce example_payload_A)"
    and calls': "calls = [CallGetHeader AGENTKIT, CallRecordNonce (p_nonce example_payload_A),
        CallLookupHuman (p_address example_payload_A) (p_chainId example_payload_A),
        Emit (agent_verified ''/data'' (p_address example_payload_A) ''0x1234'')]"
    by simp_all
  from st' s' s have caps: "provides_recordNonce s'" "provides_hasUsedNonce s'"
    by (auto simp: after_recordNonce_def recordNonce_def InMemoryAgentKitStorage_def)
  obtain outcome2 st2 calls2 where
    r2: "requestHook example_env ?cfg st' example_request_A = (outcome2, st2, calls2)"
    by (cases "requestHook example_env ?cfg st' example_request_A") auto
  from recordNonce_after_verification_before_lookup [OF s'(1) caps(1) r2,
      THEN conjunct2, THEN conjunct2, THEN conjunct2, THEN conjunct1, rule_format,
      OF caps(2) s'(2)]
  have replay: "\<not> verified_payload example_env ?cfg st' example_request_A example_payload_A"
    by simp
  from st' s' s have fresh_B: "\<not> hasUsedNonce s' (p_nonce example_payload_B)"
    by (auto simp: after_recordNonce_def recordNonce_def InMemoryAgentKitStorage_def
        hasUsedNonce_def example_payload_A_def example_payload_B_def)
  have vB: "verified_payload example_env ?cfg st' example_request_B example_payload_B"
    by (rule example_verified_B) (simp_all add: example_request_B_fields s'(1) fresh_B)
  have grant_B: "fst (requestHook example_env ?cfg st' example_request_B) = GrantAccess"
    using example_requestHook_Free_B [OF vB] by simp
  note kept = first [THEN conjunct2, THEN conjunct2, THEN conjunct2, THEN conjunct2,
      rule_format, OF ask v, of ?later]
  from kept [THEN conjunct1]
  have later_used: "\<exists>s2. storage (run_hooks ?cfg st' ?later) = Some s2
                         \<and> hasUsedNonce s2 (p_nonce example_payload_A)" .
  have header: "truthy (getHeader example_request_A AGENTKIT)"
    and parse: "parseAgentkitHeader example_env (the (getHeader example_request_A AGENTKIT))
                  = Inr example_payload_A"
    by (simp_all add: example_request_A_fields example_header_nonempty example_parse_A)
  from kept [THEN conjunct2, rule_format, of example_payload_A example_env example_request_A,
      OF refl, THEN conjunct2, THEN conjunct2, rule_format, OF conjI [OF header parse]]
  have later_replay:
    "fst (requestHook example_env ?cfg (run_hooks ?cfg st' ?later) example_request_A) = NoDecision"
    "fst (snd (requestHook example_env ?cfg (run_hooks ?cfg st' ?later) example_request_A))
       = run_hooks ?cfg st' ?later"
    by simp_all
  have st'_eq: "fst (snd ?r) = st'"
    using r by simp
  have c5: "\<exists>rest. snd (snd ?r)
           = CallGetHeader ''agentkit'' # CallRecordNonce ''a1b2c3d4e5f60718''
             # CallLookupHuman ''0x5B38Da6a701c568545dCfcB03FcB875f56beddC4'' ''eip155:8453''
             # rest"
    using r calls' by (simp add: AGENTKIT_def example_payload_A_def)
  have c6: "\<exists>s'. storage (fst (snd ?r)) = Some s'
            \<and> provides_recordNonce s' \<and> provides_hasUsedNonce s'
            \<and> hasUsedNonce s' (p_nonce example_payload_A)"
    using r s' caps by simp
  have c7: "\<not> verified_payload example_env ?cfg (fst (snd ?r)) example_request_A example_payload_A"
    using r replay by simp
  have c8: "fst (requestHook example_env ?cfg (fst (snd ?r)) example_request_B) = GrantAccess"
    using grant_B by (simp only: st'_eq)
  have c9: "\<exists>s2. storage (run_hooks ?cfg (fst (snd ?r)) ?later) = Some s2
                  \<and> hasUsedNonce s2 (p_nonce example_payload_A)"
    using later_used by (simp only: st'_eq)
  have c10: "fst (requestHook example_env ?cfg (run_hooks ?cfg (fst (snd ?r)) ?later)
                    example_request_A) = NoDecision"
    using later_replay(1) by (simp only: st'_eq)
  have c11: "fst (snd (requestHook example_env ?cfg (run_hooks ?cfg (fst (snd ?r)) ?later)
                    example_request_A)) = run_hooks ?cfg (fst (snd ?r)) ?later"
    using later_replay(2) by (simp only: st'_eq)
  show ?thesis
    by (intro conjI) (fact s, fact rec, fact ask, fact v, fact c5, fact c6, fact c7, fact c8,
      fact c9, fact c10, fact c11)
qed

text \<open>
  Claim C3 as stated fails in its last part. The interface makes \<open>hasUsedNonce\<close> and
  \<open>recordNonce\<close> optional one by one, and the hook passes a \<open>checkNonce\<close> to the
  validator only when the storage has \<open>hasUsedNonce\<close>. With a storage that records
  nonces but cannot be asked about them, the same request is granted access twice,
  and the payload still validates once its nonce is recorded.
\<close>

theorem replay_with_recording_only_storage_counterexample:
  "provides_recordNonce recording_only_storage
   \<and> fst (run_requests (example_config Free)
            \<lparr>storage = Some recording_only_storage, pendingDiscounts = Map.empty\<rparr>
            [(example_env, example_request_A), (example_env, example_request_A)])
       = [GrantAccess, GrantAccess]
   \<and> hasUsedNonce (recordNonce recording_only_storage (p_nonce example_payload_A))
        (p_nonce example_payload_A)
   \<and> validateAgentkitMessage example_env example_payload_A ''https://api.x/data''
        \<lparr>maxAge = None,
         checkNonce = hook_checkNonce
           \<lparr>storage = Some (recordNonce recording_only_storage (p_nonce example_payload_A)),
            pendingDiscounts = Map.empty\<rparr>\<rparr>
       = Inr \<lparr>v_valid = True, v_error = None\<rparr>"
proof -
  let ?cfg = "example_config Free"
  let ?st0 = "\<lparr>storage = Some recording_only_storage, pendingDiscounts = Map.empty\<rparr>"
  let ?st1 = "\<lparr>storage = Some (recordNonce recording_only_storage (p_nonce example_payload_A)),
               pendingDiscounts = Map.empty\<rparr>"
  have rec: "provides_recordNonce recording_only_storage"
    by (simp add: recording_only_storage_def InMemoryAgentKitStorage_def)
  have no0: "hook_checkNonce ?st0 = None" and no1: "hook_checkNonce ?st1 = None"
    by (simp_all add: hook_checkNonce_def recording_only_storage_def InMemoryAgentKitStorage_def
        recordNonce_def)
  have after: "after_recordNonce ?st0 (p_nonce example_payload_A) = ?st1"
    by (simp add: after_recordNonce_def rec)
  have v0: "verified_payload example_env ?cfg ?st0 example_request_A example_payload_A"
    by (rule example_verified_A) (simp_all add: example_request_A_fields no0)
  have v1: "verified_payload example_env ?cfg ?st1 example_request_A example_payload_A"
    by (rule example_verified_A) (simp_all add: example_request_A_fields no1)
  have run: "fst (run_requests ?cfg ?st0
               [(example_env, example_request_A), (example_env, example_request_A)])
             = [GrantAccess, GrantAccess]"
    using example_requestHook_Free_A [OF v0] example_requestHook_Free_A [OF v1]
    by (simp add: after)
  have used: "hasUsedNonce (recordNonce recording_only_storage (p_nonce example_payload_A))
                (p_nonce example_payload_A)"
    by (simp add: hasUsedNonce_def recordNonce_def)
  have valid: "validateAgentkitMessage example_env example_payload_A ''https://api.x/data''
        \<lparr>maxAge = None, checkNonce = hook_checkNonce ?st1\<rparr>
       = Inr \<lparr>v_valid = True, v_error = None\<rparr>"
    by (simp add: no1 example_validate_A)
  show ?thesis
    by (intro conjI) (fact rec, fact run, fact used, fact valid)
qed

section \<open>Free trial\<close>

lemma grants_append: "grants e h (xs @ ys) = grants e h xs + grants e h ys"
  by (simp add: grants_def)

lemma grants_Cons: "grants e h (c # cs) = (if is_grant e h c then 1 else 0) + grants e h cs"
  by (simp add: grants_def)

lemma grants_Nil: "grants e h [] = 0"
  by (simp add: grants_def)

lemma grants_validation_failed:
  "\<forall>c \<in> set events. \<exists>r e. c = Emit (validation_failed r e) \<Longrightarrow> grants e h events = 0"
  by (induction events) (auto simp: grants_Cons grants_Nil)

text \<open>The dispatch in free-trial mode, written out.\<close>

lemma requestHook_mode_FreeTrial:
  assumes "mode cfg = FreeTrial uses"
  shows "requestHook_mode env cfg st1 ctx a h =
     (case storage st1 of
        None \<Rightarrow> (Inl (TypeError ''Cannot read properties of undefined''), st1, [])
      | Some s \<Rightarrow>
          if int (getUsageCount s (path ctx) h) < (case uses of None \<Rightarrow> 1 | Some n \<Rightarrow> n) then
            (Inr GrantAccess,
             st1\<lparr>storage := Some (incrementUsage s (path ctx) h)\<rparr>,
             [CallGetUsageCount (path ctx) h, CallIncrementUsage (path ctx) h,
              Emit (agent_verified (path ctx) a h)])
          else (Inr NoDecision, st1, [CallGetUsageCount (path ctx) h]))"
  using assms by (simp add: requestHook_mode_def Let_def split: option.split)

lemma count_of_increment:
  "count_of (st\<lparr>storage := Some (incrementUsage s e' h')\<rparr>) e h =
     (if usage_key e h = usage_key e' h' then getUsageCount s e h + 1 else getUsageCount s e h)"
  by (auto simp: count_of_def getUsageCount_def incrementUsage_def Let_def)

lemma requestHook_mode_FreeTrial_count:
  assumes m: "mode cfg = FreeTrial uses"
    and r: "requestHook_mode env cfg st1 ctx a h' = (res, st2, calls2)"
  shows "count_of st1 e h + grants e h calls2 \<le> count_of st2 e h
         \<and> int (count_of st2 e h)
             \<le> max (int (count_of st1 e h)) (case uses of None \<Rightarrow> 1 | Some n \<Rightarrow> n)"
proof (cases "storage st1")
  case None
  with r show ?thesis
    by (simp add: requestHook_mode_FreeTrial [OF m] grants_Nil)
next
  case (Some s)
  show ?thesis
  proof (cases "int (getUsageCount s (path ctx) h') < (case uses of None \<Rightarrow> 1 | Some n \<Rightarrow> n)")
    case False
    with r Some show ?thesis
      by (auto simp: requestHook_mode_FreeTrial [OF m] grants_Cons grants_Nil)
  next
    case True
    with r Some have st2: "st2 = st1\<lparr>storage := Some (incrementUsage s (path ctx) h')\<rparr>"
      and calls2: "calls2 = [CallGetUsageCount (path ctx) h', CallIncrementUsage (path ctx) h',
                             Emit (agent_verified (path ctx) a h')]"
      by (auto simp: requestHook_mode_FreeTrial [OF m])
    have c1: "count_of st1 e h = getUsageCount s e h"
      by (simp add: count_of_def Some)
    show ?thesis
    proof (cases "usage_key e h = usage_key (path ctx) h'")
      case same: True
      then have "getUsageCount s e h = getUsageCount s (path ctx) h'"
        by (simp add: getUsageCount_def)
      with True same show ?thesis
        by (simp add: st2 calls2 count_of_increment c1 grants_Cons grants_Nil)
    next
      case other: False
      then have "\<not> (path ctx = e \<and> h' = h)"
        by auto
      with other show ?thesis
        by (auto simp: st2 calls2 count_of_increment c1 grants_Cons grants_Nil)
    qed
  qed
qed

text \<open>One request in free-trial mode: the counter of \<open>(e, h)\<close> grows by at least the
  grants made for \<open>(e, h)\<close>, and never beyond the limit.\<close>

lemma requestHook_FreeTrial_count:
  assumes m: "mode cfg = FreeTrial uses"
    and r: "requestHook env cfg st ctx = (outcome, st', calls)"
  shows "count_of st e h + grants e h calls \<le> count_of st' e h
         \<and> int (count_of st' e h)
             \<le> max (int (count_of st e h)) (case uses of None \<Rightarrow> 1 | Some n \<Rightarrow> n)"
proof (cases "truthy (getHeader ctx AGENTKIT)")
  case False
  from requestHook_no_header [OF False] r show ?thesis
    by (auto simp: grants_Cons grants_Nil)
next
  case True
  show ?thesis
  proof (cases "\<exists>p. verified_payload env cfg st ctx p")
    case False
    then have "\<forall>p. \<not> verified_payload env cfg st ctx p"
      by simp
    from requestHook_not_verified [OF this True] r obtain events where
      e: "st' = st" "calls = CallGetHeader AGENTKIT # events"
      and ev: "\<forall>c \<in> set events. \<exists>r e. c = Emit (validation_failed r e)"
      by auto
    from grants_validation_failed [OF ev] e show ?thesis
      by (simp add: grants_Cons)
  next
    case True
    then obtain p where p: "verified_payload env cfg st ctx p"
      by auto
    from verified_payload_address [OF p] obtain a where a: "verified_address env cfg p = Some a"
      by auto
    let ?st1 = "after_recordNonce st (p_nonce p)"
    let ?pre = "CallGetHeader AGENTKIT
                # (case storage st of
                     None \<Rightarrow> []
                   | Some s \<Rightarrow> if provides_recordNonce s then [CallRecordNonce (p_nonce p)] else [])
                @ [CallLookupHuman a (p_chainId p)]"
    have pre: "grants e h ?pre = 0"
      by (simp add: grants_Cons grants_append grants_Nil split: option.split)
    note rv = requestHook_verified [OF p a, unfolded Let_def]
    show ?thesis
    proof (cases "agentBook cfg a (p_chainId p)")
      case (Inl err)
      with rv r have "st' = ?st1" "calls = ?pre @ [Emit (validation_failed (path ctx)
                         (Some (message_or err ''Unknown error'')))]"
        by simp_all
      then show ?thesis
        using pre by (simp add: grants_append grants_Cons grants_Nil after_recordNonce_count
            del: append_Cons)
    next
      case (Inr humanId)
      show ?thesis
      proof (cases "truthy humanId")
        case False
        with rv r Inr have "st' = ?st1" "calls = ?pre @ [Emit (agent_not_verified (path ctx) a)]"
          by simp_all
        then show ?thesis
          using pre by (simp add: grants_append grants_Cons grants_Nil after_recordNonce_count
              del: append_Cons)
      next
        case True
        obtain res st2 calls2 where
          md: "requestHook_mode env cfg ?st1 ctx a (the humanId) = (res, st2, calls2)"
          by (cases "requestHook_mode env cfg ?st1 ctx a (the humanId)") auto
        from requestHook_mode_FreeTrial_count [OF m md, of e h]
        have inv: "count_of st e h + grants e h calls2 \<le> count_of st2 e h"
          "int (count_of st2 e h)
             \<le> max (int (count_of st e h)) (case uses of None \<Rightarrow> 1 | Some n \<Rightarrow> n)"
          by (simp_all add: after_recordNonce_count)
        show ?thesis
        proof (cases res)
          case (Inl err)
          with rv r Inr True md have "st' = st2"
            "calls = ?pre @ calls2 @ [Emit (validation_failed (path ctx)
                         (Some (message_or err ''Unknown error'')))]"
            by simp_all
          then show ?thesis
            using pre inv by (simp add: grants_append grants_Cons grants_Nil del: append_Cons)
        next
          case (Inr out)
          with rv r \<open>agentBook cfg a (p_chainId p) = Inr humanId\<close> True md
          have "st' = st2" "calls = ?pre @ calls2"
            by simp_all
          then show ?thesis
            using pre inv by (simp add: grants_append del: append_Cons)
        qed
      qed
    qed
  qed
qed

text \<open>The same over any sequence of requests.\<close>

lemma run_requests_FreeTrial_count:
  assumes m: "mode cfg = FreeTrial uses"
  shows "run_requests cfg st requests = (outcomes, st', calls) \<Longrightarrow>
         count_of st e h + grants e h calls \<le> count_of st' e h
         \<and> int (count_of st' e h)
             \<le> max (int (count_of st e h)) (case uses of None \<Rightarrow> 1 | Some n \<Rightarrow> n)"
proof (induction requests arbitrary: st outcomes st' calls)
  case Nil
  then show ?case
    by (simp add: grants_Nil)
next
  case (Cons request rest)
  obtain env ctx where request: "request = (env, ctx)"
    by (cases request)
  obtain outcome st1 calls1 where r1: "requestHook env cfg st ctx = (outcome, st1, calls1)"
    by (cases "requestHook env cfg st ctx") auto
  obtain outcomes2 st2 calls2 where r2: "run_requests cfg st1 rest = (outcomes2, st2, calls2)"
    by (cases "run_requests cfg st1 rest") auto
  from Cons.prems request r1 r2 have eq: "st' = st2" "calls = calls1 @ calls2"
    by simp_all
  from requestHook_FreeTrial_count [OF m r1, of e h] Cons.IH [OF r2] eq show ?case
    by (auto simp: grants_append)
qed

text \<open>A verified, registered agent in free-trial mode: the counter decides.\<close>

lemma requestHook_FreeTrial_decision:
  assumes m: "mode cfg = FreeTrial uses"
    and p: "verified_payload env cfg st ctx p" and h: "registered_human env cfg p = Some h"
    and r: "requestHook env cfg st ctx = (outcome, st', calls)"
  shows "(storage st \<noteq> None
          \<and> int (count_of st (path ctx) h) < (case uses of None \<Rightarrow> 1 | Some n \<Rightarrow> n)
          \<longrightarrow> outcome = GrantAccess \<and> count_of st' (path ctx) h = count_of st (path ctx) h + 1)
       \<and> ((case uses of None \<Rightarrow> 1 | Some n \<Rightarrow> n) \<le> int (count_of st (path ctx) h)
          \<longrightarrow> outcome = NoDecision
              \<and> map_option usage (storage st') = map_option usage (storage st))"
proof -
  from verified_payload_address [OF p] obtain a where a: "verified_address env cfg p = Some a"
    by auto
  from h a obtain humanId where
    book: "agentBook cfg a (p_chainId p) = Inr humanId" "truthy humanId" "the humanId = h"
    by (auto simp: registered_human_def split: sum.splits if_splits)
  let ?st1 = "after_recordNonce st (p_nonce p)"
  have count1: "count_of ?st1 (path ctx) h = count_of st (path ctx) h"
    by (rule after_recordNonce_count)
  have none1: "(storage ?st1 = None) = (storage st = None)"
    by (simp add: after_recordNonce_def split: option.split)
  obtain res st2 calls2 where
    md: "requestHook_mode env cfg ?st1 ctx a h = (res, st2, calls2)"
    by (cases "requestHook_mode env cfg ?st1 ctx a h") auto
  from requestHook_verified [OF p a] r book md
  have out: "outcome = (case res of Inl err \<Rightarrow> NoDecision | Inr decided \<Rightarrow> decided)"
    and st': "st' = st2"
    by (auto simp: Let_def split: sum.splits)
  show ?thesis
  proof (cases "storage ?st1")
    case None
    with none1 have "storage st = None"
      by simp
    with md out st' None show ?thesis
      by (auto simp: requestHook_mode_FreeTrial [OF m] count_of_def after_recordNonce_def)
  next
    case (Some s1)
    then have c: "count_of ?st1 (path ctx) h = getUsageCount s1 (path ctx) h"
      by (simp add: count_of_def)
    from md out st' Some c count1 none1 after_recordNonce_usage [of st "p_nonce p"] show ?thesis
      by (auto simp: requestHook_mode_FreeTrial [OF m] count_of_increment
          split: if_splits)
  qed
qed

text \<open>
  Claim C2. Let the mode be \<open>free-trial\<close> with limit \<open>N\<close> (\<open>uses\<close>, 1 by default), let
  any sequence of requests have been served from any state, and let the next request
  come from a verified agent registered for the human \<open>h\<close>, through whatever wallet.
  If a storage is there and the counter of \<open>(path, h)\<close> reads less than \<open>N\<close>, the
  request is granted access and the counter is one higher afterwards. If \<open>N\<close> free
  grants have been made for \<open>h\<close> on this path in the sequence, the request gets no
  decision and the usage map stays as it was. From a counter that starts at zero, no
  sequence makes more than \<open>N\<close> free grants for \<open>h\<close> on the path.
\<close>

theorem free_trial_limit:
  assumes "mode cfg = FreeTrial uses"
    and "run_requests cfg st0 requests = (outcomes, st, calls)"
    and "verified_payload env cfg st ctx p"
    and "registered_human env cfg p = Some h"
    and "requestHook env cfg st ctx = (outcome, st', calls')"
  shows "(storage st \<noteq> None
          \<and> int (count_of st (path ctx) h) < (case uses of None \<Rightarrow> 1 | Some n \<Rightarrow> n)
          \<longrightarrow> outcome = GrantAccess \<and> count_of st' (path ctx) h = count_of st (path ctx) h + 1)
       \<and> ((case uses of None \<Rightarrow> 1 | Some n \<Rightarrow> n) \<le> int (grants (path ctx) h calls)
          \<longrightarrow> outcome = NoDecision
              \<and> map_option usage (storage st') = map_option usage (storage st))
       \<and> (count_of st0 (path ctx) h = 0
          \<longrightarrow> int (grants (path ctx) h calls) \<le> max 0 (case uses of None \<Rightarrow> 1 | Some n \<Rightarrow> n))"
proof -
  let ?N = "case uses of None \<Rightarrow> 1 | Some n \<Rightarrow> n"
  note decision = requestHook_FreeTrial_decision [OF assms(1,3,4,5)]
  from run_requests_FreeTrial_count [OF assms(1,2), of "path ctx" h]
  have lower: "count_of st0 (path ctx) h + grants (path ctx) h calls \<le> count_of st (path ctx) h"
    and upper: "int (count_of st (path ctx) h) \<le> max (int (count_of st0 (path ctx) h)) ?N"
    by simp_all
  have c1: "storage st \<noteq> None \<and> int (count_of st (path ctx) h) < ?N
          \<longrightarrow> outcome = GrantAccess \<and> count_of st' (path ctx) h = count_of st (path ctx) h + 1"
    using decision by blast
  have c2: "?N \<le> int (grants (path ctx) h calls)
          \<longrightarrow> outcome = NoDecision
              \<and> map_option usage (storage st') = map_option usage (storage st)"
  proof
    assume "?N \<le> int (grants (path ctx) h calls)"
    with lower have "?N \<le> int (count_of st (path ctx) h)"
      by linarith
    with decision show "outcome = NoDecision
              \<and> map_option usage (storage st') = map_option usage (storage st)"
      by blast
  qed
  have c3: "count_of st0 (path ctx) h = 0 \<longrightarrow> int (grants (path ctx) h calls) \<le> max 0 ?N"
    using lower upper by auto
  show ?thesis
    by (intro conjI) (fact c1, fact c2, fact c3)
qed

text \<open>The request of wallet A in free-trial mode with the default limit, on the new
  in-memory storage.\<close>

lemma example_requestHook_FreeTrial_A:
  "requestHook example_env (example_config (FreeTrial None)) example_state example_request_A =
     (GrantAccess,
      \<lparr>storage = Some (incrementUsage
                         (recordNonce InMemoryAgentKitStorage (p_nonce example_payload_A))
                         ''/data'' ''0x1234''),
       pendingDiscounts = Map.empty\<rparr>,
      [CallGetHeader AGENTKIT,
       CallRecordNonce (p_nonce example_payload_A),
       CallLookupHuman (p_address example_payload_A) (p_chainId example_payload_A),
       CallGetUsageCount ''/data'' ''0x1234'',
       CallIncrementUsage ''/data'' ''0x1234'',
       Emit (agent_verified ''/data'' (p_address example_payload_A) ''0x1234'')])"
proof -
  let ?cfg = "example_config (FreeTrial None)"
  have v: "verified_payload example_env ?cfg example_state example_request_A example_payload_A"
    by (rule example_verified_A)
      (simp_all add: example_request_A_fields example_state_def InMemoryAgentKitStorage_def
        hasUsedNonce_def)
  have m: "mode ?cfg = FreeTrial None"
    by (simp add: example_config_fields)
  have st1: "after_recordNonce example_state (p_nonce example_payload_A) =
      \<lparr>storage = Some (recordNonce InMemoryAgentKitStorage (p_nonce example_payload_A)),
       pendingDiscounts = Map.empty\<rparr>"
    by (simp add: after_recordNonce_def example_state_def InMemoryAgentKitStorage_def)
  have zero: "getUsageCount (recordNonce InMemoryAgentKitStorage (p_nonce example_payload_A))
                ''/data'' ''0x1234'' = 0"
    by (simp add: getUsageCount_def recordNonce_def InMemoryAgentKitStorage_def)
  have s0: "storage example_state = Some InMemoryAgentKitStorage"
    by (simp add: example_state_def)
  have rec: "provides_recordNonce InMemoryAgentKitStorage"
    by (simp add: InMemoryAgentKitStorage_def)
  show ?thesis
    using requestHook_verified [OF v example_verified_address_A]
    by (simp add: Let_def example_config_fields example_agentBook_A
        requestHook_mode_FreeTrial [OF m] example_request_A_fields st1 zero s0 rec)
qed

theorem free_trial_limit_witness:
  "mode (example_config (FreeTrial None)) = FreeTrial None
   \<and> verified_payload example_env (example_config (FreeTrial None)) example_state
        example_request_A example_payload_A
   \<and> registered_human example_env (example_config (FreeTrial None)) example_payload_A
       = Some ''0x1234''
   \<and> storage example_state \<noteq> None
   \<and> count_of example_state (path example_request_A) ''0x1234'' = 0
   \<and> fst (requestHook example_env (example_config (FreeTrial None)) example_state
            example_request_A) = GrantAccess
   \<and> count_of (fst (snd (requestHook example_env (example_config (FreeTrial None))
                           example_state example_request_A)))
        (path example_request_A) ''0x1234'' = 1
   \<and> grants (path example_request_B) ''0x1234''
        (snd (snd (run_requests (example_config (FreeTrial None)) example_state
                     [(example_env, example_request_A)]))) = 1
   \<and> verified_payload example_env (example_config (FreeTrial None))
        (fst (snd (run_requests (example_config (FreeTrial None)) example_state
                     [(example_env, example_request_A)])))
        example_request_B example_payload_B
   \<and> registered_human example_env (example_config (FreeTrial None)) example_payload_B
       = Some ''0x1234''
   \<and> fst (requestHook example_env (example_config (FreeTrial None))
            (fst (snd (run_requests (example_config (FreeTrial None)) example_state
                         [(example_env, example_request_A)])))
            example_request_B) = NoDecision"
proof -
  let ?cfg = "example_config (FreeTrial None)"
  let ?st1 = "\<lparr>storage = Some (incrementUsage
                         (recordNonce InMemoryAgentKitStorage (p_nonce example_payload_A))
                         ''/data'' ''0x1234''),
               pendingDiscounts = Map.empty\<rparr>"
  let ?calls1 = "[CallGetHeader AGENTKIT,
       CallRecordNonce (p_nonce example_payload_A),
       CallLookupHuman (p_address example_payload_A) (p_chainId example_payload_A),
       CallGetUsageCount ''/data'' ''0x1234'',
       CallIncrementUsage ''/data'' ''0x1234'',
       Emit (agent_verified ''/data'' (p_address example_payload_A) ''0x1234'')]"
  have m: "mode ?cfg = FreeTrial None"
    by (simp add: example_config_fields)
  have vA: "verified_payload example_env ?cfg example_state example_request_A example_payload_A"
    by (rule example_verified_A)
      (simp_all add: example_request_A_fields example_state_def InMemoryAgentKitStorage_def
        hasUsedNonce_def)
  have hA: "registered_human example_env ?cfg example_payload_A = Some ''0x1234''"
    by (rule example_registered_A)
  have hB: "registered_human example_env ?cfg example_payload_B = Some ''0x1234''"
    by (rule example_registered_B)
  have s0: "storage example_state \<noteq> None"
    by (simp add: example_state_def)
  have zero: "count_of example_state (path example_request_A) ''0x1234'' = 0"
    by (simp add: count_of_def example_state_def getUsageCount_def InMemoryAgentKitStorage_def)
  have run0: "run_requests ?cfg example_state [] = ([], example_state, [])"
    by simp
  have rA: "requestHook example_env ?cfg example_state example_request_A
              = (GrantAccess, ?st1, ?calls1)"
    by (rule example_requestHook_FreeTrial_A)
  from free_trial_limit [OF m run0 vA hA rA, THEN conjunct1] s0 zero
  have first: "count_of ?st1 (path example_request_A) ''0x1234'' = 1"
    by simp
  have run1: "run_requests ?cfg example_state [(example_env, example_request_A)]
                = ([GrantAccess], ?st1, ?calls1)"
    by (simp add: rA)
  have g: "grants (path example_request_B) ''0x1234'' ?calls1 = 1"
    by (simp add: grants_def example_request_B_fields)
  have vB: "verified_payload example_env ?cfg ?st1 example_request_B example_payload_B"
    by (rule example_verified_B)
      (simp_all add: example_request_B_fields incrementUsage_def recordNonce_def
        InMemoryAgentKitStorage_def hasUsedNonce_def Let_def
        example_payload_A_def example_payload_B_def)
  obtain outcome st' calls' where
    rB: "requestHook example_env ?cfg ?st1 example_request_B = (outcome, st', calls')"
    by (cases "requestHook example_env ?cfg ?st1 example_request_B") auto
  from free_trial_limit [OF m run1 vB hB rB, THEN conjunct2, THEN conjunct1] g
  have "outcome = NoDecision"
    by simp
  with rB have second: "fst (requestHook example_env ?cfg ?st1 example_request_B) = NoDecision"
    by simp
  show ?thesis
    using m vA hA s0 zero rA first run1 g vB hB second
    by simp
qed

section \<open>Discount recovery\<close>

lemma bigint_div_nonneg: "0 \<le> a \<Longrightarrow> bigint_div a 100 = a div 100"
  by (cases "a = 0") (simp_all add: bigint_div_def)

lemma bigint_div_nonpos: "a \<le> 0 \<Longrightarrow> bigint_div a 100 = - ((- a) div 100)"
  by (cases "a = 0") (simp_all add: bigint_div_def)

text \<open>For an amount that is not negative, truncation is the floor.\<close>

lemma discountedAmount_floor:
  assumes "0 \<le> R" and "percent \<le> 100"
  shows "discountedAmount R percent = R * (100 - percent) div 100"
proof -
  from assms have "0 \<le> R * (100 - percent)"
    by simp
  then show ?thesis
    by (simp add: discountedAmount_def bigint_div_nonneg)
qed

text \<open>For a negative amount the two may differ, but then neither leaves room for a
  payment below the amount.\<close>

lemma discountedAmount_negative:
  assumes "R < 0" and "0 \<le> percent" and "percent \<le> 100"
  shows "R \<le> discountedAmount R percent" and "R \<le> R * (100 - percent) div 100"
proof -
  from assms have np: "percent * R \<le> 0"
    by (simp add: mult_nonneg_nonpos)
  have a: "R * (100 - percent) = 100 * R - percent * R"
    by (simp add: algebra_simps)
  from assms have nonpos: "R * (100 - percent) \<le> 0"
    by (simp add: mult_nonpos_nonneg)
  have "(- (R * (100 - percent))) div 100 \<le> - R"
  proof -
    have "- (R * (100 - percent)) \<le> (- R) * 100"
      using a np assms(2) assms(1) by (simp add: algebra_simps mult_nonneg_nonpos)
    then have "(- (R * (100 - percent))) div 100 \<le> ((- R) * 100) div 100"
      by (rule zdiv_mono1) simp
    then show ?thesis
      by simp
  qed
  then show "R \<le> discountedAmount R percent"
    by (simp add: discountedAmount_def bigint_div_nonpos [OF nonpos])
  have "R * 100 \<le> R * (100 - percent)"
    using a np by simp
  then have "(R * 100) div 100 \<le> (R * (100 - percent)) div 100"
    by (rule zdiv_mono1) simp
  then show "R \<le> R * (100 - percent) div 100"
    by simp
qed

lemma discount_window:
  assumes "0 \<le> percent" and "percent \<le> 100"
  shows "(discountedAmount R percent \<le> paid \<and> paid < R)
         \<longleftrightarrow> (R * (100 - percent) div 100 \<le> paid \<and> paid < R)"
proof (cases "0 \<le> R")
  case True
  with assms show ?thesis
    by (simp add: discountedAmount_floor)
next
  case False
  then have "R < 0"
    by simp
  from discountedAmount_negative [OF this assms] show ?thesis
    by linarith
qed

text \<open>What the constructor guarantees in discount mode.\<close>

lemma createAgentkitHooks_Discount:
  assumes "o_mode options = Some (Discount percent uses)"
    and "createAgentkitHooks options = Inr hooks"
  shows "1 \<le> percent \<and> percent \<le> 100 \<and> o_storage options \<noteq> None
         \<and> h_verifyFailureHook hooks = Some (\<lambda>env. verifyFailureHook env percent uses)"
  using assms
  by (auto simp: createAgentkitHooks_def Let_def split: if_splits)

text \<open>The verify-failure hook once the URL parses, a storage is there, and both
  amounts are integers.\<close>

lemma verifyFailureHook_decision:
  assumes percent: "0 \<le> percent" "percent \<le> 100"
    and url: "URL_new env (resource_url ctx) = Some u"
    and s: "storage st = Some s"
    and R: "BigInt (requirements_amount ctx) = Some R"
    and paid: "extractPaidAmount (payload ctx) = Some paid"
  shows "verifyFailureHook env percent uses st ctx =
     (let payer = extractPayer (payload ctx);
          key = pathname u @ '':'' @ the payer;
          st1 = (if truthy payer then st\<lparr>pendingDiscounts := (pendingDiscounts st)(key := None)\<rparr>
                 else st)
      in case (if truthy payer then pendingDiscounts st key else None) of
           None \<Rightarrow> (Inr NoRecovery, st1, requirements_amount ctx, [])
         | Some entry \<Rightarrow>
             if \<not> isUnderpaymentError (error_message ctx) then
               (Inr NoRecovery, st1, requirements_amount ctx, [])
             else if (case uses of
                        None \<Rightarrow> False
                      | Some n \<Rightarrow> n \<le> int (getUsageCount s (pathname u) (pd_humanId entry))) then
               (Inr NoRecovery, st1, requirements_amount ctx,
                [CallGetUsageCount (pathname u) (pd_humanId entry),
                 Emit (discount_exhausted (pathname u) (pd_address entry) (pd_humanId entry))])
             else if R * (100 - percent) div 100 \<le> paid \<and> paid < R then
               (Inr (Recovered True (Some (pd_address entry))),
                st1\<lparr>storage := Some (incrementUsage s (pathname u) (pd_humanId entry))\<rparr>,
                String_of_bigint paid,
                [CallGetUsageCount (pathname u) (pd_humanId entry),
                 CallIncrementUsage (pathname u) (pd_humanId entry),
                 Emit (discount_applied (pathname u) (pd_address entry) (pd_humanId entry))])
             else
               (Inr NoRecovery, st1, requirements_amount ctx,
                [CallGetUsageCount (pathname u) (pd_humanId entry)]))"
proof -
  have w: "(R * (100 - percent) div 100 \<le> paid \<and> paid < R)
           = (\<not> paid < discountedAmount R percent \<and> \<not> R \<le> paid)"
    using discount_window [OF percent, of R paid] by auto
  show ?thesis
    unfolding w
    by (simp add: verifyFailureHook_def Let_def url s R paid split: option.split)
qed

text \<open>
  Claim C1, as amended. Let the hooks be created in discount mode with \<open>percent\<close>
  and \<open>uses\<close>, let the resource URL parse, a storage be there, the required amount be
  the integer string of \<open>R\<close> and the payload carry the paid amount \<open>paid\<close>. Where
  \<open>R\<close> is not negative, the hook's \<open>discountedAmount\<close> is
  \<open>floor(R * (100 - percent) / 100)\<close>. For every integer \<open>R\<close>, the hook returns the
  recovered result, with the payer of the pending record, the usage counter
  incremented, the pending record removed and \<open>requirements.amount\<close> set to the paid
  amount, exactly when a pending record exists, the error is an underpayment, the
  cap is not reached and \<open>floor(R * (100 - percent) / 100) \<le> paid < R\<close>; otherwise it
  returns no decision and leaves the amount and the storage as they were. In
  particular it returns no decision when \<open>paid\<close> is below the floor or at least \<open>R\<close>.
\<close>

theorem discount_recovery:
  assumes "o_mode options = Some (Discount percent uses)"
    and "createAgentkitHooks options = Inr hooks"
    and "URL_new env (resource_url ctx) = Some u"
    and "storage st = Some s"
    and "BigInt (requirements_amount ctx) = Some R"
    and "extractPaidAmount (payload ctx) = Some paid"
  shows "\<exists>hook.
           h_verifyFailureHook hooks = Some hook
           \<and> (0 \<le> R \<longrightarrow> discountedAmount R percent = R * (100 - percent) div 100)
           \<and> (\<forall>entry.
                 recoverable percent uses (pathname u) st ctx R paid entry \<longrightarrow>
                 hook env st ctx =
                   (Inr (Recovered True (Some (pd_address entry))),
                    st\<lparr>pendingDiscounts :=
                         (pendingDiscounts st)
                           (pathname u @ '':'' @ the (extractPayer (payload ctx)) := None),
                       storage := Some (incrementUsage s (pathname u) (pd_humanId entry))\<rparr>,
                    String_of_bigint paid,
                    [CallGetUsageCount (pathname u) (pd_humanId entry),
                     CallIncrementUsage (pathname u) (pd_humanId entry),
                     Emit (discount_applied (pathname u) (pd_address entry) (pd_humanId entry))]))
           \<and> ((\<forall>entry. \<not> recoverable percent uses (pathname u) st ctx R paid entry) \<longrightarrow>
                 fst (hook env st ctx) = Inr NoRecovery
                 \<and> fst (snd (snd (hook env st ctx))) = requirements_amount ctx
                 \<and> storage (fst (snd (hook env st ctx))) = Some s)
           \<and> (paid < R * (100 - percent) div 100 \<or> R \<le> paid \<longrightarrow>
                 fst (hook env st ctx) = Inr NoRecovery)"
proof -
  from createAgentkitHooks_Discount [OF assms(1,2)]
  have percent: "0 \<le> percent" "percent \<le> 100"
    and hook: "h_verifyFailureHook hooks = Some (\<lambda>env. verifyFailureHook env percent uses)"
    by simp_all
  note d = verifyFailureHook_decision [OF percent assms(3,4,5,6), of uses]
  have cnt: "count_of st e h = getUsageCount s e h" for e h
    by (simp add: count_of_def assms(4))
  have c1: "0 \<le> R \<longrightarrow> discountedAmount R percent = R * (100 - percent) div 100"
    using percent by (simp add: discountedAmount_floor)
  have c2: "\<forall>entry.
      recoverable percent uses (pathname u) st ctx R paid entry \<longrightarrow>
      verifyFailureHook env percent uses st ctx =
        (Inr (Recovered True (Some (pd_address entry))),
         st\<lparr>pendingDiscounts :=
              (pendingDiscounts st)
                (pathname u @ '':'' @ the (extractPayer (payload ctx)) := None),
            storage := Some (incrementUsage s (pathname u) (pd_humanId entry))\<rparr>,
         String_of_bigint paid,
         [CallGetUsageCount (pathname u) (pd_humanId entry),
          CallIncrementUsage (pathname u) (pd_humanId entry),
          Emit (discount_applied (pathname u) (pd_address entry) (pd_humanId entry))])"
    by (auto simp: d recoverable_def cnt Let_def split: option.splits)
  have c3: "(\<forall>entry. \<not> recoverable percent uses (pathname u) st ctx R paid entry) \<longrightarrow>
      fst (verifyFailureHook env percent uses st ctx) = Inr NoRecovery
      \<and> fst (snd (snd (verifyFailureHook env percent uses st ctx))) = requirements_amount ctx
      \<and> storage (fst (snd (verifyFailureHook env percent uses st ctx))) = Some s"
    by (auto simp: d recoverable_def cnt Let_def assms(4) split: option.splits)
  have c4: "paid < R * (100 - percent) div 100 \<or> R \<le> paid \<longrightarrow>
      fst (verifyFailureHook env percent uses st ctx) = Inr NoRecovery"
    by (auto simp: d Let_def split: option.splits)
  from hook c1 c2 c3 c4 show ?thesis
    by simp
qed

lemma example_BigInt: "BigInt ''1000'' = Some 1000" "BigInt ''500'' = Some 500"
  "BigInt ''400'' = Some 400"
  by (simp_all add: BigInt_def trim_def is_space_def startsWith_def toLowerCase_def
      lower_char_def unsigned_digits_def digit_val_def)

theorem discount_recovery_witness:
  "o_mode example_discount_options = Some (Discount 50 (Some 10))
   \<and> URL_new example_env (resource_url example_failure)
       = Some \<lparr>hostname = ''api.x'', origin = ''https://api.x'', pathname = ''/data''\<rparr>
   \<and> storage example_pending_state = Some InMemoryAgentKitStorage
   \<and> BigInt (requirements_amount example_failure) = Some 1000
   \<and> extractPaidAmount (payload example_failure) = Some 500
   \<and> extractPaidAmount (payload example_failure_400) = Some 400
   \<and> discountedAmount 1000 50 = 500
   \<and> (\<exists>hooks hook.
         createAgentkitHooks example_discount_options = Inr hooks
         \<and> h_verifyFailureHook hooks = Some hook
         \<and> fst (hook example_env example_pending_state example_failure)
             = Inr (Recovered True (Some ''0x5B38Da6a701c568545dCfcB03FcB875f56beddC4''))
         \<and> fst (snd (snd (hook example_env example_pending_state example_failure))) = ''500''
         \<and> count_of (fst (snd (hook example_env example_pending_state example_failure)))
              ''/data'' ''0x1234'' = 1
         \<and> fst (hook example_env example_pending_state example_failure_400) = Inr NoRecovery
         \<and> fst (snd (snd (hook example_env example_pending_state example_failure_400)))
             = ''1000'')"
proof -
  let ?u = "\<lparr>hostname = ''api.x'', origin = ''https://api.x'', pathname = ''/data''\<rparr>"
  let ?entry = "\<lparr>pd_humanId = ''0x1234'', pd_address = p_address example_payload_A,
                 pd_createdAt = 1767225660000\<rparr>"
  have m: "o_mode example_discount_options = Some (Discount 50 (Some 10))"
    by (simp add: example_discount_options_def)
  obtain hooks where c: "createAgentkitHooks example_discount_options = Inr hooks"
    by (simp add: createAgentkitHooks_def example_discount_options_def Let_def)
  have url: "URL_new example_env (resource_url example_failure) = Some ?u"
    by (simp add: example_env_def example_failure_def example_URL_data)
  have url4: "URL_new example_env (resource_url example_failure_400) = Some ?u"
    by (simp add: example_env_def example_failure_def example_failure_400_def example_URL_data)
  have s: "storage example_pending_state = Some InMemoryAgentKitStorage"
    by (simp add: example_pending_state_def)
  have R: "BigInt (requirements_amount example_failure) = Some 1000"
    by (simp add: example_failure_def example_BigInt)
  have R4: "BigInt (requirements_amount example_failure_400) = Some 1000"
    by (simp add: example_failure_def example_failure_400_def example_BigInt)
  have paid: "extractPaidAmount (payload example_failure) = Some 500"
    by (simp add: example_failure_def extractPaidAmount_def example_BigInt)
  have paid4: "extractPaidAmount (payload example_failure_400) = Some 400"
    by (simp add: example_failure_400_def extractPaidAmount_def example_BigInt)
  have under: "isUnderpaymentError (error_message example_failure)"
    by (simp add: example_failure_def isUnderpaymentError_def UNDERPAYMENT_REASONS_def)
  have ok: "recoverable 50 (Some 10) (pathname ?u) example_pending_state example_failure
              1000 500 ?entry"
    using under
    by (simp add: recoverable_def example_failure_def extractPayer_def example_pending_state_def
        example_address_nonempty count_of_def getUsageCount_def InMemoryAgentKitStorage_def)
  have no: "\<forall>entry. \<not> recoverable 50 (Some 10) (pathname ?u) example_pending_state
              example_failure_400 1000 400 entry"
    by (simp add: recoverable_def)
  from discount_recovery [OF m c url s R paid] obtain hook where
    h: "h_verifyFailureHook hooks = Some hook"
    and d: "discountedAmount 1000 50 = 1000 * (100 - 50) div 100"
    and yes: "\<And>entry.
       recoverable 50 (Some 10) (pathname ?u) example_pending_state example_failure 1000 500 entry
       \<Longrightarrow> hook example_env example_pending_state example_failure =
         (Inr (Recovered True (Some (pd_address entry))),
          example_pending_state
            \<lparr>pendingDiscounts :=
               (pendingDiscounts example_pending_state)
                 (pathname ?u @ '':'' @ the (extractPayer (payload example_failure)) := None),
             storage := Some (incrementUsage InMemoryAgentKitStorage (pathname ?u)
                               (pd_humanId entry))\<rparr>,
          String_of_bigint 500,
          [CallGetUsageCount (pathname ?u) (pd_humanId entry),
           CallIncrementUsage (pathname ?u) (pd_humanId entry),
           Emit (discount_applied (pathname ?u) (pd_address entry) (pd_humanId entry))])"
    by auto
  from discount_recovery [OF m c url4 s R4 paid4] h no
  have not4: "fst (hook example_env example_pending_state example_failure_400) = Inr NoRecovery"
    "fst (snd (snd (hook example_env example_pending_state example_failure_400)))
       = requirements_amount example_failure_400"
    by auto
  have five: "String_of_bigint 500 = ''500''"
    by (simp add: String_of_bigint_def digits_of.simps digit_char_def)
  have r1: "fst (hook example_env example_pending_state example_failure)
             = Inr (Recovered True (Some ''0x5B38Da6a701c568545dCfcB03FcB875f56beddC4''))"
    using yes [OF ok] by (simp add: example_payload_A_def)
  have r2: "fst (snd (snd (hook example_env example_pending_state example_failure))) = ''500''"
    using yes [OF ok] five by simp
  have r3: "count_of (fst (snd (hook example_env example_pending_state example_failure)))
              ''/data'' ''0x1234'' = 1"
    using yes [OF ok]
    by (simp add: count_of_increment getUsageCount_def InMemoryAgentKitStorage_def)
  have r5: "fst (snd (snd (hook example_env example_pending_state example_failure_400)))
             = ''1000''"
    using not4 by (simp add: example_failure_400_def example_failure_def)
  have d': "discountedAmount 1000 50 = 500"
    using d by simp
  from c h r1 r2 r3 not4(1) r5
  have ex: "\<exists>hooks hook.
         createAgentkitHooks example_discount_options = Inr hooks
         \<and> h_verifyFailureHook hooks = Some hook
         \<and> fst (hook example_env example_pending_state example_failure)
             = Inr (Recovered True (Some ''0x5B38Da6a701c568545dCfcB03FcB875f56beddC4''))
         \<and> fst (snd (snd (hook example_env example_pending_state example_failure))) = ''500''
         \<and> count_of (fst (snd (hook example_env example_pending_state example_failure)))
              ''/data'' ''0x1234'' = 1
         \<and> fst (hook example_env example_pending_state example_failure_400) = Inr NoRecovery
         \<and> fst (snd (snd (hook example_env example_pending_state example_failure_400)))
             = ''1000''"
    by blast
  show ?thesis
    by (intro conjI) (fact m, fact url, fact s, fact R, fact paid, fact paid4, fact d', fact ex)
qed

text \<open>
  Claim C1 as stated fails for a negative amount: \<open>BigInt\<close> accepts the integer string
  \<open>-1\<close>, and the division of bigints truncates towards zero, so at 50 percent the hook
  computes the discounted amount 0, while the floor of \<open>-50 / 100\<close> is \<open>-1\<close>.
\<close>

theorem discountedAmount_negative_counterexample:
  "BigInt ''-1'' = Some (- 1)
   \<and> discountedAmount (- 1) 50 = 0
   \<and> (- 1) * (100 - 50) div 100 = (- 1 :: int)
   \<and> discountedAmount (- 1) 50 \<noteq> (- 1) * (100 - 50) div 100"
  by (simp add: BigInt_def trim_def is_space_def startsWith_def toLowerCase_def
      lower_char_def unsigned_digits_def digit_val_def discountedAmount_def bigint_div_def)

end
